theory Spec2Isabelle
  imports Main "HOL-Library.Word"
begin

section \<open>JavaScript strings and errors\<close>

text \<open>
  A JavaScript string is a sequence of UTF-16 code units; \<open>length\<close>, \<open>slice\<close>,
  \<open>includes\<close> and \<open>===\<close> all work on code units. \<open>js\<close> embeds an ASCII literal.
\<close>

type_synonym js_string = "16 word list"

definition js :: "string \<Rightarrow> js_string" where
  "js s = map (\<lambda>c. of_nat (of_char c)) s"

text \<open>A thrown exception is a value: the constructor is the error class, the argument its message.\<close>

datatype js_exn =
    Error js_string
  | RangeError js_string
  | SyntaxError js_string

definition and_then :: "'e + 'a \<Rightarrow> ('a \<Rightarrow> 'e + 'b) \<Rightarrow> 'e + 'b" where
  "and_then m f = (case m of Inl e \<Rightarrow> Inl e | Inr x \<Rightarrow> f x)"

text \<open>Template literals render a non-negative integer in decimal.\<close>

fun decimal :: "nat \<Rightarrow> js_string" where
  "decimal n = (if n < 10 then [of_nat (48 + n)] else decimal (n div 10) @ [of_nat (48 + n mod 10)])"

declare decimal.simps [simp del]

text \<open>
  The string of a bigint: its decimal digits, with a minus sign when negative.
\<close>

definition bigint_toString :: "int \<Rightarrow> js_string" where
  "bigint_toString i = (if i < 0 then js ''-'' @ decimal (nat (- i)) else decimal (nat i))"

text \<open>
  \<open>String.prototype.toLowerCase\<close>: the letters A to Z map to a to z; KELVIN SIGN
  (U+212A) maps to k and LATIN CAPITAL LETTER I WITH DOT ABOVE (U+0130) to i followed
  by U+0307. Every other code unit is mapped by the Unicode default case conversion to
  code units outside ASCII and is left as it is here.
\<close>

definition toLowerCase_unit :: "16 word \<Rightarrow> js_string" where
  "toLowerCase_unit c =
     (if 0x41 \<le> c \<and> c \<le> 0x5A then [c + 0x20]
      else if c = 0x212A then [0x6B]
      else if c = 0x130 then [0x69, 0x307]
      else [c])"

definition toLowerCase :: "js_string \<Rightarrow> js_string" where
  "toLowerCase s = concat (map toLowerCase_unit s)"

definition startsWith :: "js_string \<Rightarrow> js_string \<Rightarrow> bool" where
  "startsWith s pat = (take (length pat) s = pat)"

definition endsWith :: "js_string \<Rightarrow> js_string \<Rightarrow> bool" where
  "endsWith s pat = (length pat \<le> length s \<and> drop (length s - length pat) s = pat)"

fun includes_js :: "js_string \<Rightarrow> js_string \<Rightarrow> bool" where
  "includes_js [] pat = (pat = [])"
| "includes_js (c # cs) pat = (startsWith (c # cs) pat \<or> includes_js cs pat)"

text \<open>
  \<open>String.prototype.trim\<close> removes white space and line terminators at both ends.
\<close>

definition is_whitespace :: "16 word \<Rightarrow> bool" where
  "is_whitespace c =
     (c \<in> {0x09, 0x0A, 0x0B, 0x0C, 0x0D, 0x20, 0xA0, 0x1680, 0x2028, 0x2029, 0x202F, 0x205F,
            0x3000, 0xFEFF}
      \<or> (0x2000 \<le> c \<and> c \<le> 0x200A))"

definition trim :: "js_string \<Rightarrow> js_string" where
  "trim s = rev (dropWhile is_whitespace (rev (dropWhile is_whitespace s)))"

section \<open>Byte buffers and public keys\<close>

type_synonym byte = "8 word"
type_synonym buffer = "byte list"

definition hex_digit :: "nat \<Rightarrow> 16 word" where
  "hex_digit d = (if d < 10 then of_nat (48 + d) else of_nat (87 + d))"

definition toString_hex :: "buffer \<Rightarrow> js_string" where
  "toString_hex buf = concat (map (\<lambda>b. [hex_digit (unat b div 16), hex_digit (unat b mod 16)]) buf)"

definition subarray :: "buffer \<Rightarrow> nat \<Rightarrow> nat \<Rightarrow> buffer" where
  "subarray buf s e = drop s (take e buf)"

definition out_of_range :: "js_exn" where
  "out_of_range = RangeError (js ''Attempt to access memory outside buffer bounds'')"

text \<open>Little-endian value of a byte sequence, least significant byte first.\<close>

fun le_nat :: "buffer \<Rightarrow> nat" where
  "le_nat [] = 0"
| "le_nat (b # bs) = unat b + 256 * le_nat bs"

definition readUInt8 :: "buffer \<Rightarrow> nat \<Rightarrow> js_exn + nat" where
  "readUInt8 buf off = (if off < length buf then Inr (unat (buf ! off)) else Inl out_of_range)"

definition readUInt16LE :: "buffer \<Rightarrow> nat \<Rightarrow> js_exn + nat" where
  "readUInt16LE buf off =
     (if off + 2 \<le> length buf then Inr (le_nat (subarray buf off (off + 2))) else Inl out_of_range)"

definition readBigUInt64LE :: "buffer \<Rightarrow> nat \<Rightarrow> js_exn + nat" where
  "readBigUInt64LE buf off =
     (if off + 8 \<le> length buf then Inr (le_nat (subarray buf off (off + 8))) else Inl out_of_range)"

definition readBigInt64LE :: "buffer \<Rightarrow> nat \<Rightarrow> js_exn + int" where
  "readBigInt64LE buf off =
     (if off + 8 \<le> length buf
      then (let n = le_nat (subarray buf off (off + 8))
            in Inr (if n < 2 ^ 63 then int n else int n - 2 ^ 64))
      else Inl out_of_range)"

text \<open>
  A Solana public key is 32 bytes. The constructor of the client library takes a byte
  array, rejects more than 32 bytes and left-pads fewer with zeros.
\<close>

datatype pubkey = PublicKey (toBytes: buffer)

definition new_PublicKey :: "buffer \<Rightarrow> js_exn + pubkey" where
  "new_PublicKey bs =
     (if length bs > 32 then Inl (Error (js ''Invalid public key input''))
      else Inr (PublicKey (replicate (32 - length bs) 0 @ bs)))"


section \<open>Escrow client: decoding the on-chain account\<close>

record escrow_state =
  es_v :: nat
  es_status :: nat
  es_paymentHashHex :: js_string
  es_recipient :: pubkey
  es_refund :: pubkey
  es_refundAfter :: int
  es_mint :: pubkey
  es_amount :: nat
  es_netAmount :: nat
  es_feeAmount :: nat
  es_feeBps :: nat
  es_feeCollector :: "pubkey option"
  es_vault :: pubkey
  es_bump :: nat

definition decodeEscrowState_v1 :: "buffer \<Rightarrow> nat \<Rightarrow> js_exn + escrow_state" where
  "decodeEscrowState_v1 buf v =
     (if length buf < 179 then Inl (Error (js ''Escrow account too small (v1)''))
      else
        and_then (readUInt8 buf 1) (\<lambda>status.
        let paymentHash = subarray buf 2 34 in
        and_then (new_PublicKey (subarray buf 34 66)) (\<lambda>recipient.
        and_then (new_PublicKey (subarray buf 66 98)) (\<lambda>refund.
        and_then (readBigInt64LE buf 98) (\<lambda>refundAfter.
        and_then (new_PublicKey (subarray buf 106 138)) (\<lambda>mint.
        and_then (readBigUInt64LE buf 138) (\<lambda>amount.
        and_then (new_PublicKey (subarray buf 146 178)) (\<lambda>vault.
        and_then (readUInt8 buf 178) (\<lambda>bump.
        Inr \<lparr> es_v = v, es_status = status, es_paymentHashHex = toString_hex paymentHash,
              es_recipient = recipient, es_refund = refund, es_refundAfter = refundAfter,
              es_mint = mint, es_amount = amount, es_netAmount = amount, es_feeAmount = 0,
              es_feeBps = 0, es_feeCollector = None, es_vault = vault, es_bump = bump \<rparr>)))))))))"

definition decodeEscrowState_v2 :: "buffer \<Rightarrow> nat \<Rightarrow> js_exn + escrow_state" where
  "decodeEscrowState_v2 buf v =
     (if length buf < 221 then Inl (Error (js ''Escrow account too small (v2)''))
      else
        and_then (readUInt8 buf 1) (\<lambda>status.
        let paymentHash = subarray buf 2 34 in
        and_then (new_PublicKey (subarray buf 34 66)) (\<lambda>recipient.
        and_then (new_PublicKey (subarray buf 66 98)) (\<lambda>refund.
        and_then (readBigInt64LE buf 98) (\<lambda>refundAfter.
        and_then (new_PublicKey (subarray buf 106 138)) (\<lambda>mint.
        and_then (readBigUInt64LE buf 138) (\<lambda>netAmount.
        and_then (readBigUInt64LE buf 146) (\<lambda>feeAmount.
        and_then (readUInt16LE buf 154) (\<lambda>feeBps.
        and_then (new_PublicKey (subarray buf 156 188)) (\<lambda>feeCollector.
        and_then (new_PublicKey (subarray buf 188 220)) (\<lambda>vault.
        and_then (readUInt8 buf 220) (\<lambda>bump.
        Inr \<lparr> es_v = v, es_status = status, es_paymentHashHex = toString_hex paymentHash,
              es_recipient = recipient, es_refund = refund, es_refundAfter = refundAfter,
              es_mint = mint, es_amount = netAmount, es_netAmount = netAmount,
              es_feeAmount = feeAmount, es_feeBps = feeBps,
              es_feeCollector = Some feeCollector, es_vault = vault, es_bump = bump \<rparr>))))))))))))"

definition decodeEscrowState :: "buffer \<Rightarrow> js_exn + escrow_state" where
  "decodeEscrowState buf =
     and_then (readUInt8 buf 0) (\<lambda>v.
       if v = 1 then decodeEscrowState_v1 buf v
       else if v = 2 then decodeEscrowState_v2 buf v
       else Inl (Error (js ''Unsupported escrow version v='' @ decimal v)))"

text \<open>A 221-byte account image used to exercise the decoder.\<close>

definition sample_escrow_account :: buffer where
  "sample_escrow_account =
     [2, 0] @ replicate 32 0x11 @ replicate 32 0x22 @ replicate 32 0x33
     @ [0x80, 0x51, 0x01, 0, 0, 0, 0, 0] @ replicate 32 0x44
     @ [0x40, 0x42, 0x0F, 0, 0, 0, 0, 0] @ [0x10, 0x27, 0, 0, 0, 0, 0, 0] @ [100, 0]
     @ replicate 32 0x55 @ replicate 32 0x66 @ [255]"


section \<open>Escrow client: program addresses and the on-chain check before payment\<close>

definition is_lower_hex :: "16 word \<Rightarrow> bool" where
  "is_lower_hex c = ((0x30 \<le> c \<and> c \<le> 0x39) \<or> (0x61 \<le> c \<and> c \<le> 0x66))"

definition hex_value :: "16 word \<Rightarrow> nat" where
  "hex_value c = (if c \<le> 0x39 then unat c - 48 else unat c - 87)"

fun bytes_of_hex :: "js_string \<Rightarrow> buffer" where
  "bytes_of_hex (a # b # rest) = of_nat (16 * hex_value a + hex_value b) # bytes_of_hex rest"
| "bytes_of_hex _ = []"

definition hexToBytes :: "js_string \<Rightarrow> js_exn + buffer" where
  "hexToBytes hex =
     (let h = toLowerCase (trim hex) in
      if h = [] \<or> \<not> list_all is_lower_hex h \<or> length h mod 2 \<noteq> 0
      then Inl (Error (js ''Invalid hex''))
      else Inr (bytes_of_hex h))"

text \<open>
  The collaborators from the Solana libraries and the language: the base58 reader and
  writer of public keys, the search for a program-derived address, the address of an
  associated token account (mint first, owner second), and \<open>BigInt\<close> on a string
  (\<open>None\<close> when it throws a \<open>SyntaxError\<close>).
\<close>

record solana_lib =
  lib_fromBase58 :: "js_string \<Rightarrow> pubkey option"
  lib_toBase58 :: "pubkey \<Rightarrow> js_string"
  lib_findProgramAddressSync :: "buffer list \<Rightarrow> pubkey \<Rightarrow> pubkey \<times> nat"
  lib_getAssociatedTokenAddress :: "pubkey \<Rightarrow> pubkey \<Rightarrow> pubkey"
  lib_BigInt :: "js_string \<Rightarrow> int option"

record token_account =
  ta_owner :: pubkey
  ta_mint :: pubkey
  ta_amount :: nat

text \<open>
  The RPC connection: the data of an account at a commitment (\<open>None\<close> when there is no
  such account) and the token account behind an address; either call may throw.
\<close>

record connection =
  conn_getAccountInfo :: "pubkey \<Rightarrow> js_string \<Rightarrow> js_exn + buffer option"
  conn_getAccount :: "pubkey \<Rightarrow> js_string \<Rightarrow> js_exn + token_account"

definition ESCROW_SEED :: buffer where
  "ESCROW_SEED = [0x65, 0x73, 0x63, 0x72, 0x6F, 0x77]"

definition deriveEscrowPda :: "solana_lib \<Rightarrow> js_string \<Rightarrow> pubkey \<Rightarrow> js_exn + pubkey \<times> nat" where
  "deriveEscrowPda lib paymentHashHex programId =
     and_then (hexToBytes paymentHashHex) (\<lambda>hash.
       if length hash \<noteq> 32 then Inl (Error (js ''paymentHash must be 32 bytes''))
       else Inr (lib_findProgramAddressSync lib [ESCROW_SEED, hash] programId))"

definition deriveVaultAta :: "solana_lib \<Rightarrow> pubkey \<Rightarrow> pubkey \<Rightarrow> pubkey" where
  "deriveVaultAta lib escrowPda mint = lib_getAssociatedTokenAddress lib mint escrowPda"

definition getEscrowState ::
  "solana_lib \<Rightarrow> connection \<Rightarrow> js_string \<Rightarrow> pubkey \<Rightarrow> js_string \<Rightarrow> js_exn + escrow_state option" where
  "getEscrowState lib conn paymentHashHex programId commitment =
     and_then (deriveEscrowPda lib paymentHashHex programId) (\<lambda>(pda, bump).
     and_then (conn_getAccountInfo conn pda commitment) (\<lambda>info.
       case info of
         None \<Rightarrow> Inr None
       | Some data \<Rightarrow> and_then (decodeEscrowState data) (\<lambda>st. Inr (Some st))))"

text \<open>
  The body of a \<open>SOL_ESCROW_CREATED\<close> message as the guard reads it: each textual
  field holds \<open>String(field || '')\<close>, and \<open>amount\<close> and \<open>refund_after_unix\<close> hold
  \<open>String(field)\<close>.
\<close>

record escrow_body =
  eb_payment_hash_hex :: js_string
  eb_program_id :: js_string
  eb_escrow_pda :: js_string
  eb_vault_ata :: js_string
  eb_mint :: js_string
  eb_amount :: js_string
  eb_refund_after_unix :: js_string
  eb_recipient :: js_string
  eb_refund :: js_string

record verify_result =
  vr_ok :: bool
  vr_error :: "js_string option"
  vr_state :: "escrow_state option"
  vr_derived_escrow_pda :: "js_string option"
  vr_derived_vault_ata :: "js_string option"

definition normalizeHex :: "js_string \<Rightarrow> js_string" where
  "normalizeHex v = toLowerCase (trim v)"

definition normalizeB58 :: "js_string \<Rightarrow> js_string" where
  "normalizeB58 v = trim v"

definition toPubkey :: "solana_lib \<Rightarrow> js_string \<Rightarrow> js_string \<Rightarrow> js_exn + pubkey" where
  "toPubkey lib v label =
     (case lib_fromBase58 lib (normalizeB58 v) of
        None \<Rightarrow> Inl (Error (label @ js '' must be base58''))
      | Some k \<Rightarrow> Inr k)"

fun exn_message :: "js_exn \<Rightarrow> js_string" where
  "exn_message (Error m) = m"
| "exn_message (RangeError m) = m"
| "exn_message (SyntaxError m) = m"

definition rejected :: "js_string \<Rightarrow> escrow_state option \<Rightarrow> verify_result" where
  "rejected msg st =
     \<lparr> vr_ok = False, vr_error = Some msg, vr_state = st,
       vr_derived_escrow_pda = None, vr_derived_vault_ata = None \<rparr>"

text \<open>The last part of the guard: the vault token account, its owner, mint and balance.\<close>

definition verify_vault ::
  "connection \<Rightarrow> js_string \<Rightarrow> pubkey \<Rightarrow> pubkey \<Rightarrow> pubkey \<Rightarrow> escrow_state \<Rightarrow> int
     \<Rightarrow> js_string \<Rightarrow> js_string \<Rightarrow> verify_result" where
  "verify_vault conn commitment pda mint vaultAta st wantNetAmount derivedEscrowPda derivedVaultAta =
     (case conn_getAccount conn vaultAta commitment of
        Inl err \<Rightarrow> rejected (js ''failed to load vault ATA: '' @ exn_message err) (Some st)
      | Inr vault \<Rightarrow>
          if ta_owner vault \<noteq> pda
          then rejected (js ''vault ATA owner mismatch vs escrow PDA'') (Some st)
          else if ta_mint vault \<noteq> mint
          then rejected (js ''vault ATA mint mismatch vs escrow mint'') (Some st)
          else
            (let wantVaultAmount = wantNetAmount + int (es_feeAmount st) in
             if int (ta_amount vault) \<noteq> wantVaultAmount
             then rejected (js ''vault ATA amount mismatch (vault='' @ decimal (ta_amount vault)
                            @ js '' want='' @ bigint_toString wantVaultAmount @ js '')'') (Some st)
             else \<lparr> vr_ok = True, vr_error = None, vr_state = Some st,
                     vr_derived_escrow_pda = Some derivedEscrowPda,
                     vr_derived_vault_ata = Some derivedVaultAta \<rparr>))"

text \<open>The middle part: the fetched state against the message. \<open>BigInt\<close> may throw.\<close>

definition verify_state ::
  "solana_lib \<Rightarrow> connection \<Rightarrow> js_string \<Rightarrow> escrow_body \<Rightarrow> js_string \<Rightarrow> pubkey \<Rightarrow> pubkey
     \<Rightarrow> pubkey \<Rightarrow> escrow_state \<Rightarrow> js_string \<Rightarrow> js_string \<Rightarrow> js_exn + verify_result" where
  "verify_state lib conn commitment escrowBody paymentHashHex pda mint vaultAta st
       derivedEscrowPda derivedVaultAta =
     (if es_v st \<noteq> 2
      then Inr (rejected (js ''escrow state version unsupported v='' @ decimal (es_v st)) (Some st))
      else if es_status st \<noteq> 0
      then Inr (rejected (js ''escrow is not active (status='' @ decimal (es_status st) @ js '')'') (Some st))
      else if normalizeHex (es_paymentHashHex st) \<noteq> paymentHashHex
      then Inr (rejected (js ''escrow payment_hash mismatch vs message'') (Some st))
      else if lib_toBase58 lib (es_mint st) \<noteq> normalizeB58 (eb_mint escrowBody)
      then Inr (rejected (js ''escrow mint mismatch vs message'') (Some st))
      else if lib_toBase58 lib (es_recipient st) \<noteq> normalizeB58 (eb_recipient escrowBody)
      then Inr (rejected (js ''escrow recipient mismatch vs message'') (Some st))
      else if lib_toBase58 lib (es_refund st) \<noteq> normalizeB58 (eb_refund escrowBody)
      then Inr (rejected (js ''escrow refund mismatch vs message'') (Some st))
      else if lib_toBase58 lib (es_vault st) \<noteq> normalizeB58 (eb_vault_ata escrowBody)
      then Inr (rejected (js ''escrow vault mismatch vs message'') (Some st))
      else
        (case lib_BigInt lib (eb_amount escrowBody) of
           None \<Rightarrow> Inl (SyntaxError (js ''Cannot convert '' @ eb_amount escrowBody @ js '' to a BigInt''))
         | Some wantNetAmount \<Rightarrow>
             if int (es_netAmount st) \<noteq> wantNetAmount
             then Inr (rejected (js ''escrow net amount mismatch vs message (state=''
                                 @ decimal (es_netAmount st) @ js '' msg=''
                                 @ bigint_toString wantNetAmount @ js '')'') (Some st))
             else
               (case lib_BigInt lib (eb_refund_after_unix escrowBody) of
                  None \<Rightarrow> Inl (SyntaxError (js ''Cannot convert '' @ eb_refund_after_unix escrowBody
                                              @ js '' to a BigInt''))
                | Some wantRefundAfter \<Rightarrow>
                    if es_refundAfter st \<noteq> wantRefundAfter
                    then Inr (rejected (js ''escrow refund_after mismatch vs message'') (Some st))
                    else Inr (verify_vault conn commitment pda mint vaultAta st wantNetAmount
                                derivedEscrowPda derivedVaultAta))))"

text \<open>
  \<open>verifyLnUsdtEscrowOnchain\<close>. The result is on the right; an exception that leaves
  the function (the promise is rejected) is on the left. \<open>commitment\<close> is
  \<open>confirmed\<close> when the caller gives none.
\<close>

definition verifyLnUsdtEscrowOnchain ::
  "solana_lib \<Rightarrow> connection option \<Rightarrow> escrow_body option \<Rightarrow> js_string \<Rightarrow> js_exn + verify_result" where
  "verifyLnUsdtEscrowOnchain lib connection escrowBody' commitment =
     (case connection of
        None \<Rightarrow> Inr (rejected (js ''connection is required'') None)
      | Some conn \<Rightarrow>
     (case escrowBody' of
        None \<Rightarrow> Inr (rejected (js ''escrowBody is required'') None)
      | Some escrowBody \<Rightarrow>
     (let paymentHashHex = normalizeHex (eb_payment_hash_hex escrowBody) in
      if \<not> (length paymentHashHex = 64 \<and> list_all is_lower_hex paymentHashHex)
      then Inr (rejected (js ''escrowBody.payment_hash_hex must be 32-byte hex'') None)
      else
     (case toPubkey lib (eb_program_id escrowBody) (js ''escrowBody.program_id'') of
        Inl err \<Rightarrow> Inr (rejected (exn_message err) None)
      | Inr programId \<Rightarrow>
     (case toPubkey lib (eb_mint escrowBody) (js ''escrowBody.mint'') of
        Inl err \<Rightarrow> Inr (rejected (exn_message err) None)
      | Inr mint \<Rightarrow>
     and_then (deriveEscrowPda lib paymentHashHex programId) (\<lambda>(pda, bump).
      let derivedEscrowPda = lib_toBase58 lib pda in
      if normalizeB58 (eb_escrow_pda escrowBody) \<noteq> derivedEscrowPda
      then Inr ((rejected (js ''escrow_pda mismatch (derived vs message)'') None)
                  \<lparr> vr_derived_escrow_pda := Some derivedEscrowPda \<rparr>)
      else
     (let vaultAta = deriveVaultAta lib pda mint;
          derivedVaultAta = lib_toBase58 lib vaultAta in
      if normalizeB58 (eb_vault_ata escrowBody) \<noteq> derivedVaultAta
      then Inr ((rejected (js ''vault_ata mismatch (derived vs message)'') None)
                  \<lparr> vr_derived_vault_ata := Some derivedVaultAta \<rparr>)
      else
     and_then (getEscrowState lib conn paymentHashHex programId commitment) (\<lambda>state.
      case state of
        None \<Rightarrow> Inr (rejected (js ''escrow account not found on chain'') None)
      | Some st \<Rightarrow>
          verify_state lib conn commitment escrowBody paymentHashHex pda mint vaultAta st
            derivedEscrowPda derivedVaultAta))))))))"

text \<open>
  A message, a library table and a chain that agree with \<open>sample_escrow_account\<close>,
  used to exercise the guard.
\<close>

definition sample_pda :: pubkey where
  "sample_pda = PublicKey (replicate 32 0x77)"

definition sample_lib :: solana_lib where
  "sample_lib =
     \<lparr> lib_fromBase58 = (\<lambda>s. if s = js ''Prog'' then Some (PublicKey (replicate 32 0x01))
                              else if s = js ''Mint'' then Some (PublicKey (replicate 32 0x44))
                              else None),
       lib_toBase58 = (\<lambda>k. if k = sample_pda then js ''Pda''
                            else if k = PublicKey (replicate 32 0x22) then js ''Recipient''
                            else if k = PublicKey (replicate 32 0x33) then js ''Refund''
                            else if k = PublicKey (replicate 32 0x44) then js ''Mint''
                            else if k = PublicKey (replicate 32 0x66) then js ''Vault''
                            else js ''Other''),
       lib_findProgramAddressSync = (\<lambda>seeds programId. (sample_pda, 255)),
       lib_getAssociatedTokenAddress = (\<lambda>mint owner. PublicKey (replicate 32 0x66)),
       lib_BigInt = (\<lambda>s. if s = js ''1000000'' then Some 1000000
                          else if s = js ''999999'' then Some 999999
                          else if s = js ''86400'' then Some 86400
                          else None) \<rparr>"

definition sample_connection :: connection where
  "sample_connection =
     \<lparr> conn_getAccountInfo = (\<lambda>k commitment.
          if k = sample_pda \<and> commitment = js ''confirmed'' then Inr (Some sample_escrow_account)
          else Inr None),
       conn_getAccount = (\<lambda>k commitment.
          Inr \<lparr> ta_owner = sample_pda, ta_mint = PublicKey (replicate 32 0x44),
                ta_amount = 1010000 \<rparr>) \<rparr>"

definition sample_escrow_body :: escrow_body where
  "sample_escrow_body =
     \<lparr> eb_payment_hash_hex = replicate 64 0x31,
       eb_program_id = js ''Prog'',
       eb_escrow_pda = js ''Pda'',
       eb_vault_ata = js ''Vault'',
       eb_mint = js ''Mint'',
       eb_amount = js ''1000000'',
       eb_refund_after_unix = js ''86400'',
       eb_recipient = js ''Recipient'',
       eb_refund = js ''Refund'' \<rparr>"


section \<open>Telemetry redaction\<close>

text \<open>
  The values \<open>redactSensitive\<close> distinguishes, by \<open>typeof\<close> and \<open>Array.isArray\<close>.
  An object is the list of its own enumerable entries in the order \<open>Object.entries\<close>
  lists them (no key occurs twice in such a list); \<open>JOther\<close> stands for a function
  (one without a \<open>toJSON\<close> method) or a symbol. The representation of a number is left open: the function returns a number as
  it is.
\<close>

datatype 'n jv =
    JNull
  | JUndefined
  | JString js_string
  | JNumber 'n
  | JBoolean bool
  | JBigInt int
  | JArray "'n jv list"
  | JObject "(js_string \<times> 'n jv) list"
  | JOther

definition shouldRedactKey :: "js_string \<Rightarrow> bool" where
  "shouldRedactKey key =
     (let k = toLowerCase key in
      if includes_js k (js ''token'') then True
      else if includes_js k (js ''api_key'') \<or> includes_js k (js ''apikey'') then True
      else if includes_js k (js ''authorization'') \<or> k = js ''auth'' then True
      else if includes_js k (js ''macaroon'') then True
      else if includes_js k (js ''seed'') then True
      else if includes_js k (js ''password'') then True
      else if includes_js k (js ''preimage'') then True
      else if k = js ''invite'' \<or> k = js ''invite_b64'' \<or> endsWith k (js ''_invite_b64'') then True
      else if k = js ''welcome'' \<or> k = js ''welcome_b64'' \<or> endsWith k (js ''_welcome_b64'') then True
      else False)"

text \<open>The marker of a truncation starts with HORIZONTAL ELLIPSIS (U+2026).\<close>

definition truncateString :: "js_string \<Rightarrow> nat \<Rightarrow> js_string" where
  "truncateString text mx =
     (if length text \<le> mx then text
      else take mx text @ [0x2026] @ js ''<truncated '' @ decimal (length text - mx) @ js '' chars>'')"

definition redacted :: "'n jv" where
  "redacted = JString (js ''<redacted>'')"

text \<open>
  \<open>out[k] = x\<close> on an object that started as \<open>{}\<close>: the key \<open>__proto__\<close> reaches the
  inherited setter and creates no entry; any other key replaces the entry of that
  key or adds one at the end.
\<close>

fun set_property :: "(js_string \<times> 'a) list \<Rightarrow> js_string \<Rightarrow> 'a \<Rightarrow> (js_string \<times> 'a) list" where
  "set_property [] k x = [(k, x)]"
| "set_property ((k', x') # out) k x =
     (if k' = k then (k, x) # out else (k', x') # set_property out k x)"

definition assign_entry :: "(js_string \<times> 'a) list \<Rightarrow> js_string \<Rightarrow> 'a \<Rightarrow> (js_string \<times> 'a) list" where
  "assign_entry out k x = (if k = js ''__proto__'' then out else set_property out k x)"

text \<open>
  \<open>redactSensitive\<close> with its option \<open>maxString\<close> (2000 when omitted). The loop over
  the entries is \<open>redactEntries\<close>, with the object under construction as accumulator.
  The fallback branch is reached by functions and symbols only; \<open>JSON.stringify\<close>
  returns \<open>undefined\<close> for them, which \<open>String\<close> renders as \<open>undefined\<close>.
\<close>

fun redactSensitive :: "nat \<Rightarrow> 'n jv \<Rightarrow> 'n jv"
  and redactArray :: "nat \<Rightarrow> 'n jv list \<Rightarrow> 'n jv list"
  and redactEntries :: "nat \<Rightarrow> (js_string \<times> 'n jv) list \<Rightarrow> (js_string \<times> 'n jv) list
                         \<Rightarrow> (js_string \<times> 'n jv) list"
where
  "redactSensitive maxString JNull = JNull"
| "redactSensitive maxString JUndefined = JUndefined"
| "redactSensitive maxString (JString s) = JString (truncateString s maxString)"
| "redactSensitive maxString (JNumber n) = JNumber n"
| "redactSensitive maxString (JBoolean b) = JBoolean b"
| "redactSensitive maxString (JBigInt i) = JString (bigint_toString i)"
| "redactSensitive maxString (JArray vs) = JArray (redactArray maxString vs)"
| "redactSensitive maxString (JObject es) = JObject (redactEntries maxString [] es)"
| "redactSensitive maxString JOther = JString (truncateString (js ''undefined'') maxString)"
| "redactArray maxString [] = []"
| "redactArray maxString (v # vs) = redactSensitive maxString v # redactArray maxString vs"
| "redactEntries maxString out [] = out"
| "redactEntries maxString out ((k, v) # es) =
     redactEntries maxString
       (assign_entry out k (if shouldRedactKey k then redacted else redactSensitive maxString v))
       es"

text \<open>
  The keys of claim C7 as amended, in the claim's words: a key whose lower-cased form
  contains \<open>token\<close>, \<open>api_key\<close>, \<open>apikey\<close>, \<open>authorization\<close>, \<open>macaroon\<close>,
  \<open>seed\<close>, \<open>password\<close> or \<open>preimage\<close>, or is \<open>auth\<close>, \<open>invite\<close>, \<open>invite_b64\<close>,
  \<open>welcome\<close> or \<open>welcome_b64\<close>, or ends with \<open>_invite_b64\<close> or \<open>_welcome_b64\<close>.
\<close>

definition listed_key :: "js_string \<Rightarrow> bool" where
  "listed_key key =
     (includes_js (toLowerCase key) (js ''token'')
      \<or> includes_js (toLowerCase key) (js ''api_key'')
      \<or> includes_js (toLowerCase key) (js ''apikey'')
      \<or> includes_js (toLowerCase key) (js ''authorization'')
      \<or> includes_js (toLowerCase key) (js ''macaroon'')
      \<or> includes_js (toLowerCase key) (js ''seed'')
      \<or> includes_js (toLowerCase key) (js ''password'')
      \<or> includes_js (toLowerCase key) (js ''preimage'')
      \<or> toLowerCase key = js ''auth''
      \<or> toLowerCase key = js ''invite''
      \<or> toLowerCase key = js ''invite_b64''
      \<or> toLowerCase key = js ''welcome''
      \<or> toLowerCase key = js ''welcome_b64''
      \<or> endsWith (toLowerCase key) (js ''_invite_b64'')
      \<or> endsWith (toLowerCase key) (js ''_welcome_b64''))"

text \<open>
  The check on an exported value: every entry of every object in it, at any depth,
  whose key is one of the listed keys holds the literal \<open><redacted>\<close>.
\<close>

fun sensitive_redacted :: "'n jv \<Rightarrow> bool"
  and sensitive_redacted_list :: "'n jv list \<Rightarrow> bool"
  and sensitive_redacted_entries :: "(js_string \<times> 'n jv) list \<Rightarrow> bool"
where
  "sensitive_redacted (JArray vs) = sensitive_redacted_list vs"
| "sensitive_redacted (JObject es) = sensitive_redacted_entries es"
| "sensitive_redacted JNull = True"
| "sensitive_redacted JUndefined = True"
| "sensitive_redacted (JString s) = True"
| "sensitive_redacted (JNumber n) = True"
| "sensitive_redacted (JBoolean b) = True"
| "sensitive_redacted (JBigInt i) = True"
| "sensitive_redacted JOther = True"
| "sensitive_redacted_list [] = True"
| "sensitive_redacted_list (v # vs) = (sensitive_redacted v \<and> sensitive_redacted_list vs)"
| "sensitive_redacted_entries [] = True"
| "sensitive_redacted_entries ((k, v) # es) =
     ((listed_key k \<longrightarrow> v = redacted) \<and> sensitive_redacted v \<and> sensitive_redacted_entries es)"

text \<open>A nested telemetry record used to exercise the redaction.\<close>

definition sample_telemetry_entries :: "(js_string \<times> int jv) list" where
  "sample_telemetry_entries =
     [(js ''trade_id'', JString (js ''swap_1'')),
      (js ''ln_preimage_hex'', JString (js ''00ff'')),
      (js ''calls'', JArray [JObject [(js ''Invite'', JObject [(js ''payload'', JNumber 1)]),
                                     (js ''amount'', JBigInt 5),
                                     (js ''peer_seed'', JString (js ''abcd''))]])]"


section \<open>Command-line helpers shared by the operator tools\<close>









text \<open>
  \<open>Number.parseInt(s, 10)\<close>: leading white space is skipped, a sign is read, then the
  longest run of decimal digits; no digit gives \<open>NaN\<close>, here \<open>None\<close>. The value is
  kept exact (the double of a run of more than fifteen digits is its rounding).
\<close>

definition is_digit :: "16 word \<Rightarrow> bool" where
  "is_digit c = (0x30 \<le> c \<and> c \<le> 0x39)"




section \<open>escrowctl: the commands that set the fee configuration\<close>

















section \<open>The maker: messages, state and effects\<close>

datatype kind =
    KIND_RFQ | KIND_QUOTE | KIND_QUOTE_ACCEPT | KIND_SWAP_INVITE | KIND_TERMS | KIND_ACCEPT
  | KIND_LN_INVOICE | KIND_SOL_ESCROW_CREATED | KIND_STATUS | KIND_CANCEL | KIND_SVC_ANNOUNCE

datatype trade_state =
    STATE_NEW | STATE_TERMS | STATE_ACCEPTED | STATE_INVOICE | STATE_ESCROW
  | STATE_CLAIMED | STATE_REFUNDED | STATE_CANCELED

text \<open>
  The bodies the maker reads or builds. A field that a message may leave out is an
  option (\<open>None\<close> for \<open>undefined\<close>); numbers are integers.
\<close>

record rfq_body =
  rb_pair :: "js_string option"
  rb_direction :: "js_string option"
  rb_btc_sats :: "int option"
  rb_usdt_amount :: "js_string option"
  rb_max_platform_fee_bps :: "int option"
  rb_max_trade_fee_bps :: "int option"
  rb_max_total_fee_bps :: "int option"
  rb_min_sol_refund_window_sec :: "int option"
  rb_max_sol_refund_window_sec :: "int option"
  rb_sol_recipient :: "js_string option"
  rb_sol_mint :: "js_string option"
  rb_app_hash :: "js_string option"
  rb_valid_until_unix :: "int option"

record quote_body =
  qb_rfq_id :: js_string
  qb_pair :: js_string
  qb_direction :: js_string
  qb_app_hash :: js_string
  qb_btc_sats :: "int option"
  qb_usdt_amount :: js_string
  qb_platform_fee_bps :: int
  qb_platform_fee_collector :: "js_string option"
  qb_trade_fee_bps :: int
  qb_trade_fee_collector :: "js_string option"
  qb_sol_refund_window_sec :: int
  qb_sol_mint :: "js_string option"
  qb_sol_recipient :: "js_string option"
  qb_valid_until_unix :: int

record swap_invite_body =
  si_rfq_id :: js_string
  si_quote_id :: js_string
  si_swap_channel :: js_string
  si_owner_pubkey :: js_string
  si_invite :: js_string
  si_welcome :: js_string

record terms_body =
  tb_pair :: js_string
  tb_direction :: js_string
  tb_app_hash :: js_string
  tb_btc_sats :: "int option"
  tb_usdt_amount :: js_string
  tb_usdt_decimals :: int
  tb_sol_mint :: js_string
  tb_sol_recipient :: js_string
  tb_sol_refund :: js_string
  tb_sol_refund_after_unix :: int
  tb_platform_fee_bps :: int
  tb_platform_fee_collector :: "js_string option"
  tb_trade_fee_bps :: int
  tb_trade_fee_collector :: "js_string option"
  tb_ln_receiver_peer :: js_string
  tb_ln_payer_peer :: js_string
  tb_terms_valid_until_unix :: int

record ln_invoice_body =
  li_bolt11 :: js_string
  li_payment_hash_hex :: js_string
  li_amount_msat :: js_string
  li_expires_at_unix :: int

record sol_escrow_created_body =
  se_payment_hash_hex :: js_string
  se_program_id :: js_string
  se_escrow_pda :: js_string
  se_vault_ata :: js_string
  se_mint :: js_string
  se_amount :: js_string
  se_refund_after_unix :: int
  se_recipient :: js_string
  se_refund :: js_string
  se_tx_sig :: js_string

datatype body =
    RfqBody rfq_body
  | QuoteBody quote_body
  | QuoteAcceptBody "js_string option" "js_string option"
  | SwapInviteBody swap_invite_body
  | TermsBody terms_body
  | LnInvoiceBody ln_invoice_body
  | SolEscrowCreatedBody sol_escrow_created_body
  | CancelBody js_string
  | OtherBody

text \<open>
  The envelope, with the fields the specification gives it; an unsigned envelope has
  no \<open>signer\<close> and no \<open>sig\<close>.
\<close>

record envelope =
  e_v :: int
  e_kind :: kind
  e_trade_id :: js_string
  e_ts :: int
  e_nonce :: js_string
  e_body :: body
  e_signer :: "js_string option"
  e_sig :: "js_string option"

text \<open>
  The trade record of the state machine, as far as the maker reads it: the state, the
  terms once applied, and the flag of the Lightning payment.
\<close>

record trade =
  tr_trade_id :: js_string
  tr_state :: trade_state
  tr_terms :: "terms_body option"
  tr_ln_paid :: bool

datatype lock_state = quoted | accepting | swapping

record rfq_lock =
  lk_key :: js_string
  lk_state :: lock_state
  lk_tradeId :: js_string
  lk_rfqSigner :: js_string
  lk_quoteId :: js_string
  lk_signedQuote :: "envelope option"
  lk_quoteValidUntilUnix :: int
  lk_swapChannel :: "js_string option"
  lk_inviteePubKey :: "js_string option"
  lk_lockDeadlineMs :: int
  lk_createdAtMs :: int
  lk_lastSeenMs :: int

record quote_record =
  qr_rfq_id :: js_string
  qr_rfq_signer :: js_string
  qr_trade_id :: js_string
  qr_btc_sats :: "int option"
  qr_usdt_amount :: js_string
  qr_platform_fee_bps :: int
  qr_platform_fee_collector :: "js_string option"
  qr_trade_fee_bps :: int
  qr_trade_fee_collector :: "js_string option"
  qr_sol_refund_window_sec :: int
  qr_sol_recipient :: js_string
  qr_sol_mint :: js_string
  qr_lock_key :: js_string

record swap_ctx =
  cx_tradeId :: js_string
  cx_rfqId :: js_string
  cx_quoteId :: js_string
  cx_swapChannel :: js_string
  cx_inviteePubKey :: js_string
  cx_invite :: "js_string option"
  cx_btcSats :: "int option"
  cx_usdtAmount :: js_string
  cx_solRecipient :: js_string
  cx_trade :: trade
  cx_sent_swap_invite :: "envelope option"
  cx_sent_terms :: "envelope option"
  cx_sent_invoice :: "envelope option"
  cx_sent_escrow :: "envelope option"
  cx_startedSettlement :: bool
  cx_paymentHashHex :: "js_string option"
  cx_done :: bool
  cx_cleanedUp :: bool
  cx_deadlineMs :: int
  cx_resender :: "bool option"
  cx_lastRemoteActivityAtMs :: int
  cx_lastInviteSendAtMs :: int
  cx_lastTermsSendAtMs :: int
  cx_lastInvoiceSendAtMs :: int
  cx_lastEscrowSendAtMs :: int

text \<open>
  The state of the maker process. The swap contexts are objects shared between the
  table of swaps and the timer of their resend task, so they live in a store and the
  table holds references; a lock is reached through its key only.
\<close>

type_synonym ref = nat

record maker_state =
  quotes :: "js_string \<rightharpoonup> quote_record"
  swaps :: "js_string \<rightharpoonup> ref"
  pendingSwaps :: "js_string \<rightharpoonup> js_string"
  rfqLocks :: "js_string \<rightharpoonup> rfq_lock"
  quoteIdToLockKey :: "js_string \<rightharpoonup> js_string"
  tradeIdToLockKey :: "js_string \<rightharpoonup> js_string"
  swapChannelToLockKey :: "js_string \<rightharpoonup> js_string"
  is_done :: bool
  ctx_store :: "ref \<rightharpoonup> swap_ctx"
  next_ref :: ref

text \<open>
  What the maker does to the outside. A patch of the receipts store is the list of
  the fields it sets. Diagnostics written under \<open>--debug\<close> are not part of the model.
\<close>

datatype action =
    Send js_string envelope
  | Join js_string
  | Subscribe js_string
  | Leave js_string
  | UpsertTrade js_string "(js_string \<times> int jv) list"
  | AppendEvent js_string js_string
  | Stdout js_string
  | Die js_string
  | ScheduleExit int
  | CallLnInvoice
  | SubmitEscrowTx

datatype sc_response = Throws js_exn | NoResponse | ErrorResponse js_string | OkResponse js_string

record config_state =
  cfg_feeBps :: int
  cfg_feeCollector :: js_string

record ln_invoice_result =
  inv_bolt11 :: "js_string option"
  inv_payment_hash :: "js_string option"

text \<open>
  The settings of the maker after its command line is read, with the identity of the
  peer and the Solana signer.
\<close>

record maker_config =
  rfqChannel :: js_string
  swapChannelTemplate :: js_string
  quoteValidSec :: int
  inviteTtlSec :: int
  onceExitDelayMs :: int
  once :: bool
  receipts :: bool
  runSwap :: bool
  swapTimeoutSec :: int
  swapResendMs :: int
  retryResendMinMs :: int
  termsValidSec :: int
  solRefundAfterSec :: int
  lnInvoiceExpirySec :: int
  solDecimals :: int
  expectedAppHash :: js_string
  makerPubkey :: js_string
  solMint :: js_string
  solPayer :: js_string
  solProgramId :: js_string
  solTradeFeeCollector :: "js_string option"

text \<open>
  The collaborators of the maker: the validator, the hash and the signature of an
  envelope, the time stamp and nonce of a new envelope, the state machine, the
  sidechannel, the clock (\<open>Date.now()\<close>, by the line of the reading), the fee
  configuration on chain, the Lightning node, the escrow transaction and the receipts
  store.
\<close>

record runtime =
  rt_validateSwapEnvelope :: "envelope \<Rightarrow> bool"
  rt_hashUnsignedEnvelope :: "envelope \<Rightarrow> js_string"
  rt_stamp :: "kind \<Rightarrow> js_string \<Rightarrow> body \<Rightarrow> int \<times> js_string"
  rt_signUnsignedEnvelopeHex :: "envelope \<Rightarrow> js_string"
  rt_applySwapEnvelope :: "trade \<Rightarrow> envelope \<Rightarrow> js_string + trade"
  rt_send :: "js_string \<Rightarrow> envelope \<Rightarrow> sc_response"
  rt_join :: "js_string \<Rightarrow> sc_response"
  rt_subscribe :: "js_string \<Rightarrow> sc_response"
  rt_leave :: "js_string \<Rightarrow> sc_response"
  rt_now :: "nat \<Rightarrow> int"
  rt_getConfigState :: "js_exn + config_state option"
  rt_getTradeConfigState :: "js_string \<Rightarrow> js_exn + int option"
  rt_createSignedWelcome :: "js_string \<Rightarrow> js_string"
  rt_createSignedInvite :: "js_string \<Rightarrow> js_string \<Rightarrow> js_string"
  rt_lnInvoice :: "js_string \<Rightarrow> js_exn + ln_invoice_result"
  rt_decodeBolt11 :: "js_string \<Rightarrow> js_exn + int"
  rt_isPublicKey :: "js_string \<Rightarrow> bool"
  rt_ensureAta :: "js_exn + js_string"
  rt_createEscrowTx :: "js_string \<Rightarrow> js_exn + js_string \<times> js_string"
  rt_sendAndConfirm :: "js_exn + js_string"
  rt_upsertTrade :: "js_string \<Rightarrow> (js_string \<times> int jv) list \<Rightarrow> js_exn option"
  rt_appendEvent :: "js_string \<Rightarrow> js_string \<Rightarrow> js_exn option"

text \<open>
  A step of the maker runs on the state and the effects so far; it ends with a value
  or with a thrown exception, and what it did before throwing stays done.
\<close>

type_synonym world = "maker_state \<times> action list"

type_synonym 'a io = "world \<Rightarrow> (js_exn + 'a) \<times> world"

definition io_return :: "'a \<Rightarrow> 'a io" where
  "io_return x = (\<lambda>w. (Inr x, w))"

definition io_throw :: "js_exn \<Rightarrow> 'a io" where
  "io_throw e = (\<lambda>w. (Inl e, w))"

definition io_bind :: "'a io \<Rightarrow> ('a \<Rightarrow> 'b io) \<Rightarrow> 'b io" where
  "io_bind m f = (\<lambda>w. case m w of (Inl e, w') \<Rightarrow> (Inl e, w') | (Inr x, w') \<Rightarrow> f x w')"

definition io_then :: "unit io \<Rightarrow> 'b io \<Rightarrow> 'b io" where
  "io_then m k = io_bind m (\<lambda>_. k)"

definition io_emit :: "action \<Rightarrow> unit io" where
  "io_emit a = (\<lambda>(s, tr). (Inr (), (s, tr @ [a])))"

definition io_modify :: "(maker_state \<Rightarrow> maker_state) \<Rightarrow> unit io" where
  "io_modify f = (\<lambda>(s, tr). (Inr (), (f s, tr)))"

definition io_get :: "(maker_state \<Rightarrow> 'a) \<Rightarrow> 'a io" where
  "io_get f = (\<lambda>(s, tr). (Inr (f s), (s, tr)))"

definition io_catch :: "'a io \<Rightarrow> (js_exn \<Rightarrow> 'a io) \<Rightarrow> 'a io" where
  "io_catch m h = (\<lambda>w. case m w of (Inl e, w') \<Rightarrow> h e w' | (Inr x, w') \<Rightarrow> (Inr x, w'))"

definition io_when :: "bool \<Rightarrow> unit io \<Rightarrow> unit io" where
  "io_when b m = (if b then m else io_return ())"

text \<open>The store of swap contexts: reading and updating the object behind a reference.\<close>

definition ctx_of :: "maker_state \<Rightarrow> ref \<Rightarrow> swap_ctx" where
  "ctx_of s r = the (ctx_store s r)"

definition set_ctx :: "ref \<Rightarrow> (swap_ctx \<Rightarrow> swap_ctx) \<Rightarrow> unit io" where
  "set_ctx r f = io_modify (\<lambda>s. s\<lparr>ctx_store := (ctx_store s)(r \<mapsto> f (ctx_of s r))\<rparr>)"

definition set_lock :: "js_string \<Rightarrow> (rfq_lock \<Rightarrow> rfq_lock) \<Rightarrow> unit io" where
  "set_lock key f =
     io_modify (\<lambda>s. case rfqLocks s key of
                       None \<Rightarrow> s
                     | Some lock \<Rightarrow> s\<lparr>rfqLocks := (rfqLocks s)(key \<mapsto> f lock)\<rparr>)"

section \<open>The maker: helpers and the RFQ branch of the message handler\<close>

definition io_lift :: "js_exn + 'a \<Rightarrow> 'a io" where
  "io_lift r = (case r of Inl e \<Rightarrow> io_throw e | Inr x \<Rightarrow> io_return x)"

definition opt_str :: "js_string option \<Rightarrow> js_string" where
  "opt_str v = (case v of None \<Rightarrow> [] | Some s \<Rightarrow> s)"

definition opt_int_str :: "int option \<Rightarrow> js_string" where
  "opt_int_str v = (case v of None \<Rightarrow> [] | Some n \<Rightarrow> bigint_toString n)"

definition stripSignature :: "envelope \<Rightarrow> envelope" where
  "stripSignature envelope = envelope\<lparr>e_signer := None, e_sig := None\<rparr>"

text \<open>
  Modelled from the spec: \<open>createUnsignedEnvelope\<close> is not among the sources. By the
  data model an envelope has the protocol version, the kind, the trade id, the time
  stamp and nonce of its sender, and the body; the stamp comes from the runtime.
\<close>

definition createUnsignedEnvelope :: "runtime \<Rightarrow> kind \<Rightarrow> js_string \<Rightarrow> body \<Rightarrow> envelope" where
  "createUnsignedEnvelope rt k tradeId b =
     \<lparr> e_v = 1, e_kind = k, e_trade_id = tradeId, e_ts = fst (rt_stamp rt k tradeId b),
       e_nonce = snd (rt_stamp rt k tradeId b), e_body = b, e_signer = None, e_sig = None \<rparr>"

text \<open>
  Modelled from the spec: \<open>createInitialTrade\<close> is not among the sources;
  \<open>initial(trade_id)\<close> is the trade in state \<open>NEW\<close>.
\<close>

definition createInitialTrade :: "js_string \<Rightarrow> trade" where
  "createInitialTrade tradeId =
     \<lparr> tr_trade_id = tradeId, tr_state = STATE_NEW, tr_terms = None, tr_ln_paid = False \<rparr>"

text \<open>
  Modelled from the spec: the names of the states, from the data model (the constants
  are not among the sources).
\<close>

fun state_name :: "trade_state \<Rightarrow> js_string" where
  "state_name STATE_NEW = js ''NEW''"
| "state_name STATE_TERMS = js ''TERMS''"
| "state_name STATE_ACCEPTED = js ''ACCEPTED''"
| "state_name STATE_INVOICE = js ''INVOICE''"
| "state_name STATE_ESCROW = js ''ESCROW''"
| "state_name STATE_CLAIMED = js ''CLAIMED''"
| "state_name STATE_REFUNDED = js ''REFUNDED''"
| "state_name STATE_CANCELED = js ''CANCELED''"

definition ensureOk :: "sc_response \<Rightarrow> js_string \<Rightarrow> js_exn + unit" where
  "ensureOk res label =
     (case res of
        Throws e \<Rightarrow> Inl e
      | NoResponse \<Rightarrow> Inl (Error (label @ js '' failed (no response)''))
      | ErrorResponse err \<Rightarrow> Inl (Error (label @ js '' failed: '' @ err))
      | OkResponse t \<Rightarrow> Inr ())"

text \<open>\<open>ensureOk(await sc.send(channel, envelope), label)\<close> and the bare \<open>await sc.send(...)\<close>.\<close>

definition send_checked :: "runtime \<Rightarrow> js_string \<Rightarrow> envelope \<Rightarrow> js_string \<Rightarrow> unit io" where
  "send_checked rt channel envelope label =
     io_then (io_emit (Send channel envelope)) (io_lift (ensureOk (rt_send rt channel envelope) label))"

definition send_unchecked :: "runtime \<Rightarrow> js_string \<Rightarrow> envelope \<Rightarrow> unit io" where
  "send_unchecked rt channel envelope =
     io_then (io_emit (Send channel envelope))
       (case rt_send rt channel envelope of Throws e \<Rightarrow> io_throw e | _ \<Rightarrow> io_return ())"

definition signSwapEnvelope :: "runtime \<Rightarrow> maker_config \<Rightarrow> envelope \<Rightarrow> js_exn + envelope" where
  "signSwapEnvelope rt cfg unsignedEnvelope =
     (let sigHex = rt_signUnsignedEnvelopeHex rt unsignedEnvelope;
          signed = unsignedEnvelope\<lparr>e_signer := Some (makerPubkey cfg), e_sig := Some sigHex\<rparr>
      in if rt_validateSwapEnvelope rt signed then Inr signed
         else Inl (Error (js ''Internal error: signed envelope invalid'')))"

definition normalizeAmountString :: "js_string option \<Rightarrow> js_string" where
  "normalizeAmountString v =
     (let s = trim (opt_str v) in
      if s = [] then js ''0''
      else if \<not> list_all is_digit s then s
      else (let n = dropWhile (\<lambda>c. c = 0x30) s in if n = [] then js ''0'' else n))"

fun join_with :: "js_string \<Rightarrow> js_string list \<Rightarrow> js_string" where
  "join_with sep [] = []"
| "join_with sep [p] = p"
| "join_with sep (p # q # ps) = p @ sep @ join_with sep (q # ps)"

definition rfq_of :: "body \<Rightarrow> rfq_body" where
  "rfq_of b =
     (case b of
        RfqBody r \<Rightarrow> r
      | _ \<Rightarrow> \<lparr> rb_pair = None, rb_direction = None, rb_btc_sats = None, rb_usdt_amount = None,
               rb_max_platform_fee_bps = None, rb_max_trade_fee_bps = None,
               rb_max_total_fee_bps = None, rb_min_sol_refund_window_sec = None,
               rb_max_sol_refund_window_sec = None, rb_sol_recipient = None, rb_sol_mint = None,
               rb_app_hash = None, rb_valid_until_unix = None \<rparr>)"

definition buildRfqLockKey :: "envelope \<Rightarrow> js_string" where
  "buildRfqLockKey msg =
     (let body = rfq_of (e_body msg) in
      join_with (js ''|'')
        [toLowerCase (trim (opt_str (e_signer msg))),
         trim (e_trade_id msg),
         trim (opt_str (rb_pair body)),
         trim (opt_str (rb_direction body)),
         trim (opt_int_str (rb_btc_sats body)),
         normalizeAmountString (rb_usdt_amount body),
         trim (opt_int_str (rb_max_platform_fee_bps body)),
         trim (opt_int_str (rb_max_trade_fee_bps body)),
         trim (opt_int_str (rb_max_total_fee_bps body)),
         trim (opt_int_str (rb_min_sol_refund_window_sec body)),
         trim (opt_int_str (rb_max_sol_refund_window_sec body)),
         toLowerCase (trim (opt_str (rb_sol_recipient body))),
         trim (opt_str (rb_sol_mint body)),
         toLowerCase (trim (opt_str (rb_app_hash body)))])"

definition clearRfqLock :: "js_string option \<Rightarrow> maker_state \<Rightarrow> maker_state" where
  "clearRfqLock lockKey' s =
     (case lockKey' of
        None \<Rightarrow> s
      | Some lockKey \<Rightarrow>
          if lockKey = [] then s
          else
            (let s1 = s\<lparr>rfqLocks := (rfqLocks s)(lockKey := None)\<rparr> in
             case rfqLocks s lockKey of
               None \<Rightarrow> s1
             | Some lock \<Rightarrow>
                 (let s2 = (if lk_quoteId lock \<noteq> []
                            then s1\<lparr>quoteIdToLockKey := (quoteIdToLockKey s1)(lk_quoteId lock := None)\<rparr>
                            else s1);
                      s3 = (if lk_tradeId lock \<noteq> []
                               \<and> tradeIdToLockKey s2 (lk_tradeId lock) = Some lockKey
                            then s2\<lparr>tradeIdToLockKey := (tradeIdToLockKey s2)(lk_tradeId lock := None)\<rparr>
                            else s2)
                  in case lk_swapChannel lock of
                       None \<Rightarrow> s3
                     | Some ch \<Rightarrow>
                         if ch \<noteq> [] \<and> swapChannelToLockKey s3 ch = Some lockKey
                         then s3\<lparr>swapChannelToLockKey := (swapChannelToLockKey s3)(ch := None)\<rparr>
                         else s3)))"

text \<open>
  \<open>persistTrade\<close>: nothing without a receipts store; an error of the store is
  written back as \<open>last_error\<close>, best effort.
\<close>

definition last_error_patch :: "js_exn \<Rightarrow> (js_string \<times> int jv) list" where
  "last_error_patch e = [(js ''last_error'', JString (exn_message e))]"

definition persistTrade ::
  "runtime \<Rightarrow> maker_config \<Rightarrow> js_string \<Rightarrow> (js_string \<times> int jv) list \<Rightarrow> js_string option \<Rightarrow> unit io" where
  "persistTrade rt cfg tradeId patch eventKind =
     (if \<not> receipts cfg then io_return ()
      else
        io_then (io_emit (UpsertTrade tradeId patch))
        (case rt_upsertTrade rt tradeId patch of
           Some e \<Rightarrow> io_emit (UpsertTrade tradeId (last_error_patch e))
         | None \<Rightarrow>
             (case eventKind of
                None \<Rightarrow> io_return ()
              | Some k \<Rightarrow>
                  io_then (io_emit (AppendEvent tradeId k))
                  (case rt_appendEvent rt tradeId k of
                     Some e \<Rightarrow> io_emit (UpsertTrade tradeId (last_error_patch e))
                   | None \<Rightarrow> io_return ()))))"

record fee_snapshot =
  fs_platformFeeBps :: int
  fs_platformFeeCollector :: "js_string option"
  fs_tradeFeeBps :: int
  fs_tradeFeeCollector :: "js_string option"

definition fetchFeeSnapshot :: "runtime \<Rightarrow> maker_config \<Rightarrow> js_exn + fee_snapshot" where
  "fetchFeeSnapshot rt cfg =
     (if \<not> runSwap cfg
      then Inr \<lparr> fs_platformFeeBps = 0, fs_platformFeeCollector = None,
                 fs_tradeFeeBps = 0, fs_tradeFeeCollector = None \<rparr>
      else
        (case rt_getConfigState rt of
           Inl e \<Rightarrow> Inl e
         | Inr None \<Rightarrow>
             Inl (Error (js ''Solana escrow program config is not initialized (run escrowctl config-init first)''))
         | Inr (Some c) \<Rightarrow>
             (let tradeFeeCollector =
                    (case solTradeFeeCollector cfg of Some t \<Rightarrow> t | None \<Rightarrow> cfg_feeCollector c)
              in case rt_getTradeConfigState rt tradeFeeCollector of
                   Inl e \<Rightarrow> Inl e
                 | Inr None \<Rightarrow>
                     Inl (Error (js ''Trade fee config not initialized for '' @ tradeFeeCollector))
                 | Inr (Some tradeFeeBps) \<Rightarrow>
                     Inr \<lparr> fs_platformFeeBps = cfg_feeBps c,
                           fs_platformFeeCollector = Some (cfg_feeCollector c),
                           fs_tradeFeeBps = tradeFeeBps,
                           fs_tradeFeeCollector = Some tradeFeeCollector \<rparr>)))"

definition PAIR_BTC_LN__USDT_SOL :: js_string where
  "PAIR_BTC_LN__USDT_SOL = js ''BTC_LN/USDT_SOL''"

definition direction_BTC_LN_to_USDT_SOL :: js_string where
  "direction_BTC_LN_to_USDT_SOL = js ''BTC_LN->USDT_SOL''"

text \<open>
  The RFQ branch once no lock stops it: the filters on fees, refund window and amount,
  then the quote is built, signed, sent and recorded with its lock.
\<close>

definition quote_rfq ::
  "runtime \<Rightarrow> maker_config \<Rightarrow> envelope \<Rightarrow> js_string \<Rightarrow> js_string \<Rightarrow> js_string \<Rightarrow> int \<Rightarrow> unit io" where
  "quote_rfq rt cfg msg rfqId solRecipient lockKey lockNowMs =
     (let body = rfq_of (e_body msg) in
      io_bind (io_lift (fetchFeeSnapshot rt cfg)) (\<lambda>fees.
      if (case rb_max_platform_fee_bps body of Some m \<Rightarrow> fs_platformFeeBps fees > m | None \<Rightarrow> False)
      then io_return ()
      else if (case rb_max_trade_fee_bps body of Some m \<Rightarrow> fs_tradeFeeBps fees > m | None \<Rightarrow> False)
      then io_return ()
      else if (case rb_max_total_fee_bps body of
                 Some m \<Rightarrow> fs_platformFeeBps fees + fs_tradeFeeBps fees > m | None \<Rightarrow> False)
      then io_return ()
      else if (case rb_min_sol_refund_window_sec body of
                 Some m \<Rightarrow> solRefundAfterSec cfg < m | None \<Rightarrow> False)
      then io_return ()
      else if (case rb_max_sol_refund_window_sec body of
                 Some m \<Rightarrow> solRefundAfterSec cfg > m | None \<Rightarrow> False)
      then io_return ()
      else
     (let trimmed = trim (opt_str (rb_usdt_amount body));
          quoteUsdtAmount = (if trimmed = [] then js ''0'' else trimmed)
      in
      if \<not> list_all is_digit quoteUsdtAmount then io_return ()
      else if quoteUsdtAmount = js ''0'' then io_return ()
      else
     (let nowSec = rt_now rt 889 div 1000;
          quoteValidUntilUnix = nowSec + quoteValidSec cfg;
          quoteUnsigned = createUnsignedEnvelope rt KIND_QUOTE (e_trade_id msg)
            (QuoteBody
              \<lparr> qb_rfq_id = rfqId,
                qb_pair = PAIR_BTC_LN__USDT_SOL,
                qb_direction = direction_BTC_LN_to_USDT_SOL,
                qb_app_hash = expectedAppHash cfg,
                qb_btc_sats = rb_btc_sats body,
                qb_usdt_amount = quoteUsdtAmount,
                qb_platform_fee_bps = fs_platformFeeBps fees,
                qb_platform_fee_collector = fs_platformFeeCollector fees,
                qb_trade_fee_bps = fs_tradeFeeBps fees,
                qb_trade_fee_collector = fs_tradeFeeCollector fees,
                qb_sol_refund_window_sec = solRefundAfterSec cfg,
                qb_sol_mint = (if runSwap cfg then Some (solMint cfg) else None),
                qb_sol_recipient = (if runSwap cfg then Some solRecipient else None),
                qb_valid_until_unix = quoteValidUntilUnix \<rparr>);
          quoteId = rt_hashUnsignedEnvelope rt quoteUnsigned
      in
      io_bind (io_lift (signSwapEnvelope rt cfg quoteUnsigned)) (\<lambda>signed.
      io_then (send_checked rt (rfqChannel cfg) signed (js ''send quote''))
        (io_modify (\<lambda>s. s
           \<lparr> quotes := (quotes s)(quoteId \<mapsto>
                \<lparr> qr_rfq_id = rfqId,
                  qr_rfq_signer = toLowerCase (trim (opt_str (e_signer msg))),
                  qr_trade_id = e_trade_id msg,
                  qr_btc_sats = rb_btc_sats body,
                  qr_usdt_amount = quoteUsdtAmount,
                  qr_platform_fee_bps = fs_platformFeeBps fees,
                  qr_platform_fee_collector = fs_platformFeeCollector fees,
                  qr_trade_fee_bps = fs_tradeFeeBps fees,
                  qr_trade_fee_collector = fs_tradeFeeCollector fees,
                  qr_sol_refund_window_sec = solRefundAfterSec cfg,
                  qr_sol_recipient = solRecipient,
                  qr_sol_mint = (if runSwap cfg then solMint cfg else trim (opt_str (rb_sol_mint body))),
                  qr_lock_key = lockKey \<rparr>),
             rfqLocks := (rfqLocks s)(lockKey \<mapsto>
                \<lparr> lk_key = lockKey,
                  lk_state = quoted,
                  lk_tradeId = e_trade_id msg,
                  lk_rfqSigner = toLowerCase (trim (opt_str (e_signer msg))),
                  lk_quoteId = quoteId,
                  lk_signedQuote = Some signed,
                  lk_quoteValidUntilUnix = quoteValidUntilUnix,
                  lk_swapChannel = None,
                  lk_inviteePubKey = None,
                  lk_lockDeadlineMs = 0,
                  lk_createdAtMs = lockNowMs,
                  lk_lastSeenMs = lockNowMs \<rparr>),
             quoteIdToLockKey := (quoteIdToLockKey s)(quoteId \<mapsto> lockKey),
             tradeIdToLockKey := (tradeIdToLockKey s)(e_trade_id msg \<mapsto> lockKey) \<rparr>)))))))"

text \<open>
  The RFQ branch with a lock in place for the key of the message: the lock is marked as
  seen; a quoted lock with a quote still valid re-sends that quote; a lock in
  \<open>accepting\<close> or \<open>swapping\<close> ends the branch; an expired quoted lock is cleared and
  the RFQ is quoted anew.
\<close>

definition rfq_with_lock ::
  "runtime \<Rightarrow> maker_config \<Rightarrow> envelope \<Rightarrow> js_string \<Rightarrow> js_string \<Rightarrow> js_string \<Rightarrow> int
     \<Rightarrow> rfq_lock \<Rightarrow> unit io" where
  "rfq_with_lock rt cfg msg rfqId solRecipient lockKey lockNowMs existingLock =
     (let lockNowSec = lockNowMs div 1000;
          quotedUntil = lk_quoteValidUntilUnix existingLock
      in
      io_then (set_lock lockKey (\<lambda>l. l\<lparr>lk_lastSeenMs := lockNowMs\<rparr>))
      (case (if lk_state existingLock = quoted \<and> quotedUntil > lockNowSec
             then lk_signedQuote existingLock else None) of
         Some signedQuote \<Rightarrow> send_checked rt (rfqChannel cfg) signedQuote (js ''resend quote'')
       | None \<Rightarrow>
           if lk_state existingLock = accepting \<or> lk_state existingLock = swapping
           then io_return ()
           else
             io_then
               (io_when (lk_state existingLock = quoted \<and> quotedUntil \<le> lockNowSec)
                  (io_modify (clearRfqLock (Some lockKey))))
               (quote_rfq rt cfg msg rfqId solRecipient lockKey lockNowMs)))"

definition handle_rfq :: "runtime \<Rightarrow> maker_config \<Rightarrow> envelope \<Rightarrow> unit io" where
  "handle_rfq rt cfg msg =
     (if \<not> rt_validateSwapEnvelope rt msg then io_return ()
      else
     (let body = rfq_of (e_body msg);
          rfqAppHash = toLowerCase (trim (opt_str (rb_app_hash body)))
      in
      if rfqAppHash \<noteq> expectedAppHash cfg then io_return ()
      else
     (let rfqId = rt_hashUnsignedEnvelope rt (stripSignature msg) in
      if (case rb_valid_until_unix body of
            Some u \<Rightarrow> u \<le> rt_now rt 779 div 1000
          | None \<Rightarrow> False)
      then io_return ()
      else
     (let solRecipient = trim (opt_str (rb_sol_recipient body)) in
      if runSwap cfg \<and> solRecipient = [] then io_return ()
      else
     (let lockKey = buildRfqLockKey msg;
          lockNowMs = rt_now rt 792
      in
      io_bind (io_get (\<lambda>s. rfqLocks s lockKey)) (\<lambda>existingLock.
        case existingLock of
          None \<Rightarrow> quote_rfq rt cfg msg rfqId solRecipient lockKey lockNowMs
        | Some lock \<Rightarrow> rfq_with_lock rt cfg msg rfqId solRecipient lockKey lockNowMs lock))))))"

section \<open>The maker: the QUOTE_ACCEPT branch and the start of a swap\<close>

text \<open>
  \<open>template.replaceAll('{trade_id}', tradeId)\<close>, every occurrence from left to right
  (a trade id is taken to hold no \<open>$\<close>, which a replacement string would interpret).
\<close>

fun replaceAll :: "js_string \<Rightarrow> js_string \<Rightarrow> js_string \<Rightarrow> js_string" where
  "replaceAll [] pat rep = []"
| "replaceAll (c # cs) pat rep =
     (if pat \<noteq> [] \<and> startsWith (c # cs) pat
      then rep @ replaceAll (drop (length pat) (c # cs)) pat rep
      else c # replaceAll cs pat rep)"

definition leaveSidechannel :: "runtime \<Rightarrow> js_string \<Rightarrow> unit io" where
  "leaveSidechannel rt channel = io_emit (Leave channel)"

definition maybeExit :: "maker_config \<Rightarrow> unit io" where
  "maybeExit cfg =
     io_bind (io_get is_done) (\<lambda>d.
       if \<not> once cfg \<or> \<not> d then io_return ()
       else io_emit (ScheduleExit (max (onceExitDelayMs cfg) 0)))"

definition startSwapResender :: "ref \<Rightarrow> unit io" where
  "startSwapResender r =
     io_bind (io_get (\<lambda>s. cx_resender (ctx_of s r))) (\<lambda>running.
       if running \<noteq> None then io_return ()
       else set_ctx r (\<lambda>c. c\<lparr>cx_resender := Some True\<rparr>))"

definition terms_patch :: "maker_config \<Rightarrow> swap_ctx \<Rightarrow> envelope \<Rightarrow> (js_string \<times> int jv) list" where
  "terms_patch cfg ctx signedTerms =
     (let t = (case e_body signedTerms of TermsBody t \<Rightarrow> Some t | _ \<Rightarrow> None) in
      [(js ''role'', JString (js ''maker'')),
       (js ''rfq_channel'', JString (rfqChannel cfg)),
       (js ''swap_channel'', JString (cx_swapChannel ctx)),
       (js ''maker_peer'', JString (makerPubkey cfg)),
       (js ''taker_peer'', JString (cx_inviteePubKey ctx)),
       (js ''btc_sats'', (case cx_btcSats ctx of None \<Rightarrow> JNull | Some n \<Rightarrow> JNumber n)),
       (js ''usdt_amount'', JString (cx_usdtAmount ctx)),
       (js ''sol_mint'', (case t of None \<Rightarrow> JUndefined | Some b \<Rightarrow> JString (tb_sol_mint b))),
       (js ''sol_program_id'', JString (solProgramId cfg)),
       (js ''sol_recipient'', (case t of None \<Rightarrow> JUndefined | Some b \<Rightarrow> JString (tb_sol_recipient b))),
       (js ''sol_refund'', (case t of None \<Rightarrow> JUndefined | Some b \<Rightarrow> JString (tb_sol_refund b))),
       (js ''sol_refund_after_unix'',
          (case t of None \<Rightarrow> JUndefined | Some b \<Rightarrow> JNumber (tb_sol_refund_after_unix b))),
       (js ''state'', JString (state_name (tr_state (cx_trade ctx))))])"

definition terms_unsigned :: "runtime \<Rightarrow> maker_config \<Rightarrow> swap_ctx \<Rightarrow> fee_snapshot \<Rightarrow> int \<Rightarrow> envelope" where
  "terms_unsigned rt cfg ctx fees nowSec =
     createUnsignedEnvelope rt KIND_TERMS (cx_tradeId ctx)
       (TermsBody
         \<lparr> tb_pair = PAIR_BTC_LN__USDT_SOL,
           tb_direction = direction_BTC_LN_to_USDT_SOL,
           tb_app_hash = expectedAppHash cfg,
           tb_btc_sats = cx_btcSats ctx,
           tb_usdt_amount = cx_usdtAmount ctx,
           tb_usdt_decimals = solDecimals cfg,
           tb_sol_mint = solMint cfg,
           tb_sol_recipient = cx_solRecipient ctx,
           tb_sol_refund = solPayer cfg,
           tb_sol_refund_after_unix = nowSec + solRefundAfterSec cfg,
           tb_platform_fee_bps = fs_platformFeeBps fees,
           tb_platform_fee_collector = fs_platformFeeCollector fees,
           tb_trade_fee_bps = fs_tradeFeeBps fees,
           tb_trade_fee_collector = fs_tradeFeeCollector fees,
           tb_ln_receiver_peer = makerPubkey cfg,
           tb_ln_payer_peer = cx_inviteePubKey ctx,
           tb_terms_valid_until_unix = nowSec + termsValidSec cfg \<rparr>)"

definition createAndSendTerms :: "runtime \<Rightarrow> maker_config \<Rightarrow> ref \<Rightarrow> unit io" where
  "createAndSendTerms rt cfg r =
     (let nowSec = rt_now rt 470 div 1000 in
      io_bind (io_lift (fetchFeeSnapshot rt cfg)) (\<lambda>fees.
      io_bind (io_get (\<lambda>s. ctx_of s r)) (\<lambda>ctx.
      io_bind (io_lift (signSwapEnvelope rt cfg (terms_unsigned rt cfg ctx fees nowSec))) (\<lambda>signedTerms.
      case rt_applySwapEnvelope rt (cx_trade ctx) signedTerms of
        Inl err \<Rightarrow> io_throw (Error err)
      | Inr applied \<Rightarrow>
          io_then (set_ctx r (\<lambda>c. c\<lparr>cx_trade := applied, cx_sent_terms := Some signedTerms\<rparr>))
         (io_then (send_unchecked rt (cx_swapChannel ctx) signedTerms)
         (io_then (set_ctx r (\<lambda>c. c\<lparr>cx_lastTermsSendAtMs := rt_now rt 505\<rparr>))
         (io_then (io_emit (Stdout (js ''terms_sent'')))
         (io_bind (io_get (\<lambda>s. ctx_of s r)) (\<lambda>ctx'.
            persistTrade rt cfg (cx_tradeId ctx') (terms_patch cfg ctx' signedTerms)
              (Some (js ''terms_sent'')))))))))))"

text \<open>
  A repeated QUOTE_ACCEPT while the swap is in flight: the stored invite and terms are
  re-sent, each at most once per \<open>max(5000, retryResendMinMs)\<close> milliseconds.
\<close>

definition resend_on_retry ::
  "runtime \<Rightarrow> maker_config \<Rightarrow> js_string \<Rightarrow> ref option \<Rightarrow> unit io" where
  "resend_on_retry rt cfg swapChannel existing =
     (let nowMs = rt_now rt 1030;
          resendFloorMs = max 5000 (retryResendMinMs cfg)
      in
      case existing of
        None \<Rightarrow> io_return ()
      | Some r \<Rightarrow>
          io_bind (io_get (\<lambda>s. ctx_of s r)) (\<lambda>ctx.
          io_then
            (case cx_sent_swap_invite ctx of
               Some storedInvite \<Rightarrow>
                 if nowMs - cx_lastInviteSendAtMs ctx \<ge> resendFloorMs
                 then io_then (send_checked rt (rfqChannel cfg) storedInvite (js ''resend swap_invite''))
                     (io_then (set_ctx r (\<lambda>c. c\<lparr>cx_lastInviteSendAtMs := nowMs\<rparr>))
                        (io_emit (Stdout (js ''swap_invite_resent''))))
                 else io_return ()
             | None \<Rightarrow> io_return ())
            (io_bind (io_get (\<lambda>s. ctx_of s r)) (\<lambda>ctx.
             case cx_sent_terms ctx of
               Some terms \<Rightarrow>
                 if nowMs - cx_lastTermsSendAtMs ctx \<ge> resendFloorMs
                 then io_then (send_checked rt swapChannel terms (js ''resend terms''))
                     (io_then (set_ctx r (\<lambda>c. c\<lparr>cx_lastTermsSendAtMs := nowMs\<rparr>))
                        (io_emit (Stdout (js ''terms_resent''))))
                 else io_return ()
             | None \<Rightarrow> io_return ()))))"

definition new_swap_ctx ::
  "runtime \<Rightarrow> maker_config \<Rightarrow> quote_record \<Rightarrow> js_string \<Rightarrow> js_string \<Rightarrow> js_string \<Rightarrow> js_string
     \<Rightarrow> js_string \<Rightarrow> js_string \<Rightarrow> envelope \<Rightarrow> swap_ctx" where
  "new_swap_ctx rt cfg known tradeId rfqId quoteId swapChannel inviteePubKey invite swapInviteSigned =
     \<lparr> cx_tradeId = tradeId, cx_rfqId = rfqId, cx_quoteId = quoteId, cx_swapChannel = swapChannel,
       cx_inviteePubKey = inviteePubKey, cx_invite = Some invite,
       cx_btcSats = qr_btc_sats known, cx_usdtAmount = qr_usdt_amount known,
       cx_solRecipient = qr_sol_recipient known, cx_trade = createInitialTrade tradeId,
       cx_sent_swap_invite = Some swapInviteSigned, cx_sent_terms = None, cx_sent_invoice = None,
       cx_sent_escrow = None, cx_startedSettlement = False, cx_paymentHashHex = None,
       cx_done = False, cx_cleanedUp = False,
       cx_deadlineMs = rt_now rt 1087 + swapTimeoutSec cfg * 1000, cx_resender = None,
       cx_lastRemoteActivityAtMs = rt_now rt 1089, cx_lastInviteSendAtMs = rt_now rt 1096,
       cx_lastTermsSendAtMs = 0, cx_lastInvoiceSendAtMs = 0, cx_lastEscrowSendAtMs = 0 \<rparr>"

definition swap_started_patch :: "maker_config \<Rightarrow> swap_ctx \<Rightarrow> (js_string \<times> int jv) list" where
  "swap_started_patch cfg ctx =
     [(js ''role'', JString (js ''maker'')),
      (js ''rfq_channel'', JString (rfqChannel cfg)),
      (js ''swap_channel'', JString (cx_swapChannel ctx)),
      (js ''maker_peer'', JString (makerPubkey cfg)),
      (js ''taker_peer'', JString (cx_inviteePubKey ctx)),
      (js ''btc_sats'', (case cx_btcSats ctx of None \<Rightarrow> JNull | Some n \<Rightarrow> JNumber n)),
      (js ''usdt_amount'', JString (cx_usdtAmount ctx)),
      (js ''sol_mint'', (if runSwap cfg then JString (solMint cfg) else JNull)),
      (js ''sol_recipient'', JString (cx_solRecipient ctx)),
      (js ''state'', JString (state_name (tr_state (cx_trade ctx))))]"

text \<open>The body of the \<open>try\<close> block: invite, join, subscribe, then the swap is registered and started.\<close>

definition start_swap ::
  "runtime \<Rightarrow> maker_config \<Rightarrow> quote_record \<Rightarrow> js_string option \<Rightarrow> js_string \<Rightarrow> js_string \<Rightarrow> js_string
     \<Rightarrow> js_string \<Rightarrow> js_string \<Rightarrow> js_string \<Rightarrow> js_string \<Rightarrow> envelope \<Rightarrow> unit io" where
  "start_swap rt cfg known lockKey tradeId rfqId quoteId swapChannel inviteePubKey invite welcome
       swapInviteSigned =
     io_then (send_checked rt (rfqChannel cfg) swapInviteSigned (js ''send swap_invite''))
    (io_then (io_emit (Join swapChannel))
    (io_then (io_lift (ensureOk (rt_join rt swapChannel) (js ''join '' @ swapChannel)))
    (io_then (io_emit (Subscribe swapChannel))
    (io_then (io_lift (ensureOk (rt_subscribe rt swapChannel) (js ''subscribe '' @ swapChannel)))
    (io_then (io_emit (Stdout (js ''swap_invite_sent'')))
    (if \<not> runSwap cfg
     then io_then (io_when (once cfg) (leaveSidechannel rt swapChannel))
         (io_then (io_modify (\<lambda>s. s\<lparr>is_done := True\<rparr>)) (maybeExit cfg))
     else
       io_bind (io_get next_ref) (\<lambda>r.
       io_then (io_modify (\<lambda>s. s
          \<lparr> ctx_store := (ctx_store s)(r \<mapsto>
               new_swap_ctx rt cfg known tradeId rfqId quoteId swapChannel inviteePubKey invite
                 swapInviteSigned),
            next_ref := Suc r,
            swaps := (swaps s)(swapChannel \<mapsto> r) \<rparr>))
      (io_then
         (case lockKey of
            None \<Rightarrow> io_return ()
          | Some k \<Rightarrow>
              io_bind (io_get (\<lambda>s. rfqLocks s k)) (\<lambda>lock.
                if lock = None then io_return ()
                else
                  io_then (set_lock k (\<lambda>l. l
                     \<lparr> lk_state := swapping, lk_swapChannel := Some swapChannel,
                       lk_inviteePubKey := Some inviteePubKey,
                       lk_lockDeadlineMs := rt_now rt 1102 + max 1 (swapTimeoutSec cfg) * 1000,
                       lk_lastSeenMs := rt_now rt 1103 \<rparr>))
                    (io_modify (\<lambda>s. s\<lparr>swapChannelToLockKey :=
                                        (swapChannelToLockKey s)(swapChannel \<mapsto> k)\<rparr>))))
      (io_then (createAndSendTerms rt cfg r)
      (io_then (startSwapResender r)
      (io_bind (io_get (\<lambda>s. ctx_of s r)) (\<lambda>ctx.
         persistTrade rt cfg tradeId (swap_started_patch cfg ctx) (Some (js ''swap_started''))))))))))))))"

text \<open>
  The handler of a failed start: the lock goes back to \<open>quoted\<close>, the channel loses
  its lock key, and the exception is thrown again.
\<close>

definition rollback_lock :: "js_string option \<Rightarrow> js_string \<Rightarrow> int \<Rightarrow> unit io" where
  "rollback_lock lockKey swapChannel nowMs =
     io_then
       (case lockKey of
          None \<Rightarrow> io_return ()
        | Some k \<Rightarrow>
            set_lock k (\<lambda>l. l
              \<lparr> lk_state := quoted, lk_inviteePubKey := None, lk_swapChannel := None,
                lk_lockDeadlineMs := 0, lk_lastSeenMs := nowMs \<rparr>))
       (io_modify (\<lambda>s. s\<lparr>swapChannelToLockKey := (swapChannelToLockKey s)(swapChannel := None)\<rparr>))"

definition try_start_swap ::
  "runtime \<Rightarrow> maker_config \<Rightarrow> quote_record \<Rightarrow> js_string option \<Rightarrow> js_string \<Rightarrow> js_string \<Rightarrow> js_string
     \<Rightarrow> js_string \<Rightarrow> js_string \<Rightarrow> js_string \<Rightarrow> js_string \<Rightarrow> envelope \<Rightarrow> unit io" where
  "try_start_swap rt cfg known lockKey tradeId rfqId quoteId swapChannel inviteePubKey invite welcome
       swapInviteSigned =
     (\<lambda>w.
        case io_catch
               (start_swap rt cfg known lockKey tradeId rfqId quoteId swapChannel inviteePubKey
                  invite welcome swapInviteSigned)
               (\<lambda>err. io_then (rollback_lock lockKey swapChannel (rt_now rt 1135)) (io_throw err)) w
        of (res, (s, tr)) \<Rightarrow> (res, (s\<lparr>pendingSwaps := (pendingSwaps s)(swapChannel := None)\<rparr>, tr)))"

definition handle_quote_accept :: "runtime \<Rightarrow> maker_config \<Rightarrow> envelope \<Rightarrow> unit io" where
  "handle_quote_accept rt cfg msg =
     (if \<not> rt_validateSwapEnvelope rt msg then io_return ()
      else
     (let quoteId = toLowerCase (trim (opt_str
            (case e_body msg of QuoteAcceptBody q r \<Rightarrow> q | _ \<Rightarrow> None)));
          rfqId = toLowerCase (trim (opt_str
            (case e_body msg of QuoteAcceptBody q r \<Rightarrow> r | _ \<Rightarrow> None)))
      in
      io_bind (io_get (\<lambda>s. s)) (\<lambda>s0.
      case quotes s0 quoteId of
        None \<Rightarrow> io_return ()
      | Some known \<Rightarrow>
      if qr_rfq_id known \<noteq> rfqId then io_return ()
      else
     (let lockKey = (if qr_lock_key known \<noteq> [] then Some (qr_lock_key known)
                     else (case quoteIdToLockKey s0 quoteId of
                             Some k \<Rightarrow> if k \<noteq> [] then Some k else None
                           | None \<Rightarrow> None));
          lock = (case lockKey of Some k \<Rightarrow> rfqLocks s0 k | None \<Rightarrow> None);
          tradeId = e_trade_id msg
      in
      if qr_trade_id known \<noteq> tradeId then io_return ()
      else
     (let swapChannel = replaceAll (swapChannelTemplate cfg) (js ''{trade_id}'') tradeId;
          inviteePubKey = toLowerCase (trim (opt_str (e_signer msg)))
      in
      if inviteePubKey = [] then io_return ()
      else if qr_rfq_signer known \<noteq> []
              \<and> inviteePubKey \<noteq> toLowerCase (trim (qr_rfq_signer known))
      then io_return ()
      else
     (let existing = swaps s0 swapChannel;
          pendingInvitee = (case pendingSwaps s0 swapChannel of
                              Some p \<Rightarrow> if p \<noteq> [] then Some p else None
                            | None \<Rightarrow> None);
          isRetry = (existing \<noteq> None \<or> pendingInvitee \<noteq> None)
      in
      if (case existing of
            Some r \<Rightarrow> toLowerCase (trim (cx_inviteePubKey (ctx_of s0 r))) \<noteq> inviteePubKey
          | None \<Rightarrow> False)
      then io_return ()
      else if (case pendingInvitee of
                 Some p \<Rightarrow> toLowerCase (trim p) \<noteq> inviteePubKey
               | None \<Rightarrow> False)
      then io_return ()
      else
        io_then
          (io_when (\<not> isRetry)
             (io_then (io_modify (\<lambda>s. s\<lparr>pendingSwaps := (pendingSwaps s)(swapChannel \<mapsto> inviteePubKey)\<rparr>))
                (case lockKey of
                   None \<Rightarrow> io_return ()
                 | Some k \<Rightarrow>
                     if lock = None then io_return ()
                     else
                       io_then (set_lock k (\<lambda>l. l
                          \<lparr> lk_state := accepting, lk_inviteePubKey := Some inviteePubKey,
                            lk_swapChannel := Some swapChannel,
                            lk_lockDeadlineMs := rt_now rt 986 + max 1 (swapTimeoutSec cfg) * 1000,
                            lk_lastSeenMs := rt_now rt 987 \<rparr>))
                         (io_modify (\<lambda>s. s
                            \<lparr> tradeIdToLockKey := (tradeIdToLockKey s)(tradeId \<mapsto> k),
                              swapChannelToLockKey := (swapChannelToLockKey s)(swapChannel \<mapsto> k) \<rparr>)))))
       (let welcome = rt_createSignedWelcome rt swapChannel;
            invite = rt_createSignedInvite rt swapChannel inviteePubKey;
            swapInviteUnsigned = createUnsignedEnvelope rt KIND_SWAP_INVITE tradeId
              (SwapInviteBody
                \<lparr> si_rfq_id = rfqId, si_quote_id = quoteId, si_swap_channel = swapChannel,
                  si_owner_pubkey = makerPubkey cfg, si_invite = invite, si_welcome = welcome \<rparr>)
        in
        io_bind (io_lift (signSwapEnvelope rt cfg swapInviteUnsigned)) (\<lambda>swapInviteSigned.
          if isRetry then resend_on_retry rt cfg swapChannel existing
          else try_start_swap rt cfg known lockKey tradeId rfqId quoteId swapChannel inviteePubKey
                 invite welcome swapInviteSigned))))))))"

section \<open>The maker: settlement, cleanup and the resend task\<close>

definition cancelSwap :: "runtime \<Rightarrow> maker_config \<Rightarrow> ref \<Rightarrow> js_string \<Rightarrow> unit io" where
  "cancelSwap rt cfg r reason =
     io_catch
       (io_bind (io_get (\<lambda>s. ctx_of s r)) (\<lambda>ctx.
        let cancelUnsigned = createUnsignedEnvelope rt KIND_CANCEL (cx_tradeId ctx)
              (CancelBody (if reason = [] then js ''canceled'' else reason))
        in io_bind (io_lift (signSwapEnvelope rt cfg cancelUnsigned)) (\<lambda>cancelSigned.
             send_unchecked rt (cx_swapChannel ctx) cancelSigned)))
       (\<lambda>e. io_return ())"

definition cleanup_patch :: "swap_ctx \<Rightarrow> js_string option \<Rightarrow> (js_string \<times> int jv) list" where
  "cleanup_patch ctx reason =
     [(js ''state'', JString (state_name (tr_state (cx_trade ctx)))),
      (js ''last_error'', (case reason of None \<Rightarrow> JNull | Some t \<Rightarrow> if t = [] then JNull else JString t))]"

definition cleanupSwap :: "runtime \<Rightarrow> maker_config \<Rightarrow> ref \<Rightarrow> js_string option \<Rightarrow> bool \<Rightarrow> unit io" where
  "cleanupSwap rt cfg r reason sendCancel =
     io_bind (io_get (\<lambda>s. ctx_of s r)) (\<lambda>ctx.
       if cx_cleanedUp ctx then io_return ()
       else
         io_then (set_ctx r (\<lambda>c. c\<lparr>cx_cleanedUp := True,
                                      cx_resender := (case cx_resender c of None \<Rightarrow> None
                                                      | Some running \<Rightarrow> Some False)\<rparr>))
        (io_then (io_modify (\<lambda>s. s\<lparr>swaps := (swaps s)(cx_swapChannel ctx := None)\<rparr>))
        (io_then (io_modify (\<lambda>s. s\<lparr>pendingSwaps := (pendingSwaps s)(cx_swapChannel ctx := None)\<rparr>))
        (io_then (io_modify (\<lambda>s.
            clearRfqLock
              (case swapChannelToLockKey s (cx_swapChannel ctx) of
                 Some k \<Rightarrow> if k \<noteq> [] then Some k else tradeIdToLockKey s (cx_tradeId ctx)
               | None \<Rightarrow> tradeIdToLockKey s (cx_tradeId ctx)) s))
        (io_then
           (io_when sendCancel
              (cancelSwap rt cfg r
                 (case reason of None \<Rightarrow> js ''swap timeout''
                  | Some t \<Rightarrow> if t = [] then js ''swap timeout'' else t)))
        (io_bind (io_get (\<lambda>s. ctx_of s r)) (\<lambda>ctx'.
         io_then (persistTrade rt cfg (cx_tradeId ctx') (cleanup_patch ctx' reason)
                    (Some (js ''swap_cleanup'')))
           (leaveSidechannel rt (cx_swapChannel ctx')))))))))"

definition invoice_patch :: "js_string \<Rightarrow> js_string \<Rightarrow> trade \<Rightarrow> (js_string \<times> int jv) list" where
  "invoice_patch bolt11 paymentHashHex t =
     [(js ''ln_invoice_bolt11'', JString bolt11),
      (js ''ln_payment_hash_hex'', JString paymentHashHex),
      (js ''state'', JString (state_name (tr_state t)))]"

definition escrow_patch :: "sol_escrow_created_body \<Rightarrow> trade \<Rightarrow> (js_string \<times> int jv) list" where
  "escrow_patch b t =
     [(js ''sol_program_id'', JString (se_program_id b)),
      (js ''sol_mint'', JString (se_mint b)),
      (js ''sol_escrow_pda'', JString (se_escrow_pda b)),
      (js ''sol_vault_ata'', JString (se_vault_ata b)),
      (js ''sol_refund_after_unix'', JNumber (se_refund_after_unix b)),
      (js ''sol_recipient'', JString (se_recipient b)),
      (js ''sol_refund'', JString (se_refund b)),
      (js ''state'', JString (state_name (tr_state t)))]"

text \<open>
  The second half of \<open>createInvoiceAndEscrow\<close>: the escrow on chain, then the
  \<open>SOL_ESCROW_CREATED\<close> envelope.
\<close>

definition create_escrow :: "runtime \<Rightarrow> maker_config \<Rightarrow> ref \<Rightarrow> js_string \<Rightarrow> unit io" where
  "create_escrow rt cfg r paymentHashHex =
     io_bind (io_get (\<lambda>s. ctx_of s r)) (\<lambda>ctx.
     case tr_terms (cx_trade ctx) of
       None \<Rightarrow> io_throw (Error (js ''Cannot read properties of undefined (reading sol_refund_after_unix)''))
     | Some terms \<Rightarrow>
    (let refundAfterUnix = tb_sol_refund_after_unix terms in
     if refundAfterUnix \<le> 0 then io_throw (Error (js ''Invalid sol_refund_after_unix''))
     else if \<not> rt_isPublicKey rt (cx_solRecipient ctx) then io_throw (Error (js ''Invalid public key input''))
     else
       io_bind (io_lift (rt_ensureAta rt)) (\<lambda>payerToken.
       io_bind (io_lift (rt_createEscrowTx rt paymentHashHex)) (\<lambda>(escrowPda, vault).
       io_then (io_emit SubmitEscrowTx)
      (io_bind (io_lift (rt_sendAndConfirm rt)) (\<lambda>escrowSig.
      (let escrowBody =
             \<lparr> se_payment_hash_hex = paymentHashHex,
               se_program_id = solProgramId cfg,
               se_escrow_pda = escrowPda,
               se_vault_ata = vault,
               se_mint = solMint cfg,
               se_amount = cx_usdtAmount ctx,
               se_refund_after_unix = refundAfterUnix,
               se_recipient = cx_solRecipient ctx,
               se_refund = solPayer cfg,
               se_tx_sig = escrowSig \<rparr>;
           solEscrowUnsigned = createUnsignedEnvelope rt KIND_SOL_ESCROW_CREATED (cx_tradeId ctx)
             (SolEscrowCreatedBody escrowBody)
       in
       io_bind (io_lift (signSwapEnvelope rt cfg solEscrowUnsigned)) (\<lambda>solEscrowSigned.
       case rt_applySwapEnvelope rt (cx_trade ctx) solEscrowSigned of
         Inl err \<Rightarrow> io_throw (Error err)
       | Inr applied \<Rightarrow>
           io_then (set_ctx r (\<lambda>c. c\<lparr>cx_trade := applied, cx_sent_escrow := Some solEscrowSigned\<rparr>))
          (io_then (send_unchecked rt (cx_swapChannel ctx) solEscrowSigned)
          (io_then (set_ctx r (\<lambda>c. c\<lparr>cx_lastEscrowSendAtMs := rt_now rt 652\<rparr>))
          (io_then (io_emit (Stdout (js ''sol_escrow_sent'')))
             (persistTrade rt cfg (cx_tradeId ctx) (escrow_patch escrowBody applied)
                (Some (js ''sol_escrow_sent''))))))))))))))"

definition createInvoiceAndEscrow :: "runtime \<Rightarrow> maker_config \<Rightarrow> ref \<Rightarrow> unit io" where
  "createInvoiceAndEscrow rt cfg r =
     io_bind (io_get (\<lambda>s. ctx_of s r)) (\<lambda>ctx.
     if cx_startedSettlement ctx then io_return ()
     else
       io_then (set_ctx r (\<lambda>c. c\<lparr>cx_startedSettlement := True\<rparr>))
      (case cx_btcSats ctx of
         None \<Rightarrow> io_throw (SyntaxError (js ''Cannot convert NaN to a BigInt''))
       | Some sats \<Rightarrow>
           io_then (io_emit CallLnInvoice)
          (io_bind (io_lift (rt_lnInvoice rt (cx_tradeId ctx))) (\<lambda>invoice.
          (let bolt11 = trim (opt_str (inv_bolt11 invoice));
               paymentHashHex = toLowerCase (trim (opt_str (inv_payment_hash invoice)))
           in
           if bolt11 = [] then io_throw (Error (js ''LN invoice missing bolt11''))
           else if \<not> (length paymentHashHex = 64 \<and> list_all is_lower_hex paymentHashHex)
           then io_throw (Error (js ''LN invoice missing payment_hash''))
           else
             io_then (set_ctx r (\<lambda>c. c\<lparr>cx_paymentHashHex := Some paymentHashHex\<rparr>))
            (io_bind (io_lift (rt_decodeBolt11 rt bolt11)) (\<lambda>expires_at_unix.
            (let lnInvUnsigned = createUnsignedEnvelope rt KIND_LN_INVOICE (cx_tradeId ctx)
                   (LnInvoiceBody
                     \<lparr> li_bolt11 = bolt11, li_payment_hash_hex = paymentHashHex,
                       li_amount_msat = bigint_toString (sats * 1000),
                       li_expires_at_unix = expires_at_unix \<rparr>)
             in
             io_bind (io_lift (signSwapEnvelope rt cfg lnInvUnsigned)) (\<lambda>lnInvSigned.
             case rt_applySwapEnvelope rt (cx_trade ctx) lnInvSigned of
               Inl err \<Rightarrow> io_throw (Error err)
             | Inr applied \<Rightarrow>
                 io_then (set_ctx r (\<lambda>c. c\<lparr>cx_trade := applied, cx_sent_invoice := Some lnInvSigned\<rparr>))
                (io_then (send_unchecked rt (cx_swapChannel ctx) lnInvSigned)
                (io_then (set_ctx r (\<lambda>c. c\<lparr>cx_lastInvoiceSendAtMs := rt_now rt 580\<rparr>))
                (io_then (io_emit (Stdout (js ''ln_invoice_sent'')))
                (io_then (persistTrade rt cfg (cx_tradeId ctx)
                            (invoice_patch bolt11 paymentHashHex applied) (Some (js ''ln_invoice_sent'')))
                   (create_escrow rt cfg r paymentHashHex))))))))))))))"

definition is_terminal :: "trade_state \<Rightarrow> bool" where
  "is_terminal st = (st = STATE_CLAIMED \<or> st = STATE_REFUNDED \<or> st = STATE_CANCELED)"

text \<open>A message on the channel of a swap in flight.\<close>

definition handle_swap_message :: "runtime \<Rightarrow> maker_config \<Rightarrow> ref \<Rightarrow> envelope \<Rightarrow> unit io" where
  "handle_swap_message rt cfg r msg =
     io_then (set_ctx r (\<lambda>c. c\<lparr>cx_lastRemoteActivityAtMs := rt_now rt 732\<rparr>))
    (if \<not> rt_validateSwapEnvelope rt msg then io_return ()
     else
       io_bind (io_get (\<lambda>s. ctx_of s r)) (\<lambda>ctx.
       case rt_applySwapEnvelope rt (cx_trade ctx) msg of
         Inl err \<Rightarrow> io_return ()
       | Inr applied \<Rightarrow>
           io_then (set_ctx r (\<lambda>c. c\<lparr>cx_trade := applied\<rparr>))
          (io_then
             (case cx_sent_terms ctx of
                Some terms \<Rightarrow>
                  io_when (e_kind msg = KIND_STATUS \<and> tr_state applied = STATE_TERMS)
                    (send_unchecked rt (cx_swapChannel ctx) terms)
              | None \<Rightarrow> io_return ())
          (io_then
             (io_when (e_kind msg = KIND_ACCEPT \<and> tr_state applied = STATE_ACCEPTED \<and> runSwap cfg)
                (createInvoiceAndEscrow rt cfg r))
             (io_bind (io_get (\<lambda>s. ctx_of s r)) (\<lambda>ctx'.
                if is_terminal (tr_state (cx_trade ctx')) \<and> \<not> cx_done ctx'
                then
                  (let st = tr_state (cx_trade ctx');
                       evtType = (if st = STATE_CLAIMED then js ''swap_done''
                                  else if st = STATE_REFUNDED then js ''swap_refunded''
                                  else js ''swap_canceled'')
                   in
                   io_then (set_ctx r (\<lambda>c. c\<lparr>cx_done := True\<rparr>))
                  (io_then (io_modify (\<lambda>s. s\<lparr>is_done := True\<rparr>))
                  (io_then (io_emit (Stdout evtType))
                  (io_then (persistTrade rt cfg (cx_tradeId ctx')
                              [(js ''state'', JString (state_name st))] (Some evtType))
                  (io_then (cleanupSwap rt cfg r
                              (Some (if st = STATE_CLAIMED then js ''swap_done''
                                     else toLowerCase (state_name st))) False)
                     (maybeExit cfg))))))
                else io_return ()))))))"






text \<open>
  The handler of \<open>sidechannel_message\<close>. Whatever a branch throws is dropped by the
  handler; the state and the effects up to the throw stay.
\<close>

definition on_sidechannel_message :: "runtime \<Rightarrow> maker_config \<Rightarrow> js_string \<Rightarrow> envelope \<Rightarrow> world \<Rightarrow> world" where
  "on_sidechannel_message rt cfg channel msg w =
     snd (io_catch
       (io_bind (io_get (\<lambda>s. swaps s channel)) (\<lambda>swap.
        if channel \<noteq> rfqChannel cfg \<and> swap = None then io_return ()
        else
          (case swap of
             Some r \<Rightarrow> handle_swap_message rt cfg r msg
           | None \<Rightarrow>
               if e_kind msg = KIND_RFQ then handle_rfq rt cfg msg
               else if e_kind msg = KIND_QUOTE_ACCEPT then handle_quote_accept rt cfg msg
               else io_return ())))
       (\<lambda>e. io_return ()) w)"

section \<open>The maker: start of the process\<close>














section \<open>Runs of the maker\<close>

text \<open>
  A computation of the maker only appends to the list of its outside actions;
  \<open>emits P m\<close> says that every action \<open>m\<close> appends satisfies \<open>P\<close>, from whatever state
  and whether \<open>m\<close> returns or throws.
\<close>

definition emits :: "(action \<Rightarrow> bool) \<Rightarrow> 'a io \<Rightarrow> bool" where
  "emits P m = (\<forall>s tr. \<exists>out. snd (snd (m (s, tr))) = tr @ out \<and> list_all P out)"

text \<open>
  \<open>steps R m\<close> says that the state \<open>m\<close> ends in is related by \<open>R\<close> to the state it
  starts from, whether \<open>m\<close> returns or throws.
\<close>

definition steps :: "(maker_state \<Rightarrow> maker_state \<Rightarrow> bool) \<Rightarrow> 'a io \<Rightarrow> bool" where
  "steps R m = (\<forall>s tr. R s (fst (snd (m (s, tr)))))"

text \<open>
  \<open>quotes_from signer s s'\<close>: every quote on record in \<open>s'\<close> is on record in \<open>s\<close>
  already or was given for an RFQ of \<open>signer\<close>.
\<close>

definition quotes_from :: "js_string \<Rightarrow> maker_state \<Rightarrow> maker_state \<Rightarrow> bool" where
  "quotes_from signer s s' =
     (\<forall>quoteId known. quotes s' quoteId = Some known \<longrightarrow>
        quotes s quoteId = Some known \<or> qr_rfq_signer known = signer)"



definition sends :: "(envelope \<Rightarrow> bool) \<Rightarrow> action \<Rightarrow> bool" where
  "sends Q a = (case a of Send ch e \<Rightarrow> Q e | _ \<Rightarrow> True)"

section \<open>A sample maker\<close>




definition sample_apply :: "trade \<Rightarrow> envelope \<Rightarrow> js_string + trade" where
  "sample_apply t e =
     (case e_kind e of
        KIND_TERMS \<Rightarrow>
          (case e_body e of
             TermsBody b \<Rightarrow> Inr (t\<lparr>tr_state := STATE_TERMS, tr_terms := Some b\<rparr>)
           | _ \<Rightarrow> Inl (js ''terms body expected''))
      | KIND_ACCEPT \<Rightarrow>
          if tr_state t = STATE_TERMS then Inr (t\<lparr>tr_state := STATE_ACCEPTED\<rparr>)
          else Inl (js ''accept out of order'')
      | KIND_LN_INVOICE \<Rightarrow> Inr (t\<lparr>tr_state := STATE_INVOICE\<rparr>)
      | KIND_SOL_ESCROW_CREATED \<Rightarrow> Inr (t\<lparr>tr_state := STATE_ESCROW\<rparr>)
      | KIND_CANCEL \<Rightarrow> Inr (t\<lparr>tr_state := STATE_CANCELED\<rparr>)
      | _ \<Rightarrow> Inl (js ''not applicable''))"

definition sample_runtime :: runtime where
  "sample_runtime =
     \<lparr> rt_validateSwapEnvelope = (\<lambda>e. True),
       rt_hashUnsignedEnvelope = (\<lambda>e. js ''h1''),
       rt_stamp = (\<lambda>k t b. (1700000000000, js ''n'')),
       rt_signUnsignedEnvelopeHex = (\<lambda>e. js ''sig''),
       rt_applySwapEnvelope = sample_apply,
       rt_send = (\<lambda>ch e. OkResponse []),
       rt_join = (\<lambda>ch. OkResponse []),
       rt_subscribe = (\<lambda>ch. OkResponse []),
       rt_leave = (\<lambda>ch. OkResponse []),
       rt_now = (\<lambda>line. 1700000000500),
       rt_getConfigState = Inr (Some \<lparr> cfg_feeBps = 10, cfg_feeCollector = js ''Fee'' \<rparr>),
       rt_getTradeConfigState = (\<lambda>c. Inr (Some 10)),
       rt_createSignedWelcome = (\<lambda>ch. js ''welcome''),
       rt_createSignedInvite = (\<lambda>ch p. js ''invite''),
       rt_lnInvoice = (\<lambda>label. Inr \<lparr> inv_bolt11 = Some (js ''lnbc1''),
                                      inv_payment_hash = Some (replicate 64 0x61) \<rparr>),
       rt_decodeBolt11 = (\<lambda>b. Inr 1700003600),
       rt_isPublicKey = (\<lambda>t. True),
       rt_ensureAta = Inr (js ''Ata''),
       rt_createEscrowTx = (\<lambda>h. Inr (js ''Pda'', js ''Vault'')),
       rt_sendAndConfirm = Inr (js ''txsig''),
       rt_upsertTrade = (\<lambda>t p. None),
       rt_appendEvent = (\<lambda>t k. None) \<rparr>"

definition sample_maker_config :: maker_config where
  "sample_maker_config =
     \<lparr> rfqChannel = js ''0000intercomswapbtcusdt'',
       swapChannelTemplate = js ''swap:{trade_id}'',
       quoteValidSec = 60,
       inviteTtlSec = 604800,
       onceExitDelayMs = 750,
       once = False,
       receipts = True,
       runSwap = True,
       swapTimeoutSec = 300,
       swapResendMs = 1200,
       retryResendMinMs = 20000,
       termsValidSec = 300,
       solRefundAfterSec = 7200,
       lnInvoiceExpirySec = 3600,
       solDecimals = 6,
       expectedAppHash = js ''app'',
       makerPubkey = js ''aa'',
       solMint = js ''Mint'',
       solPayer = js ''Payer'',
       solProgramId = js ''Prog'',
       solTradeFeeCollector = None \<rparr>"

definition empty_maker_state :: maker_state where
  "empty_maker_state =
     \<lparr> quotes = Map.empty, swaps = Map.empty, pendingSwaps = Map.empty, rfqLocks = Map.empty,
       quoteIdToLockKey = Map.empty, tradeIdToLockKey = Map.empty,
       swapChannelToLockKey = Map.empty, is_done = False, ctx_store = Map.empty, next_ref = 0 \<rparr>"

text \<open>
  A taker \<open>bb\<close> asks for a quote, accepts it, and acknowledges the terms; \<open>cc\<close> is
  another peer.
\<close>

definition sample_rfq :: envelope where
  "sample_rfq =
     \<lparr> e_v = 1, e_kind = KIND_RFQ, e_trade_id = js ''t1'', e_ts = 1700000000000, e_nonce = js ''r'',
       e_body = RfqBody
         \<lparr> rb_pair = Some PAIR_BTC_LN__USDT_SOL, rb_direction = Some direction_BTC_LN_to_USDT_SOL,
           rb_btc_sats = Some 50000, rb_usdt_amount = Some (js ''100''),
           rb_max_platform_fee_bps = None, rb_max_trade_fee_bps = None, rb_max_total_fee_bps = None,
           rb_min_sol_refund_window_sec = None, rb_max_sol_refund_window_sec = None,
           rb_sol_recipient = Some (js ''Rcpt''), rb_sol_mint = None, rb_app_hash = Some (js ''app''),
           rb_valid_until_unix = None \<rparr>,
       e_signer = Some (js ''bb''), e_sig = Some (js ''s1'') \<rparr>"

definition sample_lock_key :: js_string where
  "sample_lock_key = js ''bb|t1|BTC_LN/USDT_SOL|BTC_LN->USDT_SOL|50000|100||||||rcpt||app''"

definition sample_quote :: envelope where
  "sample_quote =
     \<lparr> e_v = 1, e_kind = KIND_QUOTE, e_trade_id = js ''t1'', e_ts = 1700000000000, e_nonce = js ''n'',
       e_body = QuoteBody
         \<lparr> qb_rfq_id = js ''h1'', qb_pair = PAIR_BTC_LN__USDT_SOL,
           qb_direction = direction_BTC_LN_to_USDT_SOL, qb_app_hash = js ''app'',
           qb_btc_sats = Some 50000, qb_usdt_amount = js ''100'',
           qb_platform_fee_bps = 10, qb_platform_fee_collector = Some (js ''Fee''),
           qb_trade_fee_bps = 10, qb_trade_fee_collector = Some (js ''Fee''),
           qb_sol_refund_window_sec = 7200, qb_sol_mint = Some (js ''Mint''),
           qb_sol_recipient = Some (js ''Rcpt''), qb_valid_until_unix = 1700000060 \<rparr>,
       e_signer = Some (js ''aa''), e_sig = Some (js ''sig'') \<rparr>"

definition sample_quote_record :: quote_record where
  "sample_quote_record =
     \<lparr> qr_rfq_id = js ''h1'', qr_rfq_signer = js ''bb'', qr_trade_id = js ''t1'',
       qr_btc_sats = Some 50000, qr_usdt_amount = js ''100'',
       qr_platform_fee_bps = 10, qr_platform_fee_collector = Some (js ''Fee''),
       qr_trade_fee_bps = 10, qr_trade_fee_collector = Some (js ''Fee''),
       qr_sol_refund_window_sec = 7200, qr_sol_recipient = js ''Rcpt'', qr_sol_mint = js ''Mint'',
       qr_lock_key = sample_lock_key \<rparr>"

definition sample_lock :: rfq_lock where
  "sample_lock =
     \<lparr> lk_key = sample_lock_key, lk_state = quoted, lk_tradeId = js ''t1'', lk_rfqSigner = js ''bb'',
       lk_quoteId = js ''h1'', lk_signedQuote = Some sample_quote,
       lk_quoteValidUntilUnix = 1700000060, lk_swapChannel = None, lk_inviteePubKey = None,
       lk_lockDeadlineMs = 0, lk_createdAtMs = 1700000000500, lk_lastSeenMs = 1700000000500 \<rparr>"

definition sample_state_quoted :: maker_state where
  "sample_state_quoted =
     empty_maker_state
       \<lparr> quotes := [js ''h1'' \<mapsto> sample_quote_record],
         rfqLocks := [sample_lock_key \<mapsto> sample_lock],
         quoteIdToLockKey := [js ''h1'' \<mapsto> sample_lock_key],
         tradeIdToLockKey := [js ''t1'' \<mapsto> sample_lock_key] \<rparr>"

definition sample_quote_accept :: envelope where
  "sample_quote_accept =
     \<lparr> e_v = 1, e_kind = KIND_QUOTE_ACCEPT, e_trade_id = js ''t1'', e_ts = 1700000000200,
       e_nonce = js ''q'', e_body = QuoteAcceptBody (Some (js ''h1'')) (Some (js ''h1'')),
       e_signer = Some (js ''bb''), e_sig = Some (js ''s2'') \<rparr>"

definition sample_hijack_accept :: envelope where
  "sample_hijack_accept = sample_quote_accept\<lparr>e_signer := Some (js ''cc''), e_sig := Some (js ''s3'')\<rparr>"

definition sample_swap_invite :: envelope where
  "sample_swap_invite =
     \<lparr> e_v = 1, e_kind = KIND_SWAP_INVITE, e_trade_id = js ''t1'', e_ts = 1700000000000,
       e_nonce = js ''n'',
       e_body = SwapInviteBody
         \<lparr> si_rfq_id = js ''h1'', si_quote_id = js ''h1'', si_swap_channel = js ''swap:t1'',
           si_owner_pubkey = js ''aa'', si_invite = js ''invite'', si_welcome = js ''welcome'' \<rparr>,
       e_signer = Some (js ''aa''), e_sig = Some (js ''sig'') \<rparr>"

definition sample_terms_body :: terms_body where
  "sample_terms_body =
     \<lparr> tb_pair = PAIR_BTC_LN__USDT_SOL, tb_direction = direction_BTC_LN_to_USDT_SOL,
       tb_app_hash = js ''app'', tb_btc_sats = Some 50000, tb_usdt_amount = js ''100'',
       tb_usdt_decimals = 6, tb_sol_mint = js ''Mint'', tb_sol_recipient = js ''Rcpt'',
       tb_sol_refund = js ''Payer'', tb_sol_refund_after_unix = 1700007200,
       tb_platform_fee_bps = 10, tb_platform_fee_collector = Some (js ''Fee''),
       tb_trade_fee_bps = 10, tb_trade_fee_collector = Some (js ''Fee''),
       tb_ln_receiver_peer = js ''aa'', tb_ln_payer_peer = js ''bb'',
       tb_terms_valid_until_unix = 1700000300 \<rparr>"

definition sample_terms :: envelope where
  "sample_terms =
     \<lparr> e_v = 1, e_kind = KIND_TERMS, e_trade_id = js ''t1'', e_ts = 1700000000000, e_nonce = js ''n'',
       e_body = TermsBody sample_terms_body,
       e_signer = Some (js ''aa''), e_sig = Some (js ''sig'') \<rparr>"

definition sample_ctx :: swap_ctx where
  "sample_ctx =
     \<lparr> cx_tradeId = js ''t1'', cx_rfqId = js ''h1'', cx_quoteId = js ''h1'',
       cx_swapChannel = js ''swap:t1'', cx_inviteePubKey = js ''bb'', cx_invite = Some (js ''invite''),
       cx_btcSats = Some 50000, cx_usdtAmount = js ''100'', cx_solRecipient = js ''Rcpt'',
       cx_trade = \<lparr> tr_trade_id = js ''t1'', tr_state = STATE_TERMS,
                    tr_terms = Some sample_terms_body, tr_ln_paid = False \<rparr>,
       cx_sent_swap_invite = Some sample_swap_invite, cx_sent_terms = Some sample_terms,
       cx_sent_invoice = None, cx_sent_escrow = None, cx_startedSettlement = False,
       cx_paymentHashHex = None, cx_done = False, cx_cleanedUp = False,
       cx_deadlineMs = 1700000300500, cx_resender = Some True,
       cx_lastRemoteActivityAtMs = 1700000000500, cx_lastInviteSendAtMs = 1700000000500,
       cx_lastTermsSendAtMs = 1700000000500, cx_lastInvoiceSendAtMs = 0,
       cx_lastEscrowSendAtMs = 0 \<rparr>"

definition sample_lock_swapping :: rfq_lock where
  "sample_lock_swapping =
     sample_lock
       \<lparr> lk_state := swapping, lk_swapChannel := Some (js ''swap:t1''),
         lk_inviteePubKey := Some (js ''bb''), lk_lockDeadlineMs := 1700000300500 \<rparr>"

definition sample_state_swapping :: maker_state where
  "sample_state_swapping =
     sample_state_quoted
       \<lparr> swaps := [js ''swap:t1'' \<mapsto> 0],
         rfqLocks := [sample_lock_key \<mapsto> sample_lock_swapping],
         swapChannelToLockKey := [js ''swap:t1'' \<mapsto> sample_lock_key],
         ctx_store := [0 \<mapsto> sample_ctx],
         next_ref := 1 \<rparr>"








section \<open>Properties of the escrow decoder\<close>

lemma subarray_nth: "e \<le> length buf \<Longrightarrow> subarray buf s e = map ((!) buf) [s..<e]"
  by (rule nth_equalityI) (auto simp: subarray_def)

lemma le_nat_sum: "le_nat bs = (\<Sum>i<length bs. unat (bs ! i) * 256 ^ i)"
proof (induction bs)
  case Nil
  then show ?case by simp
next
  case (Cons b bs)
  have "(\<Sum>i<length (b # bs). unat ((b # bs) ! i) * 256 ^ i)
        = unat b + (\<Sum>i<length bs. unat (bs ! i) * 256 ^ Suc i)"
    by (simp only: length_Cons sum.lessThan_Suc_shift) simp
  also have "\<dots> = unat b + 256 * (\<Sum>i<length bs. unat (bs ! i) * 256 ^ i)"
    by (simp add: sum_distrib_left mult.assoc mult.left_commute)
  finally show ?case using Cons.IH by simp
qed

lemma le_nat_subarray:
  assumes "e \<le> length buf" and "off \<le> e"
  shows "le_nat (subarray buf off e) = (\<Sum>i<e - off. unat (buf ! (off + i)) * 256 ^ i)"
proof -
  have "length (subarray buf off e) = e - off"
    using assms by (simp add: subarray_def)
  moreover have "\<And>i. i < e - off \<Longrightarrow> subarray buf off e ! i = buf ! (off + i)"
    using assms by (simp add: subarray_def)
  ultimately show ?thesis
    by (simp add: le_nat_sum)
qed

lemma le_nat_bound: "le_nat bs < 256 ^ length bs"
proof (induction bs)
  case Nil
  then show ?case by simp
next
  case (Cons b bs)
  have "unat b < 256" using unsigned_less [of b] by simp
  with Cons.IH show ?case by simp
qed

lemma new_PublicKey_subarray:
  assumes "e \<le> length buf" and "e = s + 32"
  shows "new_PublicKey (subarray buf s e) = Inr (PublicKey (map ((!) buf) [s..<e]))"
proof -
  have "length (subarray buf s e) = 32" using assms by (simp add: subarray_def)
  then show ?thesis using assms by (simp add: new_PublicKey_def subarray_nth)
qed

lemma readBigUInt64LE_sum:
  assumes "off + 8 \<le> length buf"
  shows "readBigUInt64LE buf off = Inr (\<Sum>i<8. unat (buf ! (off + i)) * 256 ^ i)"
  using assms le_nat_subarray [of "off + 8" buf off] by (simp add: readBigUInt64LE_def)

lemma readUInt16LE_sum:
  assumes "off + 2 \<le> length buf"
  shows "readUInt16LE buf off = Inr (\<Sum>i<2. unat (buf ! (off + i)) * 256 ^ i)"
  using assms le_nat_subarray [of "off + 2" buf off] by (simp add: readUInt16LE_def)


lemma signed64_sint:
  assumes "n < 2 ^ 64"
  shows "sint (word_of_nat n :: 64 word) = (if n < 2 ^ 63 then int n else int n - 2 ^ 64)"
proof -
  define P :: int where "P = 2 ^ 63"
  have P2: "(2::int) ^ 64 = 2 * P" by (simp add: P_def)
  have Ppos: "0 < P" by (simp add: P_def)
  have n0: "0 \<le> int n" by simp
  have nlt: "int n < 2 * P"
  proof -
    have "int n < int (2 ^ 64)" using assms by (simp only: of_nat_less_iff)
    then show ?thesis by (simp add: P_def)
  qed
  have s: "sint (word_of_nat n :: 64 word) = (int n + P) mod (2 * P) - P"
    using int_word_sint [where 'a = 64, of "int n"] by (simp add: P_def)
  show ?thesis
  proof (cases "n < 2 ^ 63")
    case True
    then have "int n < int (2 ^ 63)" by (simp only: of_nat_less_iff)
    then have "int n < P" by (simp add: P_def)
    then have "(int n + P) mod (2 * P) = int n + P"
      using n0 Ppos by (intro mod_pos_pos_trivial) linarith+
    with s True show ?thesis by simp
  next
    case False
    then have "int (2 ^ 63) \<le> int n" by (simp only: of_nat_le_iff not_less)
    then have ge: "P \<le> int n" by (simp add: P_def)
    have e: "int n + P = (int n - P) + 2 * P" by simp
    have "(int n + P) mod (2 * P) = (int n - P) mod (2 * P)"
      by (simp only: e mod_add_self2)
    also have "\<dots> = int n - P"
      using ge nlt by (intro mod_pos_pos_trivial) linarith+
    finally have "sint (word_of_nat n :: 64 word) = int n - 2 * P" using s by simp
    then show ?thesis using False by (simp only: P2 if_False)
  qed
qed

lemma readBigInt64LE_sint:
  assumes "off + 8 \<le> length buf"
  shows "readBigInt64LE buf off =
           Inr (sint (word_of_nat (\<Sum>i<8. unat (buf ! (off + i)) * 256 ^ i) :: 64 word))"
proof -
  define n where "n = le_nat (subarray buf off (off + 8))"
  have len: "length (subarray buf off (off + 8)) = 8"
    using assms by (simp add: subarray_def)
  have "n < 256 ^ 8"
    using le_nat_bound [of "subarray buf off (off + 8)"] by (simp only: n_def len)
  then have "n < 2 ^ 64" by simp
  then have "sint (word_of_nat n :: 64 word) = (if n < 2 ^ 63 then int n else int n - 2 ^ 64)"
    by (rule signed64_sint)
  moreover have "n = (\<Sum>i<8. unat (buf ! (off + i)) * 256 ^ i)"
    using assms le_nat_subarray [of "off + 8" buf off] by (simp add: n_def)
  ultimately show ?thesis
    using assms by (simp add: readBigInt64LE_def Let_def flip: n_def)
qed

lemma sum_lessThan_8: "(\<Sum>i<(8::nat). f i) = f 0 + f 1 + f 2 + f 3 + f 4 + f 5 + f 6 + (f 7 :: nat)"
  by (simp add: numeral_eq_Suc lessThan_Suc)
lemma sum_lessThan_2: "(\<Sum>i<(2::nat). f i) = f 0 + (f 1 :: nat)"
  by (simp add: numeral_eq_Suc lessThan_Suc)


lemma decodeEscrowState_v2_fields:
  assumes a: "221 \<le> length buf \<and> buf ! 0 = 2"
  shows "decodeEscrowState buf = Inr
        \<lparr> es_v = 2,
          es_status = unat (buf ! 1),
          es_paymentHashHex = toString_hex (map ((!) buf) [2..<34]),
          es_recipient = PublicKey (map ((!) buf) [34..<66]),
          es_refund = PublicKey (map ((!) buf) [66..<98]),
          es_refundAfter = sint (word_of_nat (\<Sum>i<8. unat (buf ! (98 + i)) * 256 ^ i) :: 64 word),
          es_mint = PublicKey (map ((!) buf) [106..<138]),
          es_amount = (\<Sum>i<8. unat (buf ! (138 + i)) * 256 ^ i),
          es_netAmount = (\<Sum>i<8. unat (buf ! (138 + i)) * 256 ^ i),
          es_feeAmount = (\<Sum>i<8. unat (buf ! (146 + i)) * 256 ^ i),
          es_feeBps = (\<Sum>i<2. unat (buf ! (154 + i)) * 256 ^ i),
          es_feeCollector = Some (PublicKey (map ((!) buf) [156..<188])),
          es_vault = PublicKey (map ((!) buf) [188..<220]),
          es_bump = unat (buf ! 220) \<rparr>"
proof -
  from a have v: "readUInt8 buf 0 = Inr 2" by (auto simp: readUInt8_def)
  have len: "\<not> length buf < 221" using a by simp
  have st: "readUInt8 buf 1 = Inr (unat (buf ! 1))"
    and bm: "readUInt8 buf 220 = Inr (unat (buf ! 220))"
    using a by (simp_all add: readUInt8_def)
  have ph: "subarray buf 2 34 = map ((!) buf) [2..<34]"
    using a by (intro subarray_nth) simp
  have k1: "new_PublicKey (subarray buf 34 66) = Inr (PublicKey (map ((!) buf) [34..<66]))"
    using a by (intro new_PublicKey_subarray) simp_all
  have k2: "new_PublicKey (subarray buf 66 98) = Inr (PublicKey (map ((!) buf) [66..<98]))"
    using a by (intro new_PublicKey_subarray) simp_all
  have k3: "new_PublicKey (subarray buf 106 138) = Inr (PublicKey (map ((!) buf) [106..<138]))"
    using a by (intro new_PublicKey_subarray) simp_all
  have k4: "new_PublicKey (subarray buf 156 188) = Inr (PublicKey (map ((!) buf) [156..<188]))"
    using a by (intro new_PublicKey_subarray) simp_all
  have k5: "new_PublicKey (subarray buf 188 220) = Inr (PublicKey (map ((!) buf) [188..<220]))"
    using a by (intro new_PublicKey_subarray) simp_all
  have r1: "readBigInt64LE buf 98 =
              Inr (sint (word_of_nat (\<Sum>i<8. unat (buf ! (98 + i)) * 256 ^ i) :: 64 word))"
    using a by (intro readBigInt64LE_sint) simp
  have r2: "readBigUInt64LE buf 138 = Inr (\<Sum>i<8. unat (buf ! (138 + i)) * 256 ^ i)"
    using a by (intro readBigUInt64LE_sum) simp
  have r3: "readBigUInt64LE buf 146 = Inr (\<Sum>i<8. unat (buf ! (146 + i)) * 256 ^ i)"
    using a by (intro readBigUInt64LE_sum) simp
  have r4: "readUInt16LE buf 154 = Inr (\<Sum>i<2. unat (buf ! (154 + i)) * 256 ^ i)"
    using a by (intro readUInt16LE_sum) simp
  show ?thesis
    unfolding decodeEscrowState_def decodeEscrowState_v2_def v and_then_def Let_def
      st bm ph k1 k2 k3 k4 k5 r1 r2 r3 r4
    by (simp only: len if_False sum.case) simp
qed


lemma replicate_32: "replicate 32 x = replicate 16 x @ replicate 16 x"
  by (simp flip: replicate_add)

lemma replicate_16: "replicate 16 x = [x, x, x, x, x, x, x, x, x, x, x, x, x, x, x, x]"
  by (simp add: numeral_eq_Suc)

lemma toString_hex_replicate_11: "toString_hex (replicate n 0x11) = replicate (2 * n) 0x31"
  by (induction n) (simp_all add: toString_hex_def hex_digit_def)

lemma toString_hex_sample: "toString_hex (replicate 32 0x11) = replicate 64 0x31"
  using toString_hex_replicate_11 [of 32] by simp

lemma decode_sample_escrow_account:
  "decodeEscrowState sample_escrow_account =
     Inr \<lparr> es_v = 2, es_status = 0, es_paymentHashHex = replicate 64 0x31,
           es_recipient = PublicKey (replicate 32 0x22), es_refund = PublicKey (replicate 32 0x33),
           es_refundAfter = 86400, es_mint = PublicKey (replicate 32 0x44),
           es_amount = 1000000, es_netAmount = 1000000, es_feeAmount = 10000, es_feeBps = 100,
           es_feeCollector = Some (PublicKey (replicate 32 0x55)),
           es_vault = PublicKey (replicate 32 0x66), es_bump = 255 \<rparr>"
proof -
  have h: "221 \<le> length sample_escrow_account \<and> sample_escrow_account ! 0 = 2"
    by (simp add: sample_escrow_account_def)
  have ph: "map ((!) sample_escrow_account) [2..<34] = replicate 32 0x11"
    by (simp add: sample_escrow_account_def nth_append replicate_32 replicate_16)
  show ?thesis
    unfolding decodeEscrowState_v2_fields [OF h] ph toString_hex_sample
    apply (simp add: sum_lessThan_8 sum_lessThan_2)
    apply (simp add: sample_escrow_account_def nth_append)
    apply (simp add: replicate_32 replicate_16)
    done
qed

lemma decodeEscrowState_v1_fields:
  assumes a: "179 \<le> length buf \<and> buf ! 0 = 1"
  shows "decodeEscrowState buf = Inr
        \<lparr> es_v = 1,
          es_status = unat (buf ! 1),
          es_paymentHashHex = toString_hex (map ((!) buf) [2..<34]),
          es_recipient = PublicKey (map ((!) buf) [34..<66]),
          es_refund = PublicKey (map ((!) buf) [66..<98]),
          es_refundAfter = sint (word_of_nat (\<Sum>i<8. unat (buf ! (98 + i)) * 256 ^ i) :: 64 word),
          es_mint = PublicKey (map ((!) buf) [106..<138]),
          es_amount = (\<Sum>i<8. unat (buf ! (138 + i)) * 256 ^ i),
          es_netAmount = (\<Sum>i<8. unat (buf ! (138 + i)) * 256 ^ i),
          es_feeAmount = 0,
          es_feeBps = 0,
          es_feeCollector = None,
          es_vault = PublicKey (map ((!) buf) [146..<178]),
          es_bump = unat (buf ! 178) \<rparr>"
proof -
  from a have v: "readUInt8 buf 0 = Inr 1" by (auto simp: readUInt8_def)
  have len: "\<not> length buf < 179" using a by simp
  have st: "readUInt8 buf 1 = Inr (unat (buf ! 1))"
    and bm: "readUInt8 buf 178 = Inr (unat (buf ! 178))"
    using a by (simp_all add: readUInt8_def)
  have ph: "subarray buf 2 34 = map ((!) buf) [2..<34]"
    using a by (intro subarray_nth) simp
  have k1: "new_PublicKey (subarray buf 34 66) = Inr (PublicKey (map ((!) buf) [34..<66]))"
    using a by (intro new_PublicKey_subarray) simp_all
  have k2: "new_PublicKey (subarray buf 66 98) = Inr (PublicKey (map ((!) buf) [66..<98]))"
    using a by (intro new_PublicKey_subarray) simp_all
  have k3: "new_PublicKey (subarray buf 106 138) = Inr (PublicKey (map ((!) buf) [106..<138]))"
    using a by (intro new_PublicKey_subarray) simp_all
  have k5: "new_PublicKey (subarray buf 146 178) = Inr (PublicKey (map ((!) buf) [146..<178]))"
    using a by (intro new_PublicKey_subarray) simp_all
  have r1: "readBigInt64LE buf 98 =
              Inr (sint (word_of_nat (\<Sum>i<8. unat (buf ! (98 + i)) * 256 ^ i) :: 64 word))"
    using a by (intro readBigInt64LE_sint) simp
  have r2: "readBigUInt64LE buf 138 = Inr (\<Sum>i<8. unat (buf ! (138 + i)) * 256 ^ i)"
    using a by (intro readBigUInt64LE_sum) simp
  show ?thesis
    unfolding decodeEscrowState_def decodeEscrowState_v1_def v and_then_def Let_def
      st bm ph k1 k2 k3 k5 r1 r2
    by (simp only: len if_False sum.case) simp
qed

lemma decodeEscrowState_raises_iff:
  "isl (decodeEscrowState buf) \<longleftrightarrow>
     buf = [] \<or> (buf ! 0 = 1 \<and> length buf < 179) \<or> (buf ! 0 = 2 \<and> length buf < 221)
     \<or> (buf ! 0 \<noteq> 1 \<and> buf ! 0 \<noteq> 2)"
proof (cases "buf = []")
  case True
  then show ?thesis by (simp add: decodeEscrowState_def readUInt8_def and_then_def)
next
  case False
  then have r: "readUInt8 buf 0 = Inr (unat (buf ! 0))" by (simp add: readUInt8_def)
  have u: "unat (buf ! 0) = 1 \<longleftrightarrow> buf ! 0 = 1" "unat (buf ! 0) = 2 \<longleftrightarrow> buf ! 0 = 2"
    by (simp_all add: word_unat_eq_iff)
  consider (v1) "buf ! 0 = 1" | (v2) "buf ! 0 = 2" | (other) "buf ! 0 \<noteq> 1 \<and> buf ! 0 \<noteq> 2"
    by blast
  then show ?thesis
  proof cases
    case v1
    show ?thesis
    proof (cases "length buf < 179")
      case True
      with v1 False r show ?thesis
        by (simp add: decodeEscrowState_def decodeEscrowState_v1_def and_then_def)
    next
      case False
      with v1 have "179 \<le> length buf \<and> buf ! 0 = 1" by simp
      from decodeEscrowState_v1_fields [OF this] v1 False \<open>buf \<noteq> []\<close> show ?thesis by simp
    qed
  next
    case v2
    show ?thesis
    proof (cases "length buf < 221")
      case True
      with v2 False r show ?thesis
        by (simp add: decodeEscrowState_def decodeEscrowState_v2_def and_then_def)
    next
      case False
      with v2 have "221 \<le> length buf \<and> buf ! 0 = 2" by simp
      from decodeEscrowState_v2_fields [OF this] v2 False \<open>buf \<noteq> []\<close> show ?thesis by simp
    qed
  next
    case other
    with False r u show ?thesis
      by (simp add: decodeEscrowState_def and_then_def)
  qed
qed

text \<open>
  Claim C2, amended. A buffer of at least 221 bytes whose first byte is 2 decodes to
  exactly the fields of the v2 layout: status at byte 1, the payment hash at bytes
  2..33 (rendered in hex), recipient at 34..65, refund at 66..97, \<open>refund_after\<close> as a
  little-endian two's-complement 64-bit integer at 98, mint at 106..137, the net amount
  and the fee amount as little-endian unsigned 64-bit integers at 138 and 146, the fee
  rate as a little-endian unsigned 16-bit integer at 154, the fee collector at
  156..187, the vault at 188..219 and the bump at byte 220. Decoding raises exactly
  for the empty buffer, for a buffer of version 2 shorter than 221 bytes, for a buffer
  of version 1 shorter than 179 bytes, and for a version byte other than 1 and 2 (with
  the message of an unsupported version). A buffer of version 1 with 179 to 220 bytes
  is shorter than 221 bytes and is decoded, by the v1 layout.
\<close>

theorem decodeEscrowState_v2_layout:
  "(221 \<le> length buf \<and> buf ! 0 = 2 \<longrightarrow>
      decodeEscrowState buf = Inr
        \<lparr> es_v = 2,
          es_status = unat (buf ! 1),
          es_paymentHashHex = toString_hex (map ((!) buf) [2..<34]),
          es_recipient = PublicKey (map ((!) buf) [34..<66]),
          es_refund = PublicKey (map ((!) buf) [66..<98]),
          es_refundAfter = sint (word_of_nat (\<Sum>i<8. unat (buf ! (98 + i)) * 256 ^ i) :: 64 word),
          es_mint = PublicKey (map ((!) buf) [106..<138]),
          es_amount = (\<Sum>i<8. unat (buf ! (138 + i)) * 256 ^ i),
          es_netAmount = (\<Sum>i<8. unat (buf ! (138 + i)) * 256 ^ i),
          es_feeAmount = (\<Sum>i<8. unat (buf ! (146 + i)) * 256 ^ i),
          es_feeBps = (\<Sum>i<2. unat (buf ! (154 + i)) * 256 ^ i),
          es_feeCollector = Some (PublicKey (map ((!) buf) [156..<188])),
          es_vault = PublicKey (map ((!) buf) [188..<220]),
          es_bump = unat (buf ! 220) \<rparr>)
   \<and> (isl (decodeEscrowState buf) \<longleftrightarrow>
         buf = [] \<or> (buf ! 0 = 2 \<and> length buf < 221) \<or> (buf ! 0 = 1 \<and> length buf < 179)
         \<or> (buf ! 0 \<noteq> 1 \<and> buf ! 0 \<noteq> 2))
   \<and> (buf \<noteq> [] \<and> buf ! 0 \<noteq> 1 \<and> buf ! 0 \<noteq> 2 \<longrightarrow>
        decodeEscrowState buf = Inl (Error (js ''Unsupported escrow version v='' @ decimal (unat (buf ! 0)))))"
proof (intro conjI impI)
  assume a: "221 \<le> length buf \<and> buf ! 0 = 2"
  then show "decodeEscrowState buf = Inr
        \<lparr> es_v = 2,
          es_status = unat (buf ! 1),
          es_paymentHashHex = toString_hex (map ((!) buf) [2..<34]),
          es_recipient = PublicKey (map ((!) buf) [34..<66]),
          es_refund = PublicKey (map ((!) buf) [66..<98]),
          es_refundAfter = sint (word_of_nat (\<Sum>i<8. unat (buf ! (98 + i)) * 256 ^ i) :: 64 word),
          es_mint = PublicKey (map ((!) buf) [106..<138]),
          es_amount = (\<Sum>i<8. unat (buf ! (138 + i)) * 256 ^ i),
          es_netAmount = (\<Sum>i<8. unat (buf ! (138 + i)) * 256 ^ i),
          es_feeAmount = (\<Sum>i<8. unat (buf ! (146 + i)) * 256 ^ i),
          es_feeBps = (\<Sum>i<2. unat (buf ! (154 + i)) * 256 ^ i),
          es_feeCollector = Some (PublicKey (map ((!) buf) [156..<188])),
          es_vault = PublicKey (map ((!) buf) [188..<220]),
          es_bump = unat (buf ! 220) \<rparr>"
    by (rule decodeEscrowState_v2_fields)
next
  show "isl (decodeEscrowState buf) \<longleftrightarrow>
         buf = [] \<or> (buf ! 0 = 2 \<and> length buf < 221) \<or> (buf ! 0 = 1 \<and> length buf < 179)
         \<or> (buf ! 0 \<noteq> 1 \<and> buf ! 0 \<noteq> 2)"
    using decodeEscrowState_raises_iff [of buf] by blast
next
  assume a: "buf \<noteq> [] \<and> buf ! 0 \<noteq> 1 \<and> buf ! 0 \<noteq> 2"
  then have "unat (buf ! 0) \<noteq> 1" "unat (buf ! 0) \<noteq> 2"
    by (simp_all add: word_unat_eq_iff)
  with a show "decodeEscrowState buf = Inl (Error (js ''Unsupported escrow version v='' @ decimal (unat (buf ! 0))))"
    by (simp add: decodeEscrowState_def readUInt8_def and_then_def)
qed

theorem decodeEscrowState_v2_layout_witness:
  "221 \<le> length sample_escrow_account \<and> sample_escrow_account ! 0 = 2
   \<and> decodeEscrowState sample_escrow_account =
     Inr \<lparr> es_v = 2, es_status = 0, es_paymentHashHex = replicate 64 0x31,
           es_recipient = PublicKey (replicate 32 0x22), es_refund = PublicKey (replicate 32 0x33),
           es_refundAfter = 86400, es_mint = PublicKey (replicate 32 0x44),
           es_amount = 1000000, es_netAmount = 1000000, es_feeAmount = 10000, es_feeBps = 100,
           es_feeCollector = Some (PublicKey (replicate 32 0x55)),
           es_vault = PublicKey (replicate 32 0x66), es_bump = 255 \<rparr>
   \<and> isl (decodeEscrowState [2, 0])
   \<and> isl (decodeEscrowState [1, 0])
   \<and> decodeEscrowState [3, 0] = Inl (Error (js ''Unsupported escrow version v=3''))"
proof -
  have h: "221 \<le> length sample_escrow_account \<and> sample_escrow_account ! 0 = 2"
    by (simp add: sample_escrow_account_def)
  have ph: "map ((!) sample_escrow_account) [2..<34] = replicate 32 0x11"
    by (simp add: sample_escrow_account_def nth_append replicate_32 replicate_16)
  have d: "decimal 3 = js ''3''" by (simp add: decimal.simps js_def)
  have short: "isl (decodeEscrowState [2, 0])" and short1: "isl (decodeEscrowState [1, 0])"
    and unsupported: "decodeEscrowState [3, 0] = Inl (Error (js ''Unsupported escrow version v=3''))"
    using decodeEscrowState_v2_layout [of "[2, 0]"] decodeEscrowState_v2_layout [of "[1, 0]"]
      decodeEscrowState_v2_layout [of "[3, 0]"]
    by (simp_all add: d js_def)
  from decodeEscrowState_v2_layout [of sample_escrow_account] h
  have "decodeEscrowState sample_escrow_account = Inr
        \<lparr> es_v = 2,
          es_status = unat (sample_escrow_account ! 1),
          es_paymentHashHex = toString_hex (map ((!) sample_escrow_account) [2..<34]),
          es_recipient = PublicKey (map ((!) sample_escrow_account) [34..<66]),
          es_refund = PublicKey (map ((!) sample_escrow_account) [66..<98]),
          es_refundAfter = sint (word_of_nat (\<Sum>i<8. unat (sample_escrow_account ! (98 + i)) * 256 ^ i) :: 64 word),
          es_mint = PublicKey (map ((!) sample_escrow_account) [106..<138]),
          es_amount = (\<Sum>i<8. unat (sample_escrow_account ! (138 + i)) * 256 ^ i),
          es_netAmount = (\<Sum>i<8. unat (sample_escrow_account ! (138 + i)) * 256 ^ i),
          es_feeAmount = (\<Sum>i<8. unat (sample_escrow_account ! (146 + i)) * 256 ^ i),
          es_feeBps = (\<Sum>i<2. unat (sample_escrow_account ! (154 + i)) * 256 ^ i),
          es_feeCollector = Some (PublicKey (map ((!) sample_escrow_account) [156..<188])),
          es_vault = PublicKey (map ((!) sample_escrow_account) [188..<220]),
          es_bump = unat (sample_escrow_account ! 220) \<rparr>"
    by blast
  then have "decodeEscrowState sample_escrow_account =
     Inr \<lparr> es_v = 2, es_status = 0, es_paymentHashHex = replicate 64 0x31,
           es_recipient = PublicKey (replicate 32 0x22), es_refund = PublicKey (replicate 32 0x33),
           es_refundAfter = 86400, es_mint = PublicKey (replicate 32 0x44),
           es_amount = 1000000, es_netAmount = 1000000, es_feeAmount = 10000, es_feeBps = 100,
           es_feeCollector = Some (PublicKey (replicate 32 0x55)),
           es_vault = PublicKey (replicate 32 0x66), es_bump = 255 \<rparr>"
    unfolding ph toString_hex_sample
    apply (simp add: sum_lessThan_8 sum_lessThan_2)
    apply (simp add: sample_escrow_account_def nth_append)
    apply (simp add: replicate_32 replicate_16)
    done
  with h short short1 unsupported show ?thesis by blast
qed

theorem decodeEscrowState_v1_short_counterexample:
  "length (1 # replicate 178 (0 :: byte)) = 179
   \<and> decodeEscrowState (1 # replicate 178 0) = Inr
        \<lparr> es_v = 1, es_status = 0, es_paymentHashHex = replicate 64 0x30,
          es_recipient = PublicKey (replicate 32 0), es_refund = PublicKey (replicate 32 0),
          es_refundAfter = 0, es_mint = PublicKey (replicate 32 0),
          es_amount = 0, es_netAmount = 0, es_feeAmount = 0, es_feeBps = 0,
          es_feeCollector = None, es_vault = PublicKey (replicate 32 0), es_bump = 0 \<rparr>"
proof -
  let ?buf = "1 # replicate 178 (0 :: byte)"
  have h: "179 \<le> length ?buf \<and> ?buf ! 0 = 1" by simp
  have p1: "map ((!) ?buf) [2..<34] = replicate 32 0"
    and p2: "map ((!) ?buf) [34..<66] = replicate 32 0"
    and p3: "map ((!) ?buf) [66..<98] = replicate 32 0"
    and p4: "map ((!) ?buf) [106..<138] = replicate 32 0"
    and p5: "map ((!) ?buf) [146..<178] = replicate 32 0"
    by (rule nth_equalityI, simp, simp add: nth_Cons')+
  have hex: "toString_hex (replicate n 0) = replicate (2 * n) 0x30" for n
    by (induction n) (simp_all add: toString_hex_def hex_digit_def)
  have hex32: "toString_hex (replicate 32 0) = replicate 64 0x30"
    using hex [of 32] by simp
  show ?thesis
    unfolding decodeEscrowState_v1_fields [OF h] p1 p2 p3 p4 p5 hex32
    by (simp add: sum_lessThan_8 nth_Cons')
qed

section \<open>Properties of the on-chain check\<close>

lemma hex_not_whitespace: "is_lower_hex c \<Longrightarrow> \<not> is_whitespace c"
  unfolding is_lower_hex_def is_whitespace_def
  by (auto simp: word_le_nat_alt)

lemma hex_toLowerCase_unit: "is_lower_hex c \<Longrightarrow> toLowerCase_unit c = [c]"
  unfolding is_lower_hex_def toLowerCase_unit_def
  by (auto simp: word_le_nat_alt)

lemma hex_toLowerCase: "list_all is_lower_hex h \<Longrightarrow> toLowerCase h = h"
  by (induction h) (simp_all add: toLowerCase_def hex_toLowerCase_unit)

lemma trim_no_whitespace:
  assumes "list_all (\<lambda>c. \<not> is_whitespace c) h"
  shows "trim h = h"
proof (cases h)
  case Nil
  then show ?thesis by (simp add: trim_def)
next
  case (Cons c cs)
  then have 1: "dropWhile is_whitespace h = h"
    using assms by simp
  have "rev h \<noteq> []" using Cons by simp
  moreover have "\<not> is_whitespace (hd (rev h))"
  proof -
    have "hd (rev h) \<in> set h"
      using Cons by (metis hd_in_set set_rev \<open>rev h \<noteq> []\<close>)
    then show ?thesis using assms by (simp add: list_all_iff)
  qed
  ultimately have 2: "dropWhile is_whitespace (rev h) = rev h"
    by (cases "rev h") simp_all
  show ?thesis by (simp add: trim_def 1 2)
qed

lemma hex_trim: "list_all is_lower_hex h \<Longrightarrow> trim h = h"
  by (rule trim_no_whitespace) (auto simp: list_all_iff hex_not_whitespace)

lemma length_bytes_of_hex: "length (bytes_of_hex h) = length h div 2"
  by (induction h rule: bytes_of_hex.induct) simp_all

lemma hexToBytes_hash:
  assumes "length h = 64" and "list_all is_lower_hex h"
  shows "hexToBytes h = Inr (bytes_of_hex h)" and "length (bytes_of_hex h) = 32"
proof -
  have "h \<noteq> []" using assms(1) by auto
  then show "hexToBytes h = Inr (bytes_of_hex h)"
    using assms by (simp add: hexToBytes_def hex_trim hex_toLowerCase)
  show "length (bytes_of_hex h) = 32"
    using assms(1) by (simp add: length_bytes_of_hex)
qed

lemma deriveEscrowPda_hash:
  assumes "length h = 64" and "list_all is_lower_hex h"
  shows "deriveEscrowPda lib h programId =
           Inr (lib_findProgramAddressSync lib [ESCROW_SEED, bytes_of_hex h] programId)"
  using hexToBytes_hash [OF assms] by (simp add: deriveEscrowPda_def and_then_def)


lemma rejected_simps [simp]:
  "vr_ok (rejected msg st) = False" "vr_error (rejected msg st) = Some msg"
  "vr_state (rejected msg st) = st"
  by (simp_all add: rejected_def)

lemma verify_vault_ok:
  assumes "vr_ok (verify_vault conn c pda mint ata st want dp dv)"
  shows "\<exists>vault. conn_getAccount conn ata c = Inr vault \<and> ta_owner vault = pda
           \<and> ta_mint vault = mint \<and> int (ta_amount vault) = want + int (es_feeAmount st)
           \<and> vr_error (verify_vault conn c pda mint ata st want dp dv) = None
           \<and> vr_state (verify_vault conn c pda mint ata st want dp dv) = Some st
           \<and> vr_derived_escrow_pda (verify_vault conn c pda mint ata st want dp dv) = Some dp
           \<and> vr_derived_vault_ata (verify_vault conn c pda mint ata st want dp dv) = Some dv"
  using assms
  by (auto simp: verify_vault_def Let_def split: sum.splits if_splits)

lemma verify_vault_error:
  assumes "\<not> vr_ok (verify_vault conn c pda mint ata st want dp dv)"
  shows "vr_error (verify_vault conn c pda mint ata st want dp dv) \<noteq> None"
  using assms
  by (auto simp: verify_vault_def Let_def split: sum.splits if_splits)

lemma verify_state_ok:
  assumes "verify_state lib conn c body h pda mint ata st dp dv = Inr r" and "vr_ok r"
  shows "es_v st = 2 \<and> es_status st = 0 \<and> normalizeHex (es_paymentHashHex st) = h
         \<and> lib_toBase58 lib (es_mint st) = normalizeB58 (eb_mint body)
         \<and> lib_toBase58 lib (es_recipient st) = normalizeB58 (eb_recipient body)
         \<and> lib_toBase58 lib (es_refund st) = normalizeB58 (eb_refund body)
         \<and> lib_toBase58 lib (es_vault st) = normalizeB58 (eb_vault_ata body)
         \<and> lib_BigInt lib (eb_amount body) = Some (int (es_netAmount st))
         \<and> lib_BigInt lib (eb_refund_after_unix body) = Some (es_refundAfter st)
         \<and> r = verify_vault conn c pda mint ata st (int (es_netAmount st)) dp dv"
  using assms
  by (auto simp: verify_state_def split: if_splits option.splits)

lemma verify_state_error:
  assumes "verify_state lib conn c body h pda mint ata st dp dv = Inr r" and "\<not> vr_ok r"
  shows "vr_error r \<noteq> None"
  using assms verify_vault_error [of conn c pda mint ata st _ dp dv]
  by (auto simp: verify_state_def split: if_splits option.splits)

lemma verify_state_throws:
  assumes "verify_state lib conn c body h pda mint ata st dp dv = Inl e"
  shows "lib_BigInt lib (eb_amount body) = None \<or> lib_BigInt lib (eb_refund_after_unix body) = None"
  using assms
  by (auto simp: verify_state_def split: if_splits option.splits)


lemma getEscrowState_hash:
  assumes "length h = 64" and "list_all is_lower_hex h"
    and "lib_findProgramAddressSync lib [ESCROW_SEED, bytes_of_hex h] programId = (pda, bump)"
  shows "getEscrowState lib conn h programId c =
           (case conn_getAccountInfo conn pda c of
              Inl e \<Rightarrow> Inl e
            | Inr None \<Rightarrow> Inr None
            | Inr (Some data) \<Rightarrow>
                (case decodeEscrowState data of Inl e \<Rightarrow> Inl e | Inr st \<Rightarrow> Inr (Some st)))"
  using assms
  by (simp add: getEscrowState_def deriveEscrowPda_hash and_then_def
           split: sum.splits option.splits)

lemma verify_unfold:
  assumes "length (normalizeHex (eb_payment_hash_hex body)) = 64"
    and "list_all is_lower_hex (normalizeHex (eb_payment_hash_hex body))"
    and "lib_fromBase58 lib (normalizeB58 (eb_program_id body)) = Some programId"
    and "lib_fromBase58 lib (normalizeB58 (eb_mint body)) = Some mint"
    and "lib_findProgramAddressSync lib
           [ESCROW_SEED, bytes_of_hex (normalizeHex (eb_payment_hash_hex body))] programId = (pda, bump)"
    and "normalizeB58 (eb_escrow_pda body) = lib_toBase58 lib pda"
    and "normalizeB58 (eb_vault_ata body) = lib_toBase58 lib (lib_getAssociatedTokenAddress lib mint pda)"
  shows "verifyLnUsdtEscrowOnchain lib (Some conn) (Some body) c =
           (case conn_getAccountInfo conn pda c of
              Inl e \<Rightarrow> Inl e
            | Inr None \<Rightarrow> Inr (rejected (js ''escrow account not found on chain'') None)
            | Inr (Some data) \<Rightarrow>
                (case decodeEscrowState data of
                   Inl e \<Rightarrow> Inl e
                 | Inr st \<Rightarrow>
                     verify_state lib conn c body (normalizeHex (eb_payment_hash_hex body)) pda mint
                       (lib_getAssociatedTokenAddress lib mint pda) st (lib_toBase58 lib pda)
                       (lib_toBase58 lib (lib_getAssociatedTokenAddress lib mint pda))))"
  using assms getEscrowState_hash [OF assms(1,2,5), of conn c]
  by (simp add: verifyLnUsdtEscrowOnchain_def Let_def toPubkey_def deriveEscrowPda_hash
        deriveVaultAta_def and_then_def split: sum.splits option.splits)

lemma verify_early:
  assumes "\<not> (\<exists>programId mint pda bump.
      length (normalizeHex (eb_payment_hash_hex body)) = 64
    \<and> list_all is_lower_hex (normalizeHex (eb_payment_hash_hex body))
    \<and> lib_fromBase58 lib (normalizeB58 (eb_program_id body)) = Some programId
    \<and> lib_fromBase58 lib (normalizeB58 (eb_mint body)) = Some mint
    \<and> lib_findProgramAddressSync lib
           [ESCROW_SEED, bytes_of_hex (normalizeHex (eb_payment_hash_hex body))] programId = (pda, bump)
    \<and> normalizeB58 (eb_escrow_pda body) = lib_toBase58 lib pda
    \<and> normalizeB58 (eb_vault_ata body) = lib_toBase58 lib (lib_getAssociatedTokenAddress lib mint pda))"
  shows "\<exists>r. verifyLnUsdtEscrowOnchain lib (Some conn) (Some body) c = Inr r
             \<and> \<not> vr_ok r \<and> vr_error r \<noteq> None"
proof (cases "length (normalizeHex (eb_payment_hash_hex body)) = 64
    \<and> list_all is_lower_hex (normalizeHex (eb_payment_hash_hex body))")
  case False
  then show ?thesis
    by (auto simp: verifyLnUsdtEscrowOnchain_def Let_def)
next
  case True
  then show ?thesis
    using assms
    by (auto simp: verifyLnUsdtEscrowOnchain_def Let_def toPubkey_def deriveEscrowPda_hash
        deriveVaultAta_def and_then_def split: sum.splits option.splits prod.splits)
qed


lemma verify_state_match:
  assumes "es_v st = 2" and "es_status st = 0" and "normalizeHex (es_paymentHashHex st) = h"
    and "lib_toBase58 lib (es_mint st) = normalizeB58 (eb_mint body)"
    and "lib_toBase58 lib (es_recipient st) = normalizeB58 (eb_recipient body)"
    and "lib_toBase58 lib (es_refund st) = normalizeB58 (eb_refund body)"
    and "lib_toBase58 lib (es_vault st) = normalizeB58 (eb_vault_ata body)"
    and "lib_BigInt lib (eb_amount body) = Some (int (es_netAmount st))"
    and "lib_BigInt lib (eb_refund_after_unix body) = Some (es_refundAfter st)"
  shows "verify_state lib conn c body h pda mint ata st dp dv
         = Inr (verify_vault conn c pda mint ata st (int (es_netAmount st)) dp dv)"
  using assms by (simp add: verify_state_def)

lemma verify_vault_match:
  assumes "conn_getAccount conn ata c = Inr vault" and "ta_owner vault = pda"
    and "ta_mint vault = mint" and "ta_amount vault = es_netAmount st + es_feeAmount st"
  shows "vr_ok (verify_vault conn c pda mint ata st (int (es_netAmount st)) dp dv)"
  using assms by (simp add: verify_vault_def Let_def)

lemma verify_returns_ok:
  assumes run: "verifyLnUsdtEscrowOnchain lib (Some conn) (Some body) commitment = Inr r"
    and ok: "vr_ok r"
  shows "\<exists>programId mint pda bump data st vault.
          length (toLowerCase (trim (eb_payment_hash_hex body))) = 64
        \<and> list_all is_lower_hex (toLowerCase (trim (eb_payment_hash_hex body)))
        \<and> lib_fromBase58 lib (trim (eb_program_id body)) = Some programId
        \<and> lib_fromBase58 lib (trim (eb_mint body)) = Some mint
        \<and> lib_findProgramAddressSync lib
             [ESCROW_SEED, bytes_of_hex (toLowerCase (trim (eb_payment_hash_hex body)))] programId
             = (pda, bump)
        \<and> trim (eb_escrow_pda body) = lib_toBase58 lib pda
        \<and> trim (eb_vault_ata body) = lib_toBase58 lib (lib_getAssociatedTokenAddress lib mint pda)
        \<and> conn_getAccountInfo conn pda commitment = Inr (Some data)
        \<and> decodeEscrowState data = Inr st
        \<and> es_v st = 2 \<and> es_status st = 0
        \<and> toLowerCase (trim (es_paymentHashHex st)) = toLowerCase (trim (eb_payment_hash_hex body))
        \<and> lib_toBase58 lib (es_mint st) = trim (eb_mint body)
        \<and> lib_toBase58 lib (es_recipient st) = trim (eb_recipient body)
        \<and> lib_toBase58 lib (es_refund st) = trim (eb_refund body)
        \<and> lib_toBase58 lib (es_vault st) = trim (eb_vault_ata body)
        \<and> lib_BigInt lib (eb_amount body) = Some (int (es_netAmount st))
        \<and> lib_BigInt lib (eb_refund_after_unix body) = Some (es_refundAfter st)
        \<and> conn_getAccount conn (lib_getAssociatedTokenAddress lib mint pda) commitment = Inr vault
        \<and> ta_owner vault = pda \<and> ta_mint vault = mint
        \<and> ta_amount vault = es_netAmount st + es_feeAmount st
        \<and> vr_error r = None \<and> vr_state r = Some st"
proof -
  let ?h = "normalizeHex (eb_payment_hash_hex body)"
  have "\<exists>programId mint pda bump.
      length (normalizeHex (eb_payment_hash_hex body)) = 64
    \<and> list_all is_lower_hex (normalizeHex (eb_payment_hash_hex body))
    \<and> lib_fromBase58 lib (normalizeB58 (eb_program_id body)) = Some programId
    \<and> lib_fromBase58 lib (normalizeB58 (eb_mint body)) = Some mint
    \<and> lib_findProgramAddressSync lib
           [ESCROW_SEED, bytes_of_hex (normalizeHex (eb_payment_hash_hex body))] programId = (pda, bump)
    \<and> normalizeB58 (eb_escrow_pda body) = lib_toBase58 lib pda
    \<and> normalizeB58 (eb_vault_ata body) = lib_toBase58 lib (lib_getAssociatedTokenAddress lib mint pda)"
    using verify_early [of body lib conn commitment] run ok by auto
    then obtain programId mint pda bump where e:
      "length ?h = 64" "list_all is_lower_hex ?h"
      "lib_fromBase58 lib (normalizeB58 (eb_program_id body)) = Some programId"
      "lib_fromBase58 lib (normalizeB58 (eb_mint body)) = Some mint"
      "lib_findProgramAddressSync lib [ESCROW_SEED, bytes_of_hex ?h] programId = (pda, bump)"
      "normalizeB58 (eb_escrow_pda body) = lib_toBase58 lib pda"
      "normalizeB58 (eb_vault_ata body) = lib_toBase58 lib (lib_getAssociatedTokenAddress lib mint pda)"
      by blast
  let ?ata = "lib_getAssociatedTokenAddress lib mint pda"
  from run ok obtain data st where
    info: "conn_getAccountInfo conn pda commitment = Inr (Some data)"
    and dec: "decodeEscrowState data = Inr st"
    and vs: "verify_state lib conn commitment body ?h pda mint ?ata st (lib_toBase58 lib pda)
               (lib_toBase58 lib ?ata) = Inr r"
    unfolding verify_unfold [OF e, of conn commitment]
    by (auto split: sum.splits option.splits)
  note s = verify_state_ok [OF vs ok]
  from s ok have "vr_ok (verify_vault conn commitment pda mint ?ata st (int (es_netAmount st))
                    (lib_toBase58 lib pda) (lib_toBase58 lib ?ata))"
    by simp
  from verify_vault_ok [OF this] s obtain vault where
    v: "conn_getAccount conn ?ata commitment = Inr vault" "ta_owner vault = pda"
       "ta_mint vault = mint" "int (ta_amount vault) = int (es_netAmount st) + int (es_feeAmount st)"
       "vr_error r = None" "vr_state r = Some st"
    by auto
  from v(4) have amount: "ta_amount vault = es_netAmount st + es_feeAmount st"
    by linarith
  show ?thesis
    using e info dec s v(1,2,3,5,6) amount
    unfolding normalizeHex_def normalizeB58_def by blast
qed

lemma verify_returns_error:
  assumes run: "verifyLnUsdtEscrowOnchain lib connection escrowBody commitment = Inr r"
    and nok: "\<not> vr_ok r"
  shows "vr_error r \<noteq> None"
proof (cases connection)
  case None
  with run show ?thesis by (auto simp: verifyLnUsdtEscrowOnchain_def)
next
  case (Some conn')
  show ?thesis
  proof (cases escrowBody)
    case None
    with run Some show ?thesis by (auto simp: verifyLnUsdtEscrowOnchain_def)
  next
    case (Some body)
    note b = this
    show ?thesis
    proof (cases "\<exists>programId mint pda bump.
      length (normalizeHex (eb_payment_hash_hex body)) = 64
    \<and> list_all is_lower_hex (normalizeHex (eb_payment_hash_hex body))
    \<and> lib_fromBase58 lib (normalizeB58 (eb_program_id body)) = Some programId
    \<and> lib_fromBase58 lib (normalizeB58 (eb_mint body)) = Some mint
    \<and> lib_findProgramAddressSync lib
           [ESCROW_SEED, bytes_of_hex (normalizeHex (eb_payment_hash_hex body))] programId = (pda, bump)
    \<and> normalizeB58 (eb_escrow_pda body) = lib_toBase58 lib pda
    \<and> normalizeB58 (eb_vault_ata body) = lib_toBase58 lib (lib_getAssociatedTokenAddress lib mint pda)")
      case False
      from verify_early [OF False, of conn' commitment] run b \<open>connection = Some conn'\<close>
      show ?thesis by auto
    next
      case True
      then obtain programId mint pda bump where e:
        "length (normalizeHex (eb_payment_hash_hex body)) = 64"
        "list_all is_lower_hex (normalizeHex (eb_payment_hash_hex body))"
        "lib_fromBase58 lib (normalizeB58 (eb_program_id body)) = Some programId"
        "lib_fromBase58 lib (normalizeB58 (eb_mint body)) = Some mint"
        "lib_findProgramAddressSync lib
           [ESCROW_SEED, bytes_of_hex (normalizeHex (eb_payment_hash_hex body))] programId = (pda, bump)"
        "normalizeB58 (eb_escrow_pda body) = lib_toBase58 lib pda"
        "normalizeB58 (eb_vault_ata body) = lib_toBase58 lib (lib_getAssociatedTokenAddress lib mint pda)"
        by blast
      from run nok show ?thesis
        unfolding b \<open>connection = Some conn'\<close> verify_unfold [OF e, of conn' commitment]
        by (auto split: sum.splits option.splits dest: verify_state_error)
    qed
  qed
qed

lemma verify_throws:
  assumes run: "verifyLnUsdtEscrowOnchain lib (Some conn) (Some body) commitment = Inl e"
  shows "(\<exists>pda. conn_getAccountInfo conn pda commitment = Inl e
              \<or> (\<exists>data. conn_getAccountInfo conn pda commitment = Inr (Some data)
                        \<and> decodeEscrowState data = Inl e))
          \<or> lib_BigInt lib (eb_amount body) = None
          \<or> lib_BigInt lib (eb_refund_after_unix body) = None"
proof -
  let ?h = "normalizeHex (eb_payment_hash_hex body)"
  have "\<exists>programId mint pda bump.
      length (normalizeHex (eb_payment_hash_hex body)) = 64
    \<and> list_all is_lower_hex (normalizeHex (eb_payment_hash_hex body))
    \<and> lib_fromBase58 lib (normalizeB58 (eb_program_id body)) = Some programId
    \<and> lib_fromBase58 lib (normalizeB58 (eb_mint body)) = Some mint
    \<and> lib_findProgramAddressSync lib
           [ESCROW_SEED, bytes_of_hex (normalizeHex (eb_payment_hash_hex body))] programId = (pda, bump)
    \<and> normalizeB58 (eb_escrow_pda body) = lib_toBase58 lib pda
    \<and> normalizeB58 (eb_vault_ata body) = lib_toBase58 lib (lib_getAssociatedTokenAddress lib mint pda)"
    using verify_early [of body lib conn commitment] run by auto
    then obtain programId mint pda bump where e:
      "length ?h = 64" "list_all is_lower_hex ?h"
      "lib_fromBase58 lib (normalizeB58 (eb_program_id body)) = Some programId"
      "lib_fromBase58 lib (normalizeB58 (eb_mint body)) = Some mint"
      "lib_findProgramAddressSync lib [ESCROW_SEED, bytes_of_hex ?h] programId = (pda, bump)"
      "normalizeB58 (eb_escrow_pda body) = lib_toBase58 lib pda"
      "normalizeB58 (eb_vault_ata body) = lib_toBase58 lib (lib_getAssociatedTokenAddress lib mint pda)"
      by blast
  from run show ?thesis
    unfolding verify_unfold [OF e, of conn commitment]
    by (auto split: sum.splits option.splits dest: verify_state_throws)
qed

lemma verify_complete:
  assumes "length (toLowerCase (trim (eb_payment_hash_hex body))) = 64"
    and "list_all is_lower_hex (toLowerCase (trim (eb_payment_hash_hex body)))"
    and "lib_fromBase58 lib (trim (eb_program_id body)) = Some programId"
    and "lib_fromBase58 lib (trim (eb_mint body)) = Some mint"
    and "lib_findProgramAddressSync lib
             [ESCROW_SEED, bytes_of_hex (toLowerCase (trim (eb_payment_hash_hex body)))] programId
             = (pda, bump)"
    and "trim (eb_escrow_pda body) = lib_toBase58 lib pda"
    and "trim (eb_vault_ata body) = lib_toBase58 lib (lib_getAssociatedTokenAddress lib mint pda)"
    and info: "conn_getAccountInfo conn pda commitment = Inr (Some data)"
    and dec: "decodeEscrowState data = Inr st"
    and st: "es_v st = 2" "es_status st = 0"
      "toLowerCase (trim (es_paymentHashHex st)) = toLowerCase (trim (eb_payment_hash_hex body))"
      "lib_toBase58 lib (es_mint st) = trim (eb_mint body)"
      "lib_toBase58 lib (es_recipient st) = trim (eb_recipient body)"
      "lib_toBase58 lib (es_refund st) = trim (eb_refund body)"
      "lib_toBase58 lib (es_vault st) = trim (eb_vault_ata body)"
      "lib_BigInt lib (eb_amount body) = Some (int (es_netAmount st))"
      "lib_BigInt lib (eb_refund_after_unix body) = Some (es_refundAfter st)"
    and vault: "conn_getAccount conn (lib_getAssociatedTokenAddress lib mint pda) commitment = Inr vault"
      "ta_owner vault = pda" "ta_mint vault = mint"
      "ta_amount vault = es_netAmount st + es_feeAmount st"
  shows "\<exists>r. verifyLnUsdtEscrowOnchain lib (Some conn) (Some body) commitment = Inr r \<and> vr_ok r"
proof -
  let ?ata = "lib_getAssociatedTokenAddress lib mint pda"
  have e: "length (normalizeHex (eb_payment_hash_hex body)) = 64"
    "list_all is_lower_hex (normalizeHex (eb_payment_hash_hex body))"
    "lib_fromBase58 lib (normalizeB58 (eb_program_id body)) = Some programId"
    "lib_fromBase58 lib (normalizeB58 (eb_mint body)) = Some mint"
    "lib_findProgramAddressSync lib
       [ESCROW_SEED, bytes_of_hex (normalizeHex (eb_payment_hash_hex body))] programId = (pda, bump)"
    "normalizeB58 (eb_escrow_pda body) = lib_toBase58 lib pda"
    "normalizeB58 (eb_vault_ata body) = lib_toBase58 lib ?ata"
    using assms(1-7) by (simp_all add: normalizeHex_def normalizeB58_def)
  have vs: "verify_state lib conn commitment body (normalizeHex (eb_payment_hash_hex body)) pda mint
              ?ata st (lib_toBase58 lib pda) (lib_toBase58 lib ?ata)
            = Inr (verify_vault conn commitment pda mint ?ata st (int (es_netAmount st))
                     (lib_toBase58 lib pda) (lib_toBase58 lib ?ata))"
    using st by (intro verify_state_match) (simp_all add: normalizeHex_def normalizeB58_def)
  have "vr_ok (verify_vault conn commitment pda mint ?ata st (int (es_netAmount st))
                     (lib_toBase58 lib pda) (lib_toBase58 lib ?ata))"
    using vault by (rule verify_vault_match)
  then show ?thesis
    unfolding verify_unfold [OF e, of conn commitment]
    by (simp add: info dec vs)
qed


text \<open>
  What holds of claim C1. The message \<^emph>\<open>matches\<close> the chain when its payment hash is
  64 hex digits, its program id and mint are public keys, the escrow address and the
  vault address recomputed from the payment hash, the program id and the mint are those
  of the message, the account fetched at the given commitment decodes to a version 2
  state with status 0 (active) whose payment hash, mint, recipient, refund and vault are
  those of the message and whose net amount and \<open>refund_after\<close> are the numbers of the
  message, and the vault token account belongs to the escrow address, is of the mint
  and holds the net amount plus the fee amount (message fields are compared after
  \<open>trim\<close>, the hash also in lower case). The guard returns \<open>ok\<close> exactly when the
  message matches, then with a null error and the decoded state. On a mismatch it
  either returns without \<open>ok\<close> and with an error that is not null, or it throws;
  it throws only when the fetch of the account throws, the account data does not
  decode, or \<open>amount\<close> or \<open>refund_after_unix\<close> of the message is no integer for
  \<open>BigInt\<close>. Whatever the connection and the message, a result returned without
  \<open>ok\<close> carries an error.
\<close>

theorem verifyLnUsdtEscrowOnchain_guard:
  fixes lib :: solana_lib and conn :: connection and body :: escrow_body and commitment :: js_string
  defines "result \<equiv> verifyLnUsdtEscrowOnchain lib (Some conn) (Some body) commitment"
  defines "matches \<equiv>
     (\<exists>programId mint pda bump data st vault.
          length (toLowerCase (trim (eb_payment_hash_hex body))) = 64
        \<and> list_all is_lower_hex (toLowerCase (trim (eb_payment_hash_hex body)))
        \<and> lib_fromBase58 lib (trim (eb_program_id body)) = Some programId
        \<and> lib_fromBase58 lib (trim (eb_mint body)) = Some mint
        \<and> lib_findProgramAddressSync lib
             [ESCROW_SEED, bytes_of_hex (toLowerCase (trim (eb_payment_hash_hex body)))] programId
             = (pda, bump)
        \<and> trim (eb_escrow_pda body) = lib_toBase58 lib pda
        \<and> trim (eb_vault_ata body) = lib_toBase58 lib (lib_getAssociatedTokenAddress lib mint pda)
        \<and> conn_getAccountInfo conn pda commitment = Inr (Some data)
        \<and> decodeEscrowState data = Inr st
        \<and> es_v st = 2 \<and> es_status st = 0
        \<and> toLowerCase (trim (es_paymentHashHex st)) = toLowerCase (trim (eb_payment_hash_hex body))
        \<and> lib_toBase58 lib (es_mint st) = trim (eb_mint body)
        \<and> lib_toBase58 lib (es_recipient st) = trim (eb_recipient body)
        \<and> lib_toBase58 lib (es_refund st) = trim (eb_refund body)
        \<and> lib_toBase58 lib (es_vault st) = trim (eb_vault_ata body)
        \<and> lib_BigInt lib (eb_amount body) = Some (int (es_netAmount st))
        \<and> lib_BigInt lib (eb_refund_after_unix body) = Some (es_refundAfter st)
        \<and> conn_getAccount conn (lib_getAssociatedTokenAddress lib mint pda) commitment = Inr vault
        \<and> ta_owner vault = pda \<and> ta_mint vault = mint
        \<and> ta_amount vault = es_netAmount st + es_feeAmount st)"
  shows
   "(\<forall>r. result = Inr r \<and> vr_ok r \<longrightarrow>
       matches \<and> vr_error r = None
       \<and> (\<exists>programId pda bump data st.
             lib_fromBase58 lib (trim (eb_program_id body)) = Some programId
           \<and> lib_findProgramAddressSync lib
               [ESCROW_SEED, bytes_of_hex (toLowerCase (trim (eb_payment_hash_hex body)))] programId
               = (pda, bump)
           \<and> conn_getAccountInfo conn pda commitment = Inr (Some data)
           \<and> decodeEscrowState data = Inr st \<and> vr_state r = Some st))
    \<and> (matches \<longrightarrow> (\<exists>r. result = Inr r \<and> vr_ok r))
    \<and> (\<not> matches \<longrightarrow>
         (\<exists>r. result = Inr r \<and> \<not> vr_ok r \<and> vr_error r \<noteq> None)
         \<or> (\<exists>e. result = Inl e
               \<and> ((\<exists>pda. conn_getAccountInfo conn pda commitment = Inl e
                      \<or> (\<exists>data. conn_getAccountInfo conn pda commitment = Inr (Some data)
                                \<and> decodeEscrowState data = Inl e))
                    \<or> lib_BigInt lib (eb_amount body) = None
                    \<or> lib_BigInt lib (eb_refund_after_unix body) = None)))
    \<and> (\<forall>connection escrowBody r.
          verifyLnUsdtEscrowOnchain lib connection escrowBody commitment = Inr r \<and> \<not> vr_ok r
          \<longrightarrow> vr_error r \<noteq> None)"
proof -
  have sound: "matches \<and> vr_error r = None
       \<and> (\<exists>programId pda bump data st.
             lib_fromBase58 lib (trim (eb_program_id body)) = Some programId
           \<and> lib_findProgramAddressSync lib
               [ESCROW_SEED, bytes_of_hex (toLowerCase (trim (eb_payment_hash_hex body)))] programId
               = (pda, bump)
           \<and> conn_getAccountInfo conn pda commitment = Inr (Some data)
           \<and> decodeEscrowState data = Inr st \<and> vr_state r = Some st)"
    if "result = Inr r" and "vr_ok r" for r
    using verify_returns_ok [of lib conn body commitment r] that
    unfolding result_def matches_def by blast
  have complete: "\<exists>r. result = Inr r \<and> vr_ok r" if matches
    using that unfolding matches_def result_def
    by (elim exE conjE) (rule verify_complete)
  have err: "vr_error r \<noteq> None"
    if "verifyLnUsdtEscrowOnchain lib connection escrowBody commitment = Inr r" and "\<not> vr_ok r"
    for connection escrowBody r
    using that by (rule verify_returns_error)
  have mismatch: "(\<exists>r. result = Inr r \<and> \<not> vr_ok r \<and> vr_error r \<noteq> None)
         \<or> (\<exists>e. result = Inl e
               \<and> ((\<exists>pda. conn_getAccountInfo conn pda commitment = Inl e
                      \<or> (\<exists>data. conn_getAccountInfo conn pda commitment = Inr (Some data)
                                \<and> decodeEscrowState data = Inl e))
                    \<or> lib_BigInt lib (eb_amount body) = None
                    \<or> lib_BigInt lib (eb_refund_after_unix body) = None))"
    if "\<not> matches"
  proof (cases result)
    case (Inl e)
    with verify_throws [of lib conn body commitment e] show ?thesis
      unfolding result_def by blast
  next
    case (Inr r)
    with sound that have "\<not> vr_ok r" by blast
    moreover from this Inr have "vr_error r \<noteq> None"
      using err [of "Some conn" "Some body" r] unfolding result_def by blast
    ultimately show ?thesis using Inr by blast
  qed
  show ?thesis
  proof (intro conjI allI impI)
    fix r assume "result = Inr r \<and> vr_ok r"
    then show "matches" and "vr_error r = None"
      and "\<exists>programId pda bump data st.
             lib_fromBase58 lib (trim (eb_program_id body)) = Some programId
           \<and> lib_findProgramAddressSync lib
               [ESCROW_SEED, bytes_of_hex (toLowerCase (trim (eb_payment_hash_hex body)))] programId
               = (pda, bump)
           \<and> conn_getAccountInfo conn pda commitment = Inr (Some data)
           \<and> decodeEscrowState data = Inr st \<and> vr_state r = Some st"
      using sound [of r] by blast+
  next
    assume matches
    then show "\<exists>r. result = Inr r \<and> vr_ok r" by (rule complete)
  next
    assume "\<not> matches"
    then show "(\<exists>r. result = Inr r \<and> \<not> vr_ok r \<and> vr_error r \<noteq> None)
         \<or> (\<exists>e. result = Inl e
               \<and> ((\<exists>pda. conn_getAccountInfo conn pda commitment = Inl e
                      \<or> (\<exists>data. conn_getAccountInfo conn pda commitment = Inr (Some data)
                                \<and> decodeEscrowState data = Inl e))
                    \<or> lib_BigInt lib (eb_amount body) = None
                    \<or> lib_BigInt lib (eb_refund_after_unix body) = None))"
      by (rule mismatch)
  next
    fix connection escrowBody r
    assume "verifyLnUsdtEscrowOnchain lib connection escrowBody commitment = Inr r \<and> \<not> vr_ok r"
    then show "vr_error r \<noteq> None" using err by blast
  qed
qed

lemma sample_hash: "length (replicate 64 (0x31 :: 16 word)) = 64"
  "list_all is_lower_hex (replicate 64 0x31)"
  by (simp_all add: list_all_iff is_lower_hex_def)

lemma sample_normalizeHex: "normalizeHex (replicate 64 0x31) = replicate 64 0x31"
  using sample_hash(2) by (simp add: normalizeHex_def hex_trim hex_toLowerCase)

lemma trim_js: "trim (js ''Prog'') = js ''Prog''" "trim (js ''Mint'') = js ''Mint''"
  "trim (js ''Pda'') = js ''Pda''" "trim (js ''Vault'') = js ''Vault''"
  "trim (js ''Recipient'') = js ''Recipient''" "trim (js ''Refund'') = js ''Refund''"
  by (simp_all add: trim_def js_def is_whitespace_def)

lemma sample_keys: "PublicKey (replicate 32 0x22) \<noteq> sample_pda" "PublicKey (replicate 32 0x33) \<noteq> sample_pda"
  "PublicKey (replicate 32 0x44) \<noteq> sample_pda" "PublicKey (replicate 32 0x66) \<noteq> sample_pda"
  "PublicKey (replicate 32 0x33) \<noteq> PublicKey (replicate 32 0x22)"
  "PublicKey (replicate 32 0x44) \<noteq> PublicKey (replicate 32 0x22)"
  "PublicKey (replicate 32 0x44) \<noteq> PublicKey (replicate 32 0x33)"
  "PublicKey (replicate 32 0x66) \<noteq> PublicKey (replicate 32 0x22)"
  "PublicKey (replicate 32 0x66) \<noteq> PublicKey (replicate 32 0x33)"
  "PublicKey (replicate 32 0x66) \<noteq> PublicKey (replicate 32 0x44)"
  by (simp_all add: sample_pda_def)

lemma sample_early:
  fixes a :: js_string
  defines "b \<equiv> sample_escrow_body\<lparr>eb_amount := a\<rparr>"
  shows "length (normalizeHex (eb_payment_hash_hex b)) = 64"
    "list_all is_lower_hex (normalizeHex (eb_payment_hash_hex b))"
    "lib_fromBase58 sample_lib (normalizeB58 (eb_program_id b)) = Some (PublicKey (replicate 32 0x01))"
    "lib_fromBase58 sample_lib (normalizeB58 (eb_mint b)) = Some (PublicKey (replicate 32 0x44))"
    "lib_findProgramAddressSync sample_lib
           [ESCROW_SEED, bytes_of_hex (normalizeHex (eb_payment_hash_hex b))] (PublicKey (replicate 32 0x01)) = (sample_pda, 255)"
    "normalizeB58 (eb_escrow_pda b) = lib_toBase58 sample_lib sample_pda"
    "normalizeB58 (eb_vault_ata b) = lib_toBase58 sample_lib (lib_getAssociatedTokenAddress sample_lib (PublicKey (replicate 32 0x44)) sample_pda)"
  unfolding b_def
  using sample_hash
  by (simp_all add: sample_escrow_body_def sample_normalizeHex sample_lib_def normalizeB58_def trim_js sample_keys)
     (simp_all add: js_def)

lemma sample_run_mismatch:
  "\<exists>msg st. verifyLnUsdtEscrowOnchain sample_lib (Some sample_connection)
      (Some (sample_escrow_body\<lparr>eb_amount := js ''999999''\<rparr>)) (js ''confirmed'')
     = Inr (rejected msg st)"
  unfolding verify_unfold [OF sample_early]
  apply (simp add: sample_connection_def decode_sample_escrow_account)
  apply (simp add: verify_state_def sample_normalizeHex sample_escrow_body_def sample_lib_def normalizeB58_def trim_js sample_keys)
  apply (simp add: js_def)
  apply blast
  done

lemma sample_run:
  "verifyLnUsdtEscrowOnchain sample_lib (Some sample_connection) (Some sample_escrow_body) (js ''confirmed'')
   = Inr \<lparr> vr_ok = True, vr_error = None,
           vr_state = Some \<lparr> es_v = 2, es_status = 0, es_paymentHashHex = replicate 64 0x31,
           es_recipient = PublicKey (replicate 32 0x22), es_refund = PublicKey (replicate 32 0x33),
           es_refundAfter = 86400, es_mint = PublicKey (replicate 32 0x44),
           es_amount = 1000000, es_netAmount = 1000000, es_feeAmount = 10000, es_feeBps = 100,
           es_feeCollector = Some (PublicKey (replicate 32 0x55)),
           es_vault = PublicKey (replicate 32 0x66), es_bump = 255 \<rparr>,
           vr_derived_escrow_pda = Some (js ''Pda''), vr_derived_vault_ata = Some (js ''Vault'') \<rparr>"
proof -
  have e: "length (normalizeHex (eb_payment_hash_hex sample_escrow_body)) = 64"
    "list_all is_lower_hex (normalizeHex (eb_payment_hash_hex sample_escrow_body))"
    "lib_fromBase58 sample_lib (normalizeB58 (eb_program_id sample_escrow_body)) = Some (PublicKey (replicate 32 0x01))"
    "lib_fromBase58 sample_lib (normalizeB58 (eb_mint sample_escrow_body)) = Some (PublicKey (replicate 32 0x44))"
    "lib_findProgramAddressSync sample_lib
           [ESCROW_SEED, bytes_of_hex (normalizeHex (eb_payment_hash_hex sample_escrow_body))] (PublicKey (replicate 32 0x01)) = (sample_pda, 255)"
    "normalizeB58 (eb_escrow_pda sample_escrow_body) = lib_toBase58 sample_lib sample_pda"
    "normalizeB58 (eb_vault_ata sample_escrow_body) = lib_toBase58 sample_lib (lib_getAssociatedTokenAddress sample_lib (PublicKey (replicate 32 0x44)) sample_pda)"
    using sample_hash
    by (simp_all add: sample_escrow_body_def sample_normalizeHex sample_lib_def normalizeB58_def trim_js sample_keys)
       (simp_all add: js_def)
  show ?thesis
    unfolding verify_unfold [OF e]
    apply (simp add: sample_connection_def decode_sample_escrow_account)
    apply (simp add: verify_state_def sample_normalizeHex sample_escrow_body_def sample_lib_def normalizeB58_def trim_js sample_keys)
    apply (simp add: js_def verify_vault_def)
    done
qed


theorem verifyLnUsdtEscrowOnchain_guard_witness:
  "(\<exists>r. verifyLnUsdtEscrowOnchain sample_lib (Some sample_connection) (Some sample_escrow_body)
           (js ''confirmed'') = Inr r
        \<and> vr_ok r \<and> vr_error r = None)
   \<and> (\<exists>data st vault. conn_getAccountInfo sample_connection sample_pda (js ''confirmed'') = Inr (Some data)
        \<and> decodeEscrowState data = Inr st \<and> es_v st = 2 \<and> es_status st = 0
        \<and> es_netAmount st = 1000000 \<and> es_feeAmount st = 10000
        \<and> conn_getAccount sample_connection (PublicKey (replicate 32 0x66)) (js ''confirmed'')
                  = Inr vault
        \<and> ta_owner vault = sample_pda \<and> ta_amount vault = 1000000 + 10000)
   \<and> (\<exists>r. verifyLnUsdtEscrowOnchain sample_lib (Some sample_connection)
             (Some (sample_escrow_body\<lparr>eb_amount := js ''999999''\<rparr>)) (js ''confirmed'') = Inr r
        \<and> \<not> vr_ok r \<and> vr_error r \<noteq> None)"
proof -
  note g = verifyLnUsdtEscrowOnchain_guard
    [of sample_lib sample_connection sample_escrow_body "js ''confirmed''"]
  note g' = verifyLnUsdtEscrowOnchain_guard
    [of sample_lib sample_connection "sample_escrow_body\<lparr>eb_amount := js ''999999''\<rparr>" "js ''confirmed''"]
  obtain r where r: "verifyLnUsdtEscrowOnchain sample_lib (Some sample_connection)
      (Some sample_escrow_body) (js ''confirmed'') = Inr r" "vr_ok r"
    using sample_run by simp
  from g r have err: "vr_error r = None" by blast
  from g r obtain programId mint pda bump data st vault where c:
    "lib_findProgramAddressSync sample_lib
       [ESCROW_SEED, bytes_of_hex (toLowerCase (trim (eb_payment_hash_hex sample_escrow_body)))] programId
       = (pda, bump)"
    "lib_fromBase58 sample_lib (trim (eb_mint sample_escrow_body)) = Some mint"
    "conn_getAccountInfo sample_connection pda (js ''confirmed'') = Inr (Some data)"
    "decodeEscrowState data = Inr st" "es_v st = 2" "es_status st = 0"
    "conn_getAccount sample_connection (lib_getAssociatedTokenAddress sample_lib mint pda)
       (js ''confirmed'') = Inr vault"
    "ta_owner vault = pda" "ta_amount vault = es_netAmount st + es_feeAmount st"
    by blast
  from c(1) have pda: "pda = sample_pda" by (simp add: sample_lib_def)
  from c(3) pda have data: "data = sample_escrow_account"
    by (simp add: sample_connection_def)
  from c(4) data have st: "es_netAmount st = 1000000" "es_feeAmount st = 10000"
    by (auto simp: decode_sample_escrow_account)
  have first: "\<exists>r. verifyLnUsdtEscrowOnchain sample_lib (Some sample_connection)
      (Some sample_escrow_body) (js ''confirmed'') = Inr r \<and> vr_ok r \<and> vr_error r = None"
    using r err by blast
  have second: "\<exists>data st vault. conn_getAccountInfo sample_connection sample_pda (js ''confirmed'') = Inr (Some data)
        \<and> decodeEscrowState data = Inr st \<and> es_v st = 2 \<and> es_status st = 0
        \<and> es_netAmount st = 1000000 \<and> es_feeAmount st = 10000
        \<and> conn_getAccount sample_connection (PublicKey (replicate 32 0x66)) (js ''confirmed'')
                  = Inr vault
        \<and> ta_owner vault = sample_pda \<and> ta_amount vault = 1000000 + 10000"
    using c(3-9) st pda by (auto simp: sample_lib_def)
  obtain msg st' where m: "verifyLnUsdtEscrowOnchain sample_lib (Some sample_connection)
      (Some (sample_escrow_body\<lparr>eb_amount := js ''999999''\<rparr>)) (js ''confirmed'')
     = Inr (rejected msg st')"
    using sample_run_mismatch by blast
  have nok: "\<not> vr_ok (rejected msg st')" by simp
  with g' m have "vr_error (rejected msg st') \<noteq> None" by blast
  with m nok have third: "\<exists>r. verifyLnUsdtEscrowOnchain sample_lib (Some sample_connection)
             (Some (sample_escrow_body\<lparr>eb_amount := js ''999999''\<rparr>)) (js ''confirmed'') = Inr r
        \<and> \<not> vr_ok r \<and> vr_error r \<noteq> None"
    by blast
  from first second third show ?thesis by blast
qed

text \<open>
  Claim C1 fails where the guard throws. The message below matches the chain in every
  field but \<open>amount\<close>, which is \<open>1.5\<close>: the conversion of the amount by \<open>BigInt\<close>
  throws a \<open>SyntaxError\<close> and the guard returns nothing, where the claim has it return
  a result that is not \<open>ok\<close> and carries an error. The conversions of the program id
  and the mint and the load of the vault account are guarded by a \<open>try\<close> that returns
  such a result; the two \<open>BigInt\<close> conversions and the fetch of the escrow account
  are not.
\<close>

theorem verifyLnUsdtEscrowOnchain_throws:
  "verifyLnUsdtEscrowOnchain sample_lib (Some sample_connection)
      (Some (sample_escrow_body\<lparr>eb_amount := js ''1.5''\<rparr>)) (js ''confirmed'')
   = Inl (SyntaxError (js ''Cannot convert 1.5 to a BigInt''))"
  unfolding verify_unfold [OF sample_early]
  apply (simp add: sample_connection_def decode_sample_escrow_account)
  apply (simp add: verify_state_def sample_normalizeHex sample_escrow_body_def sample_lib_def normalizeB58_def trim_js sample_keys)
  apply (simp add: js_def)
  done

section \<open>Properties of the redaction\<close>

lemma set_property_fresh: "k \<notin> fst ` set out \<Longrightarrow> set_property out k x = out @ [(k, x)]"
  by (induction out) auto

lemma set_property_subset: "set (set_property out k x) \<subseteq> insert (k, x) (set out)"
  by (induction out) (auto split: if_splits)

lemma shouldRedactKey_listed: "shouldRedactKey key = listed_key key"
  unfolding shouldRedactKey_def listed_key_def Let_def by auto

lemma sensitive_redacted_entries_iff:
  "sensitive_redacted_entries es \<longleftrightarrow>
     (\<forall>(k, v) \<in> set es. (listed_key k \<longrightarrow> v = redacted) \<and> sensitive_redacted v)"
  by (induction es) auto

lemma sensitive_redacted_assign:
  assumes "sensitive_redacted_entries out" and "listed_key k \<longrightarrow> x = redacted"
    and "sensitive_redacted x"
  shows "sensitive_redacted_entries (assign_entry out k x)"
  using assms set_property_subset [of out k x]
  by (auto simp: assign_entry_def sensitive_redacted_entries_iff)

lemma sensitive_redacted_redacted: "sensitive_redacted redacted"
  by (simp add: redacted_def)

lemma redact_all:
  "sensitive_redacted (redactSensitive m (v :: 'n jv))"
  "sensitive_redacted_list (redactArray m (vs :: 'n jv list))"
  "sensitive_redacted_entries out \<Longrightarrow> sensitive_redacted_entries (redactEntries m out (es :: (js_string \<times> 'n jv) list))"
proof (induction m v and m vs and m out es rule: redactSensitive_redactArray_redactEntries.induct)
  case (13 maxString out k v es)
  show ?case
  proof (cases "listed_key k")
    case True
    with 13 show ?thesis
      by (simp add: sensitive_redacted_assign sensitive_redacted_redacted shouldRedactKey_listed)
  next
    case False
    with 13 show ?thesis
      by (simp add: sensitive_redacted_assign shouldRedactKey_listed)
  qed
qed simp_all

lemma redactArray_map: "redactArray m vs = map (redactSensitive m) vs"
  by (induction vs) simp_all

lemma redactEntries_map:
  "distinct (map fst out @ map fst es) \<Longrightarrow>
   redactEntries m out es =
     out @ map (\<lambda>(k, x). (k, if listed_key k then redacted else redactSensitive m x))
             (filter (\<lambda>(k, x). k \<noteq> js ''__proto__'') es)"
proof (induction es arbitrary: out)
  case Nil
  then show ?case by simp
next
  case (Cons e es)
  obtain k v where e: "e = (k, v)" by (cases e)
  show ?case
  proof (cases "k = js ''__proto__''")
    case True
    with Cons e show ?thesis by (simp add: assign_entry_def)
  next
    case False
    let ?x = "if listed_key k then redacted else redactSensitive m v"
    have fresh: "k \<notin> fst ` set out" using Cons.prems e by auto
    have out': "assign_entry out k ?x = out @ [(k, ?x)]"
      using False fresh by (simp add: assign_entry_def set_property_fresh)
    have "distinct (map fst (out @ [(k, ?x)]) @ map fst es)"
      using Cons.prems e by auto
    from Cons.IH [OF this] show ?thesis
      using e False out' by (simp add: shouldRedactKey_listed)
  qed
qed

lemmas key_eval = listed_key_def js_def toLowerCase_def toLowerCase_unit_def
  startsWith_def endsWith_def

text \<open>
  Claim C7, amended. With an object taken as the list of its own enumerable entries:
  in the output of \<open>redactSensitive\<close> every object entry, at every nesting depth, whose
  lower-cased key contains \<open>token\<close>, \<open>api_key\<close>, \<open>apikey\<close>, \<open>authorization\<close>,
  \<open>macaroon\<close>, \<open>seed\<close>, \<open>password\<close> or \<open>preimage\<close>, or is \<open>auth\<close>, \<open>invite\<close>,
  \<open>invite_b64\<close>, \<open>welcome\<close> or \<open>welcome_b64\<close>, or ends with \<open>_invite_b64\<close> or
  \<open>_welcome_b64\<close>, holds the literal \<open><redacted>\<close>, and these are exactly the keys
  \<open>shouldRedactKey\<close> selects. Every other entry whose key is not \<open>__proto__\<close>
  keeps its key and its order among the entries and holds the redaction of its value
  (the equation for objects below also shows that an entry with the key \<open>__proto__\<close>
  is lost). The
  redaction of an array is the array of the redactions of its elements; a string of
  at most \<open>maxString\<close> code units is unchanged and a longer one is cut to its first
  \<open>maxString\<close> code units, followed by the marker that counts the code units cut; a
  bigint becomes its decimal string; a number, a boolean, \<open>null\<close> and \<open>undefined\<close>
  are unchanged; a function or a symbol is redacted as the string \<open>undefined\<close>.
\<close>

theorem redactSensitive_redacts_selected_keys:
  "sensitive_redacted (redactSensitive m v)
   \<and> (shouldRedactKey key \<longleftrightarrow> listed_key key)
   \<and> (distinct (map fst es) \<longrightarrow>
        redactSensitive m (JObject es) =
          JObject (map (\<lambda>(k, x). (k, if listed_key k then redacted else redactSensitive m x))
                       (filter (\<lambda>(k, x). k \<noteq> js ''__proto__'') es)))
   \<and> redactSensitive m (JArray vs) = JArray (map (redactSensitive m) vs)
   \<and> (length s \<le> m \<longrightarrow> redactSensitive m (JString s) = JString s)
   \<and> (m < length t \<longrightarrow>
        redactSensitive m (JString t) =
          JString (take m t @ [0x2026] @ js ''<truncated '' @ decimal (length t - m) @ js '' chars>''))
   \<and> redactSensitive m (JBigInt i) = JString (bigint_toString i)
   \<and> redactSensitive m (JNumber n) = JNumber n
   \<and> redactSensitive m (JBoolean b) = JBoolean b
   \<and> redactSensitive m JNull = JNull
   \<and> redactSensitive m JUndefined = JUndefined
   \<and> redactSensitive m JOther = redactSensitive m (JString (js ''undefined''))"
proof (intro conjI impI)
  show "sensitive_redacted (redactSensitive m v)"
    by (rule redact_all)
next
  show "shouldRedactKey key \<longleftrightarrow> listed_key key"
    by (rule shouldRedactKey_listed)
next
  assume "distinct (map fst es)"
  then show "redactSensitive m (JObject es) =
          JObject (map (\<lambda>(k, x). (k, if listed_key k then redacted else redactSensitive m x))
                       (filter (\<lambda>(k, x). k \<noteq> js ''__proto__'') es))"
    using redactEntries_map [of "[]" es m] by simp
next
  show "redactSensitive m (JArray vs) = JArray (map (redactSensitive m) vs)"
    by (simp add: redactArray_map)
next
  assume "length s \<le> m"
  then show "redactSensitive m (JString s) = JString s"
    by (simp add: truncateString_def)
next
  assume "m < length t"
  then show "redactSensitive m (JString t) =
          JString (take m t @ [0x2026] @ js ''<truncated '' @ decimal (length t - m) @ js '' chars>'')"
    by (simp add: truncateString_def)
qed simp_all

theorem redactSensitive_redacts_selected_keys_witness:
  "distinct (map fst sample_telemetry_entries)
   \<and> redactSensitive 2000 (JObject sample_telemetry_entries) =
       JObject [(js ''trade_id'', JString (js ''swap_1'')),
                (js ''ln_preimage_hex'', redacted),
                (js ''calls'', JArray [JObject [(js ''Invite'', redacted),
                                               (js ''amount'', JString (js ''5'')),
                                               (js ''peer_seed'', redacted)]])]
   \<and> sensitive_redacted (redactSensitive 2000 (JObject sample_telemetry_entries))
   \<and> shouldRedactKey (js ''ln_preimage_hex'') \<and> \<not> shouldRedactKey (js ''amount'')
   \<and> redactSensitive 2000 (JString (js ''swap_1'')) = (JString (js ''swap_1'') :: int jv)
   \<and> redactSensitive 4 (JString (js ''swap_1'')) =
        (JString (js ''swap'' @ [0x2026] @ js ''<truncated 2 chars>'') :: int jv)"
proof -
  have d: "distinct (map fst sample_telemetry_entries)"
    by (simp add: sample_telemetry_entries_def js_def)
  have k: "\<not> listed_key (js ''trade_id'')" "listed_key (js ''ln_preimage_hex'')"
    "\<not> listed_key (js ''calls'')" "listed_key (js ''Invite'')"
    "\<not> listed_key (js ''amount'')" "listed_key (js ''peer_seed'')"
    by (simp_all add: key_eval)
  have p: "js ''trade_id'' \<noteq> js ''__proto__''" "js ''ln_preimage_hex'' \<noteq> js ''__proto__''"
    "js ''calls'' \<noteq> js ''__proto__''" "js ''Invite'' \<noteq> js ''__proto__''"
    "js ''amount'' \<noteq> js ''__proto__''" "js ''peer_seed'' \<noteq> js ''__proto__''"
    by (simp_all add: js_def)
  have n: "js ''Invite'' \<noteq> js ''amount''" "js ''Invite'' \<noteq> js ''peer_seed''"
    "js ''amount'' \<noteq> js ''peer_seed''"
    by (simp_all add: js_def)
  have five: "bigint_toString 5 = js ''5''"
    by (simp add: bigint_toString_def decimal.simps js_def)
  have two: "decimal 2 = js ''2''"
    by (simp add: decimal.simps js_def)
  have len: "length (js ''swap_1'') = 6" "take 4 (js ''swap_1'') = js ''swap''"
    by (simp_all add: js_def)
  have cut: "js ''<truncated '' @ js ''2'' @ js '' chars>'' = js ''<truncated 2 chars>''"
    by (simp add: js_def)
  have t: "truncateString (js ''swap_1'') 2000 = js ''swap_1''"
    by (simp add: truncateString_def js_def)
  have e: "map (\<lambda>(k, x). (k, if listed_key k then redacted else redactSensitive 2000 x))
               (filter (\<lambda>(k, x). k \<noteq> js ''__proto__'') sample_telemetry_entries) =
       [(js ''trade_id'', JString (js ''swap_1'')),
        (js ''ln_preimage_hex'', redacted),
        (js ''calls'', JArray [JObject [(js ''Invite'', redacted),
                                       (js ''amount'', JString (js ''5'')),
                                       (js ''peer_seed'', redacted)]])]"
    by (simp add: sample_telemetry_entries_def k p n five t assign_entry_def shouldRedactKey_listed)
  have "redactSensitive 2000 (JObject sample_telemetry_entries) =
          JObject (map (\<lambda>(k, x). (k, if listed_key k then redacted else redactSensitive 2000 x))
                       (filter (\<lambda>(k, x). k \<noteq> js ''__proto__'') sample_telemetry_entries))"
    using d redactSensitive_redacts_selected_keys
      [of 2000 "JObject sample_telemetry_entries" "js ''ln_preimage_hex''" sample_telemetry_entries
          "[]" "js ''swap_1''" "replicate 2001 0" 5 1 True]
    by blast
  then have obj: "redactSensitive 2000 (JObject sample_telemetry_entries) =
       JObject [(js ''trade_id'', JString (js ''swap_1'')),
                (js ''ln_preimage_hex'', redacted),
                (js ''calls'', JArray [JObject [(js ''Invite'', redacted),
                                               (js ''amount'', JString (js ''5'')),
                                               (js ''peer_seed'', redacted)]])]"
    by (simp only: e)
  have long: "redactSensitive 4 (JString (js ''swap_1'')) =
        (JString (js ''swap'' @ [0x2026] @ js ''<truncated 2 chars>'') :: int jv)"
    using redactSensitive_redacts_selected_keys
      [of 4 "JNull :: int jv" "js ''amount''" "[]" "[]" "[]" "js ''swap_1''" 5 1 True]
    by (simp add: len two cut)
  have short: "redactSensitive 2000 (JString (js ''swap_1'')) = (JString (js ''swap_1'') :: int jv)"
    using redactSensitive_redacts_selected_keys
      [of 2000 "JNull :: int jv" "js ''amount''" "[]" "[]" "js ''swap_1''" "replicate 2001 0" 5 1 True]
    by (simp add: len)
  have keys: "shouldRedactKey (js ''ln_preimage_hex'') \<and> \<not> shouldRedactKey (js ''amount'')"
    using redactSensitive_redacts_selected_keys
      [of 4 "JNull :: int jv" "js ''amount''" "[]" "[]" "[]" "js ''swap_1''" 5 1 True]
      redactSensitive_redacts_selected_keys
      [of 4 "JNull :: int jv" "js ''ln_preimage_hex''" "[]" "[]" "[]" "js ''swap_1''" 5 1 True]
    by (simp add: k)
  have deep: "sensitive_redacted (redactSensitive 2000 (JObject sample_telemetry_entries))"
    using redactSensitive_redacts_selected_keys
      [of 2000 "JObject sample_telemetry_entries" "js ''amount''" "[]" "[]" "[]" "replicate 2001 0" 5 1 True]
    by blast
  from d obj deep keys short long show ?thesis
    by blast
qed

text \<open>
  Claim C7, as stated, fails twice. The maker keeps its signing secret under the name
  \<open>secHex\<close>, and an entry with that key passes through unredacted. An entry with
  the key \<open>__proto__\<close>, which is none of the keys to redact, is not preserved: the
  assignment to that key of the fresh object creates no entry.
\<close>

theorem redactSensitive_signing_key_counterexample:
  "redactSensitive 2000 (JObject [(js ''secHex'', JString (js ''9f3a''))])
     = (JObject [(js ''secHex'', JString (js ''9f3a''))] :: int jv)
   \<and> \<not> shouldRedactKey (js ''__proto__'')
   \<and> redactSensitive 2000 (JObject [(js ''__proto__'', JString (js ''x'')), (js ''trade_id'', JString (js ''swap_1''))])
     = (JObject [(js ''trade_id'', JString (js ''swap_1''))] :: int jv)"
proof -
  have k: "\<not> shouldRedactKey (js ''secHex'')" "\<not> shouldRedactKey (js ''__proto__'')"
    "\<not> shouldRedactKey (js ''trade_id'')"
    by (simp_all add: shouldRedactKey_listed key_eval)
  have ne: "js ''secHex'' \<noteq> js ''__proto__''" "js ''trade_id'' \<noteq> js ''__proto__''"
    by (simp_all add: js_def)
  have t: "truncateString (js ''9f3a'') 2000 = js ''9f3a''"
    "truncateString (js ''swap_1'') 2000 = js ''swap_1''"
    by (simp_all add: truncateString_def js_def)
  show ?thesis
    using k ne t by (simp add: assign_entry_def)
qed

section \<open>Properties of escrowctl\<close>











section \<open>Properties of the maker\<close>

subsection \<open>Steps and their actions\<close>

lemmas io_defs = io_return_def io_throw_def io_bind_def io_then_def io_emit_def io_modify_def
  io_get_def io_catch_def io_when_def io_lift_def

lemmas str_eval = trim_def is_whitespace_def toLowerCase_def toLowerCase_unit_def js_def

lemma io_bind_return: "io_bind (io_return x) f = f x"
  by (simp add: io_bind_def io_return_def)

lemma io_bind_throw: "io_bind (io_throw e) f = io_throw e"
  by (simp add: io_bind_def io_throw_def)

lemma emitsI:
  assumes "\<And>s tr. \<exists>out. snd (snd (m (s, tr))) = tr @ out \<and> list_all P out"
  shows "emits P m"
  using assms by (simp add: emits_def)

lemma emitsD:
  assumes "emits P m" and "m (s, tr) = (res, (s', tr'))"
  shows "\<exists>out. tr' = tr @ out \<and> list_all P out"
  using assms unfolding emits_def by (metis snd_conv)

lemma emits_return: "emits P (io_return x)"
  by (simp add: emits_def io_return_def)

lemma emits_throw: "emits P (io_throw e)"
  by (simp add: emits_def io_throw_def)



lemma emits_lift: "emits P (io_lift r)"
  by (cases r) (simp_all add: io_lift_def emits_return emits_throw)

lemma emits_emit: "P a \<Longrightarrow> emits P (io_emit a)"
  by (simp add: emits_def io_emit_def)

lemma emits_bind:
  assumes "emits P m" and "\<And>x. emits P (f x)"
  shows "emits P (io_bind m f)"
proof (rule emitsI)
  fix s tr
  obtain res s1 tr1 where m: "m (s, tr) = (res, (s1, tr1))"
    by (metis surj_pair)
  from emitsD [OF assms(1) m] obtain out1 where o1: "tr1 = tr @ out1" "list_all P out1"
    by blast
  show "\<exists>out. snd (snd (io_bind m f (s, tr))) = tr @ out \<and> list_all P out"
  proof (cases res)
    case (Inl e)
    with m o1 show ?thesis by (simp add: io_bind_def)
  next
    case (Inr x)
    obtain res2 s2 tr2 where f: "f x (s1, tr1) = (res2, (s2, tr2))"
      by (metis surj_pair)
    from emitsD [OF assms(2) f] obtain out2 where o2: "tr2 = tr1 @ out2" "list_all P out2"
      by blast
    from Inr m f o1 o2 show ?thesis by (simp add: io_bind_def)
  qed
qed


lemma emits_then: "emits P m \<Longrightarrow> emits P k \<Longrightarrow> emits P (io_then m k)"
  by (simp add: io_then_def emits_bind)

lemma emits_when: "emits P m \<Longrightarrow> emits P (io_when b m)"
  by (simp add: io_when_def emits_return)

lemma emits_catch:
  assumes "emits P m" and "\<And>e. emits P (h e)"
  shows "emits P (io_catch m h)"
proof (rule emitsI)
  fix s tr
  obtain res s1 tr1 where m: "m (s, tr) = (res, (s1, tr1))"
    by (metis surj_pair)
  from emitsD [OF assms(1) m] obtain out1 where o1: "tr1 = tr @ out1" "list_all P out1"
    by blast
  show "\<exists>out. snd (snd (io_catch m h (s, tr))) = tr @ out \<and> list_all P out"
  proof (cases res)
    case (Inr x)
    with m o1 show ?thesis by (simp add: io_catch_def)
  next
    case (Inl e)
    obtain res2 s2 tr2 where f: "h e (s1, tr1) = (res2, (s2, tr2))"
      by (metis surj_pair)
    from emitsD [OF assms(2) f] obtain out2 where o2: "tr2 = tr1 @ out2" "list_all P out2"
      by blast
    from Inl m f o1 o2 show ?thesis by (simp add: io_catch_def)
  qed
qed





lemma emits_send_checked: "P (Send ch e) \<Longrightarrow> emits P (send_checked rt ch e l)"
  unfolding send_checked_def
  by (intro emits_then emits_emit emits_lift)






lemma io_bind_get: "io_bind (io_get g) f (s, tr) = f (g s) (s, tr)"
  by (simp add: io_bind_def io_get_def)

lemma io_then_modify: "io_then (io_modify g) k (s, tr) = k (g s, tr)"
  by (simp add: io_then_def io_bind_def io_modify_def)

lemma io_then_emit: "io_then (io_emit a) k (s, tr) = k (s, tr @ [a])"
  by (simp add: io_then_def io_bind_def io_emit_def)





lemma stepsD: "steps R m \<Longrightarrow> m (s, tr) = (res, (s', tr')) \<Longrightarrow> R s s'"
  unfolding steps_def by (metis fst_conv snd_conv)

lemma steps_return: "reflp R \<Longrightarrow> steps R (io_return x)"
  by (simp add: steps_def io_return_def reflpD)

lemma steps_throw: "reflp R \<Longrightarrow> steps R (io_throw e)"
  by (simp add: steps_def io_throw_def reflpD)

lemma steps_get: "reflp R \<Longrightarrow> steps R (io_get f)"
  by (simp add: steps_def io_get_def reflpD)

lemma steps_emit: "reflp R \<Longrightarrow> steps R (io_emit a)"
  by (simp add: steps_def io_emit_def reflpD)

lemma steps_lift: "reflp R \<Longrightarrow> steps R (io_lift r)"
  by (cases r) (simp_all add: io_lift_def steps_return steps_throw)

lemma steps_modify: "(\<And>s. R s (f s)) \<Longrightarrow> steps R (io_modify f)"
  by (simp add: steps_def io_modify_def)

lemma steps_bind:
  assumes "transp R" and "steps R m" and "\<And>x. steps R (f x)"
  shows "steps R (io_bind m f)"
  unfolding steps_def
proof (intro allI)
  fix s tr
  obtain res s1 tr1 where m: "m (s, tr) = (res, (s1, tr1))"
    by (metis surj_pair)
  from stepsD [OF assms(2) m] have r1: "R s s1" .
  show "R s (fst (snd (io_bind m f (s, tr))))"
  proof (cases res)
    case (Inl e)
    with m r1 show ?thesis by (simp add: io_bind_def)
  next
    case (Inr x)
    obtain res2 s2 tr2 where f: "f x (s1, tr1) = (res2, (s2, tr2))"
      by (metis surj_pair)
    from stepsD [OF assms(3) f] have "R s1 s2" .
    with r1 assms(1) have "R s s2" by (blast dest: transpD)
    with Inr m f show ?thesis by (simp add: io_bind_def)
  qed
qed

lemma steps_bind_lift:
  assumes "reflp R" and "\<And>x. r = Inr x \<Longrightarrow> steps R (f x)"
  shows "steps R (io_bind (io_lift r) f)"
  using assms by (cases r) (simp_all add: io_lift_def io_bind_return io_bind_throw steps_throw)

lemma steps_bind_get:
  assumes "\<And>s. steps R (f (g s))" 
  shows "steps R (io_bind (io_get g) f)"
  using assms by (simp add: steps_def io_bind_get)

lemma steps_then: "transp R \<Longrightarrow> steps R m \<Longrightarrow> steps R k \<Longrightarrow> steps R (io_then m k)"
  by (simp add: io_then_def steps_bind)

lemma steps_when: "reflp R \<Longrightarrow> steps R m \<Longrightarrow> steps R (io_when b m)"
  by (simp add: io_when_def steps_return)

lemma steps_catch:
  assumes "transp R" and "steps R m" and "\<And>e. steps R (h e)"
  shows "steps R (io_catch m h)"
  unfolding steps_def
proof (intro allI)
  fix s tr
  obtain res s1 tr1 where m: "m (s, tr) = (res, (s1, tr1))"
    by (metis surj_pair)
  from stepsD [OF assms(2) m] have r1: "R s s1" .
  show "R s (fst (snd (io_catch m h (s, tr))))"
  proof (cases res)
    case (Inr x)
    with m r1 show ?thesis by (simp add: io_catch_def)
  next
    case (Inl e)
    obtain res2 s2 tr2 where f: "h e (s1, tr1) = (res2, (s2, tr2))"
      by (metis surj_pair)
    from stepsD [OF assms(3) f] have "R s1 s2" .
    with r1 assms(1) have "R s s2" by (blast dest: transpD)
    with Inl m f show ?thesis by (simp add: io_catch_def)
  qed
qed

lemma steps_send_checked: "reflp R \<Longrightarrow> transp R \<Longrightarrow> steps R (send_checked rt ch e l)"
  unfolding send_checked_def by (intro steps_then steps_emit steps_lift)

lemma steps_send_unchecked: "reflp R \<Longrightarrow> transp R \<Longrightarrow> steps R (send_unchecked rt ch e)"
  unfolding send_unchecked_def
  by (intro steps_then steps_emit) (auto split: sc_response.splits intro: steps_return steps_throw)

lemma steps_persistTrade: "reflp R \<Longrightarrow> transp R \<Longrightarrow> steps R (persistTrade rt cfg t p k)"
  unfolding persistTrade_def
  by (auto intro!: steps_then steps_emit steps_return split: option.splits)


lemma set_lock_Some:
  "rfqLocks s k = Some lock \<Longrightarrow>
   io_then (set_lock k f) m (s, tr) = m (s\<lparr>rfqLocks := (rfqLocks s)(k \<mapsto> f lock)\<rparr>, tr)"
  by (simp add: set_lock_def io_then_modify)

lemma send_checked_run:
  "send_checked rt ch e l (s, tr) = (ensureOk (rt_send rt ch e) l, (s, tr @ [Send ch e]))"
  unfolding send_checked_def io_then_emit
  by (cases "ensureOk (rt_send rt ch e) l") (simp_all add: io_lift_def io_throw_def io_return_def)

lemma io_catch_return: "io_catch (io_return x) h = io_return x"
  by (simp add: io_catch_def io_return_def fun_eq_iff)

subsection \<open>The sample maker\<close>

lemma sample_key: "buildRfqLockKey sample_rfq = sample_lock_key"
  by (simp add: buildRfqLockKey_def sample_rfq_def sample_lock_key_def rfq_of_def opt_str_def
      opt_int_str_def normalizeAmountString_def is_digit_def bigint_toString_def decimal.simps
      PAIR_BTC_LN__USDT_SOL_def direction_BTC_LN_to_USDT_SOL_def str_eval)

lemma sample_rfq_passes:
  "rt_validateSwapEnvelope sample_runtime sample_rfq"
  "toLowerCase (trim (opt_str (rb_app_hash (rfq_of (e_body sample_rfq))))) = expectedAppHash sample_maker_config"
  "\<forall>u. rb_valid_until_unix (rfq_of (e_body sample_rfq)) = Some u \<longrightarrow> rt_now sample_runtime 779 div 1000 < u"
  "trim (opt_str (rb_sol_recipient (rfq_of (e_body sample_rfq)))) \<noteq> []"
  "e_kind sample_rfq = KIND_RFQ"
  by (simp_all add: sample_runtime_def sample_rfq_def sample_maker_config_def rfq_of_def opt_str_def
      str_eval)

lemma sample_channel: "rfqChannel sample_maker_config = js ''0000intercomswapbtcusdt''"
  by (simp add: sample_maker_config_def)

lemma sample_quoted_lookup:
  "swaps sample_state_quoted (js ''0000intercomswapbtcusdt'') = None"
  "rfqLocks sample_state_quoted sample_lock_key = Some sample_lock"
  "quotes sample_state_quoted (js ''h1'') = Some sample_quote_record"
  by (simp_all add: sample_state_quoted_def empty_maker_state_def)

lemma sample_swapping_lookup:
  "swaps sample_state_swapping (js ''0000intercomswapbtcusdt'') = None"
  "swaps sample_state_swapping (js ''swap:t1'') = Some 0"
  "rfqLocks sample_state_swapping sample_lock_key = Some sample_lock_swapping"
  "ctx_store sample_state_swapping 0 = Some sample_ctx"
  by (simp_all add: sample_state_swapping_def js_def)

lemma sample_lock_fields:
  "lk_state sample_lock = quoted" "lk_signedQuote sample_lock = Some sample_quote"
  "lk_quoteValidUntilUnix sample_lock = 1700000060" "lk_state sample_lock_swapping = swapping"
  by (simp_all add: sample_lock_def sample_lock_swapping_def)

lemma sample_fees:
  "fetchFeeSnapshot sample_runtime sample_maker_config =
     Inr \<lparr> fs_platformFeeBps = 10, fs_platformFeeCollector = Some (js ''Fee''),
           fs_tradeFeeBps = 10, fs_tradeFeeCollector = Some (js ''Fee'') \<rparr>"
  by (simp add: fetchFeeSnapshot_def sample_runtime_def sample_maker_config_def)

lemma sample_quote_rfq:
  "quote_rfq sample_runtime sample_maker_config sample_rfq (js ''h1'') (js ''Rcpt'') sample_lock_key
     1700000000500 (empty_maker_state, [])
   = (Inr (), (sample_state_quoted, [Send (js ''0000intercomswapbtcusdt'') sample_quote]))"
  unfolding quote_rfq_def sample_fees Let_def
  by (simp add: io_defs send_checked_def ensureOk_def signSwapEnvelope_def createUnsignedEnvelope_def
      sample_runtime_def sample_maker_config_def sample_rfq_def rfq_of_def opt_str_def
      sample_state_quoted_def sample_quote_def sample_quote_record_def sample_lock_def
      empty_maker_state_def is_digit_def str_eval)

lemma sample_handle_rfq:
  "handle_rfq sample_runtime sample_maker_config sample_rfq (empty_maker_state, [])
   = (Inr (), (sample_state_quoted, [Send (js ''0000intercomswapbtcusdt'') sample_quote]))"
proof -
  have "handle_rfq sample_runtime sample_maker_config sample_rfq (empty_maker_state, [])
      = quote_rfq sample_runtime sample_maker_config sample_rfq (js ''h1'') (js ''Rcpt'') sample_lock_key
         1700000000500 (empty_maker_state, [])"
    unfolding handle_rfq_def Let_def sample_key
    by (simp add: io_defs sample_runtime_def sample_maker_config_def sample_rfq_def rfq_of_def
        opt_str_def empty_maker_state_def str_eval)
  then show ?thesis
    by (simp add: sample_quote_rfq)
qed

subsection \<open>A repeated RFQ\<close>

lemma handle_rfq_lock:
  assumes "rt_validateSwapEnvelope rt msg"
    and "toLowerCase (trim (opt_str (rb_app_hash (rfq_of (e_body msg))))) = expectedAppHash cfg"
    and "\<forall>u. rb_valid_until_unix (rfq_of (e_body msg)) = Some u \<longrightarrow> rt_now rt 779 div 1000 < u"
    and "runSwap cfg \<longrightarrow> trim (opt_str (rb_sol_recipient (rfq_of (e_body msg)))) \<noteq> []"
    and "rfqLocks s (buildRfqLockKey msg) = Some lock"
  shows "handle_rfq rt cfg msg (s, tr)
         = rfq_with_lock rt cfg msg (rt_hashUnsignedEnvelope rt (stripSignature msg))
             (trim (opt_str (rb_sol_recipient (rfq_of (e_body msg))))) (buildRfqLockKey msg)
             (rt_now rt 792) lock (s, tr)"
proof -
  have "\<not> (case rb_valid_until_unix (rfq_of (e_body msg)) of
            Some u \<Rightarrow> u \<le> rt_now rt 779 div 1000 | None \<Rightarrow> False)"
    using assms(3) by (auto split: option.splits)
  then show ?thesis
    unfolding handle_rfq_def Let_def
    using assms(1,2,4,5)
    by (auto simp: io_bind_get)
qed

lemma rfq_with_lock_resend:
  assumes "rfqLocks s key = Some lock" and "lk_state lock = quoted"
    and "lk_signedQuote lock = Some signedQuote" and "lk_quoteValidUntilUnix lock > now div 1000"
  shows "rfq_with_lock rt cfg msg rfqId solRecipient key now lock (s, tr)
         = (ensureOk (rt_send rt (rfqChannel cfg) signedQuote) (js ''resend quote''),
            (s\<lparr>rfqLocks := (rfqLocks s)(key \<mapsto> lock\<lparr>lk_lastSeenMs := now\<rparr>)\<rparr>,
             tr @ [Send (rfqChannel cfg) signedQuote]))"
  unfolding rfq_with_lock_def Let_def
  using assms(2-4)
  by (simp add: set_lock_Some [OF assms(1)] send_checked_run)

lemma rfq_with_lock_in_flight:
  assumes "rfqLocks s key = Some lock" and "lk_state lock = accepting \<or> lk_state lock = swapping"
  shows "rfq_with_lock rt cfg msg rfqId solRecipient key now lock (s, tr)
         = (Inr (), (s\<lparr>rfqLocks := (rfqLocks s)(key \<mapsto> lock\<lparr>lk_lastSeenMs := now\<rparr>)\<rparr>, tr))"
  unfolding rfq_with_lock_def Let_def
  using assms(2)
  by (auto simp: set_lock_Some [OF assms(1)] io_return_def)

lemma handle_rfq_in_flight:
  assumes "rfqLocks s (buildRfqLockKey msg) = Some lock"
    and "lk_state lock = accepting \<or> lk_state lock = swapping"
  shows "handle_rfq rt cfg msg (s, tr) = (Inr (), (s, tr))
       \<or> handle_rfq rt cfg msg (s, tr)
          = (Inr (), (s\<lparr>rfqLocks := (rfqLocks s)(buildRfqLockKey msg \<mapsto> lock\<lparr>lk_lastSeenMs := rt_now rt 792\<rparr>)\<rparr>, tr))"
  unfolding handle_rfq_def Let_def
  using assms(1) rfq_with_lock_in_flight [OF assms]
  by (simp add: io_bind_get io_return_def)

lemma rfq_branch:
  assumes "swaps s (rfqChannel cfg) = None" and "e_kind msg = KIND_RFQ"
  shows "on_sidechannel_message rt cfg (rfqChannel cfg) msg (s, tr)
         = snd (handle_rfq rt cfg msg (s, tr))"
  unfolding on_sidechannel_message_def
  using assms
  by (cases "handle_rfq rt cfg msg (s, tr)"; cases "fst (handle_rfq rt cfg msg (s, tr))")
     (simp_all add: io_catch_def io_bind_get io_return_def)

text \<open>
  Claim C3. An RFQ arrives on the RFQ channel and the key computed from it has a lock.
  If the RFQ passes the filters that precede the computation of the key (validation,
  application hash, expiry, recipient), the lock is \<open>quoted\<close>, holds a signed quote,
  and its \<open>quoteValidUntilUnix\<close> is later than the current second, then the only
  action is one send of the stored signed quote on the RFQ channel and the only change
  of state is the \<open>lastSeenMs\<close> of the lock: no quote is built or recorded. If the
  lock is \<open>accepting\<close> or \<open>swapping\<close>, nothing is sent and the state is unchanged
  but for the \<open>lastSeenMs\<close> of the lock, whatever the RFQ.
\<close>

theorem rfq_repost_under_lock:
  assumes "swaps s (rfqChannel cfg) = None" and "e_kind msg = KIND_RFQ"
    and "rfqLocks s (buildRfqLockKey msg) = Some lock"
  shows "(rt_validateSwapEnvelope rt msg
          \<and> toLowerCase (trim (opt_str (rb_app_hash (rfq_of (e_body msg))))) = expectedAppHash cfg
          \<and> (\<forall>u. rb_valid_until_unix (rfq_of (e_body msg)) = Some u \<longrightarrow> rt_now rt 779 div 1000 < u)
          \<and> (runSwap cfg \<longrightarrow> trim (opt_str (rb_sol_recipient (rfq_of (e_body msg)))) \<noteq> [])
          \<and> lk_state lock = quoted \<and> lk_signedQuote lock = Some signedQuote
          \<and> rt_now rt 792 div 1000 < lk_quoteValidUntilUnix lock
          \<longrightarrow> on_sidechannel_message rt cfg (rfqChannel cfg) msg (s, tr)
              = (s\<lparr>rfqLocks := (rfqLocks s)(buildRfqLockKey msg \<mapsto> lock\<lparr>lk_lastSeenMs := rt_now rt 792\<rparr>)\<rparr>,
                 tr @ [Send (rfqChannel cfg) signedQuote]))
       \<and> (lk_state lock = accepting \<or> lk_state lock = swapping
          \<longrightarrow> on_sidechannel_message rt cfg (rfqChannel cfg) msg (s, tr) = (s, tr)
            \<or> on_sidechannel_message rt cfg (rfqChannel cfg) msg (s, tr)
              = (s\<lparr>rfqLocks := (rfqLocks s)(buildRfqLockKey msg \<mapsto> lock\<lparr>lk_lastSeenMs := rt_now rt 792\<rparr>)\<rparr>,
                 tr))"
proof (intro conjI impI)
  assume a: "rt_validateSwapEnvelope rt msg
          \<and> toLowerCase (trim (opt_str (rb_app_hash (rfq_of (e_body msg))))) = expectedAppHash cfg
          \<and> (\<forall>u. rb_valid_until_unix (rfq_of (e_body msg)) = Some u \<longrightarrow> rt_now rt 779 div 1000 < u)
          \<and> (runSwap cfg \<longrightarrow> trim (opt_str (rb_sol_recipient (rfq_of (e_body msg)))) \<noteq> [])
          \<and> lk_state lock = quoted \<and> lk_signedQuote lock = Some signedQuote
          \<and> rt_now rt 792 div 1000 < lk_quoteValidUntilUnix lock"
  then have "handle_rfq rt cfg msg (s, tr)
         = rfq_with_lock rt cfg msg (rt_hashUnsignedEnvelope rt (stripSignature msg))
             (trim (opt_str (rb_sol_recipient (rfq_of (e_body msg))))) (buildRfqLockKey msg)
             (rt_now rt 792) lock (s, tr)"
    using handle_rfq_lock [OF _ _ _ _ assms(3), of rt cfg tr] by blast
  also have "\<dots> = (ensureOk (rt_send rt (rfqChannel cfg) signedQuote) (js ''resend quote''),
            (s\<lparr>rfqLocks := (rfqLocks s)(buildRfqLockKey msg \<mapsto> lock\<lparr>lk_lastSeenMs := rt_now rt 792\<rparr>)\<rparr>,
             tr @ [Send (rfqChannel cfg) signedQuote]))"
    using a by (intro rfq_with_lock_resend [OF assms(3)]) simp_all
  finally show "on_sidechannel_message rt cfg (rfqChannel cfg) msg (s, tr)
              = (s\<lparr>rfqLocks := (rfqLocks s)(buildRfqLockKey msg \<mapsto> lock\<lparr>lk_lastSeenMs := rt_now rt 792\<rparr>)\<rparr>,
                 tr @ [Send (rfqChannel cfg) signedQuote])"
    by (simp add: rfq_branch [OF assms(1,2)])
next
  assume "lk_state lock = accepting \<or> lk_state lock = swapping"
  from handle_rfq_in_flight [OF assms(3) this, of rt cfg tr]
  show "on_sidechannel_message rt cfg (rfqChannel cfg) msg (s, tr) = (s, tr)
            \<or> on_sidechannel_message rt cfg (rfqChannel cfg) msg (s, tr)
              = (s\<lparr>rfqLocks := (rfqLocks s)(buildRfqLockKey msg \<mapsto> lock\<lparr>lk_lastSeenMs := rt_now rt 792\<rparr>)\<rparr>,
                 tr)"
    by (auto simp: rfq_branch [OF assms(1,2)])
qed


theorem rfq_repost_under_lock_witness:
  "rfqLocks sample_state_quoted (buildRfqLockKey sample_rfq) = Some sample_lock
   \<and> lk_state sample_lock = quoted \<and> lk_signedQuote sample_lock = Some sample_quote
   \<and> on_sidechannel_message sample_runtime sample_maker_config (js ''0000intercomswapbtcusdt'')
        sample_rfq (sample_state_quoted, [])
      = (sample_state_quoted
           \<lparr>rfqLocks := (rfqLocks sample_state_quoted)
              (sample_lock_key \<mapsto> sample_lock\<lparr>lk_lastSeenMs := 1700000000500\<rparr>)\<rparr>,
         [Send (js ''0000intercomswapbtcusdt'') sample_quote])
   \<and> rfqLocks sample_state_swapping (buildRfqLockKey sample_rfq) = Some sample_lock_swapping
   \<and> lk_state sample_lock_swapping = swapping
   \<and> (on_sidechannel_message sample_runtime sample_maker_config (js ''0000intercomswapbtcusdt'')
         sample_rfq (sample_state_swapping, []) = (sample_state_swapping, [])
       \<or> on_sidechannel_message sample_runtime sample_maker_config (js ''0000intercomswapbtcusdt'')
         sample_rfq (sample_state_swapping, [])
         = (sample_state_swapping
              \<lparr>rfqLocks := (rfqLocks sample_state_swapping)
                 (sample_lock_key \<mapsto> sample_lock_swapping\<lparr>lk_lastSeenMs := 1700000000500\<rparr>)\<rparr>,
            []))"
proof -
  have now: "rt_now sample_runtime 792 = 1700000000500"
    by (simp add: sample_runtime_def)
  have l1: "rfqLocks sample_state_quoted (buildRfqLockKey sample_rfq) = Some sample_lock"
    and l2: "rfqLocks sample_state_swapping (buildRfqLockKey sample_rfq) = Some sample_lock_swapping"
    and s1: "swaps sample_state_quoted (rfqChannel sample_maker_config) = None"
    and s2: "swaps sample_state_swapping (rfqChannel sample_maker_config) = None"
    by (simp_all add: sample_key sample_quoted_lookup sample_swapping_lookup sample_channel)
  from rfq_repost_under_lock [OF s1 sample_rfq_passes(5) l1, of sample_runtime sample_quote "[]"]
    rfq_repost_under_lock [OF s2 sample_rfq_passes(5) l2, of sample_runtime sample_quote "[]"]
    l1 l2
  show ?thesis
    by (simp add: sample_rfq_passes sample_lock_fields sample_channel sample_key now)
qed

subsection \<open>Who may accept a quote\<close>

lemma quotes_from_refl: "reflp (quotes_from x)"
  by (simp add: reflp_def quotes_from_def)

lemma quotes_from_trans: "transp (quotes_from x)"
  unfolding transp_def quotes_from_def by blast

lemma quotes_from_same: "quotes s' = quotes s \<Longrightarrow> quotes_from x s s'"
  by (simp add: quotes_from_def)

lemma quotes_clearRfqLock: "quotes (clearRfqLock k s) = quotes s"
  by (simp add: clearRfqLock_def Let_def split: option.splits)

lemma steps_set_lock_quotes: "steps (quotes_from x) (set_lock k f)"
  unfolding set_lock_def
  by (rule steps_modify) (simp add: quotes_from_def split: option.splits)

lemma steps_quote_rfq:
  "steps (quotes_from (toLowerCase (trim (opt_str (e_signer msg)))))
     (quote_rfq rt cfg msg rfqId solRecipient lockKey lockNowMs)"
  unfolding quote_rfq_def Let_def
  apply (intro steps_bind_lift quotes_from_refl)
  apply (auto intro!: steps_return steps_bind_lift steps_then steps_send_checked steps_modify
      quotes_from_refl quotes_from_trans simp: quotes_from_def)
  done

lemma steps_handle_rfq:
  "steps (quotes_from (toLowerCase (trim (opt_str (e_signer msg))))) (handle_rfq rt cfg msg)"
  unfolding handle_rfq_def rfq_with_lock_def Let_def
  by (auto intro!: steps_return steps_bind_get steps_then steps_send_checked steps_modify
      steps_quote_rfq steps_set_lock_quotes steps_when
      quotes_from_refl quotes_from_trans quotes_from_same quotes_clearRfqLock
      split: option.splits)


lemma handle_quote_accept_other_signer:
  assumes "e_body msg = QuoteAcceptBody q r"
    and "quotes s (toLowerCase (trim (opt_str q))) = Some known"
    and "qr_rfq_signer known \<noteq> []"
    and "toLowerCase (trim (opt_str (e_signer msg))) \<noteq> toLowerCase (trim (qr_rfq_signer known))"
  shows "handle_quote_accept rt cfg msg (s, tr) = (Inr (), (s, tr))"
  unfolding handle_quote_accept_def Let_def
  using assms
  by (simp add: io_bind_get io_return_def)

text \<open>
  Claim C4. A QUOTE_ACCEPT arrives on the RFQ channel for a quote on record whose
  \<open>rfq_signer\<close> is not empty. If the signer of the message, trimmed and in lower
  case, differs from the recorded signer of the RFQ, the handler ends with the state
  and the list of actions as they were: nothing is sent, joined or recorded. So the
  maker goes on to the invite, the join and the terms only for the signer of the RFQ.
  The record of a quote that the RFQ branch adds carries the signer of that RFQ,
  trimmed and in lower case.
\<close>

theorem quote_accept_signer_guard:
  "(swaps s (rfqChannel cfg) = None
    \<and> e_kind msg = KIND_QUOTE_ACCEPT
    \<and> e_body msg = QuoteAcceptBody q r
    \<and> quotes s (toLowerCase (trim (opt_str q))) = Some known
    \<and> qr_rfq_signer known \<noteq> []
    \<and> toLowerCase (trim (opt_str (e_signer msg))) \<noteq> toLowerCase (trim (qr_rfq_signer known))
    \<longrightarrow> on_sidechannel_message rt cfg (rfqChannel cfg) msg (s, tr) = (s, tr))
   \<and> (\<forall>rfq s0 tr0 res s1 tr1 quoteId added.
         handle_rfq rt cfg rfq (s0, tr0) = (res, (s1, tr1))
         \<and> quotes s1 quoteId = Some added \<and> quotes s0 quoteId \<noteq> Some added
         \<longrightarrow> qr_rfq_signer added = toLowerCase (trim (opt_str (e_signer rfq))))"
proof (intro conjI impI allI)
  assume a: "swaps s (rfqChannel cfg) = None
    \<and> e_kind msg = KIND_QUOTE_ACCEPT
    \<and> e_body msg = QuoteAcceptBody q r
    \<and> quotes s (toLowerCase (trim (opt_str q))) = Some known
    \<and> qr_rfq_signer known \<noteq> []
    \<and> toLowerCase (trim (opt_str (e_signer msg))) \<noteq> toLowerCase (trim (qr_rfq_signer known))"
  then have "handle_quote_accept rt cfg msg (s, tr) = (Inr (), (s, tr))"
    using handle_quote_accept_other_signer [of msg q r s known rt cfg tr] by blast
  with a show "on_sidechannel_message rt cfg (rfqChannel cfg) msg (s, tr) = (s, tr)"
    unfolding on_sidechannel_message_def
    by (simp add: io_catch_def io_bind_get)
next
  fix rfq s0 tr0 res s1 tr1 quoteId added
  assume a: "handle_rfq rt cfg rfq (s0, tr0) = (res, (s1, tr1))
         \<and> quotes s1 quoteId = Some added \<and> quotes s0 quoteId \<noteq> Some added"
  from stepsD [OF steps_handle_rfq conjunct1 [OF a]] a
  show "qr_rfq_signer added = toLowerCase (trim (opt_str (e_signer rfq)))"
    unfolding quotes_from_def by blast
qed

theorem quote_accept_signer_guard_witness:
  "handle_rfq sample_runtime sample_maker_config sample_rfq (empty_maker_state, [])
     = (Inr (), (sample_state_quoted, [Send (js ''0000intercomswapbtcusdt'') sample_quote]))
   \<and> quotes empty_maker_state (js ''h1'') = None
   \<and> quotes sample_state_quoted (js ''h1'') = Some sample_quote_record
   \<and> qr_rfq_signer sample_quote_record = js ''bb''
   \<and> e_signer sample_rfq = Some (js ''bb'')
   \<and> e_signer sample_hijack_accept = Some (js ''cc'')
   \<and> e_body sample_hijack_accept = QuoteAcceptBody (Some (js ''h1'')) (Some (js ''h1''))
   \<and> on_sidechannel_message sample_runtime sample_maker_config (js ''0000intercomswapbtcusdt'')
        sample_hijack_accept (sample_state_quoted, [])
      = (sample_state_quoted, [])"
proof -
  have facts:
    "e_kind sample_hijack_accept = KIND_QUOTE_ACCEPT"
    "e_body sample_hijack_accept = QuoteAcceptBody (Some (js ''h1'')) (Some (js ''h1''))"
    "e_signer sample_hijack_accept = Some (js ''cc'')"
    "e_signer sample_rfq = Some (js ''bb'')"
    "qr_rfq_signer sample_quote_record = js ''bb''"
    "quotes empty_maker_state (js ''h1'') = None"
    by (simp_all add: sample_hijack_accept_def sample_quote_accept_def sample_rfq_def
        sample_quote_record_def empty_maker_state_def)
  have norm:
    "toLowerCase (trim (opt_str (Some (js ''h1'')))) = js ''h1''"
    "toLowerCase (trim (opt_str (Some (js ''cc'')))) = js ''cc''"
    "toLowerCase (trim (opt_str (Some (js ''bb'')))) = js ''bb''"
    "toLowerCase (trim (js ''bb'')) = js ''bb''"
    "js ''bb'' \<noteq> []" "js ''cc'' \<noteq> js ''bb''"
    by (simp_all add: opt_str_def str_eval)
  from quote_accept_signer_guard [of sample_state_quoted sample_maker_config sample_hijack_accept
      "Some (js ''h1'')" "Some (js ''h1'')" sample_quote_record sample_runtime "[]"]
  have "on_sidechannel_message sample_runtime sample_maker_config (js ''0000intercomswapbtcusdt'')
        sample_hijack_accept (sample_state_quoted, []) = (sample_state_quoted, [])"
    by (simp add: facts norm sample_quoted_lookup sample_channel)
  with facts sample_handle_rfq sample_quoted_lookup show ?thesis
    by simp
qed

section \<open>The maker: what the swap handlers and the resend task send\<close>















lemma sends_simps [simp]:
  "sends Q (Send ch e) = Q e" "sends Q (Join c) = True" "sends Q (Subscribe c) = True"
  "sends Q (Leave c) = True" "sends Q (UpsertTrade t p) = True" "sends Q (AppendEvent t k) = True"
  "sends Q (Stdout x) = True" "sends Q (Die x) = True" "sends Q (ScheduleExit n) = True"
  "sends Q CallLnInvoice = True" "sends Q SubmitEscrowTx = True"
  by (simp_all add: sends_def)





































lemma send_checked_ok:
  "ensureOk (rt_send rt ch e) l = Inr x \<Longrightarrow> send_checked rt ch e l (s, tr) = (Inr x, (s, tr @ [Send ch e]))"
  by (simp add: send_checked_run)






subsection \<open>The start of the maker and the refund window of its terms\<close>


lemma and_then_Inl: "and_then (Inl e) f = Inl e"
  by (simp add: and_then_def)

lemma and_then_Inr: "and_then (Inr x) f = f x"
  by (simp add: and_then_def)

lemma and_then_cases: "(\<exists>e. and_then m f = Inl e) \<or> (\<exists>x. m = Inr x \<and> and_then m f = f x)"
  by (cases m) (simp_all add: and_then_def)






lemma js_ne: "js (c # cs) \<noteq> []"
  by (simp add: js_def)





















lemma sample_swapping_ctx: "ctx_store sample_state_swapping 0 = Some sample_ctx"
  by (simp add: sample_state_swapping_def)






lemma sample_stored:
  "cx_sent_terms (ctx_of sample_state_swapping 0) = Some sample_terms"
  "cx_sent_swap_invite (ctx_of sample_state_swapping 0) = Some sample_swap_invite"
  by (simp_all add: ctx_of_def sample_swapping_ctx sample_ctx_def)



end
